theory Spec2Isabelle
  imports Main "HOL-Library.Word" "HOL-Library.Product_Lexorder"
begin

unbundle bit_operations_syntax

section \<open>Basic types of the node processor\<close>

text \<open>
  \<open>Height\<close>, \<open>TxoID\<close> and \<open>Timestamp\<close> are \<open>uint64_t\<close>, \<open>Asset::ID\<close> is
  \<open>uint32_t\<close>, \<open>AmountBig::Type\<close> is a 128-bit unsigned integer, \<open>Merkle::Hash\<close>
  and \<open>Difficulty::Raw\<close> are 256-bit unsigned integers. All arithmetic on them
  wraps around, as it does in the C++ code.
\<close>

type_synonym Height = "64 word"
type_synonym TxoID = "64 word"
type_synonym Timestamp = "64 word"
type_synonym AssetID = "32 word"
type_synonym AmountBig = "128 word"
type_synonym Hash = "256 word"
type_synonym byte = "8 word"

definition MaxHeight :: Height where
  "MaxHeight = - 1"

definition HeightGenesis :: Height where
  "HeightGenesis = 1"

text \<open>\<open>std::setmax(a, b)\<close>: \<open>if (a < b) a = b\<close>, returned as the new value of \<open>a\<close>.\<close>

definition setmax :: "('a::linorder) \<Rightarrow> 'a \<Rightarrow> 'a" where
  "setmax a b = (if a < b then b else a)"

section \<open>Horizon\<close>

record HorizonPair =
  Lo :: Height
  Hi :: Height

record Horizon =
  m_Branching :: Height
  m_Sync :: HorizonPair
  m_Local :: HorizonPair

definition SetInfinite :: Horizon where
  "SetInfinite =
     \<lparr> m_Branching = MaxHeight,
       m_Sync = \<lparr> Lo = MaxHeight, Hi = MaxHeight \<rparr>,
       m_Local = \<lparr> Lo = MaxHeight, Hi = MaxHeight \<rparr> \<rparr>"

text \<open>
  \<open>NodeProcessor::Horizon::Normalize\<close>. \<open>Rules::get().MaxRollback\<close> is a
  \<open>uint32_t\<close> of the consensus rules; it is the parameter \<open>MaxRollback\<close> and is
  widened to a \<open>Height\<close> as the assignment \<open>Height r = ...\<close> does.
\<close>

definition Normalize :: "32 word \<Rightarrow> Horizon \<Rightarrow> Horizon" where
  "Normalize MaxRollback hz =
    (let branching = setmax (m_Branching hz) 1;
         r = (ucast MaxRollback :: Height);
         syncHi = setmax (Hi (m_Sync hz)) (max r branching);
         syncLo0 = setmax (Lo (m_Sync hz)) syncHi;
         syncLo = (if syncLo0 = syncHi \<and> syncHi < MaxHeight then syncLo0 + 1 else syncLo0);
         localHi = setmax (Hi (m_Local hz)) syncHi;
         localLo = setmax (Lo (m_Local hz)) (max localHi syncLo)
     in \<lparr> m_Branching = branching,
          m_Sync = \<lparr> Lo = syncLo, Hi = syncHi \<rparr>,
          m_Local = \<lparr> Lo = localLo, Hi = localHi \<rparr> \<rparr>)"

section \<open>Data model of the block interpreter\<close>

text \<open>\<open>ECC::Point\<close>: the x coordinate and the byte holding the y bit (and flags).\<close>

record Point =
  m_X :: "256 word"
  m_Y :: byte

type_synonym PeerID = "256 word"

text \<open>
  C++ exceptions. \<open>NodeProcessor::OnCorrupted\<close> throws a \<open>CorruptionException\<close>;
  a deserializer reading a malformed buffer and a strict \<open>NodeDB\<close> operation that
  finds no row throw other exceptions. A function that can throw returns \<open>exc + 'a\<close>.
  \<open>AssertionFailed\<close> marks a read outside a vector that an \<open>assert\<close> of the source
  excludes.
\<close>

datatype exc = Corrupted | DeserializeFailed | DbInconsistent | NullRollback | AssertionFailed

text \<open>\<open>Sigma::Cfg\<close> of a shielded spend proof.\<close>

record Sigma_Cfg =
  cfg_n :: "32 word"
  cfg_M :: "32 word"

text \<open>\<open>Asset::Metadata\<close> and \<open>Asset::Full\<close>.\<close>

record Metadata =
  md_Value :: "byte list"
  md_Hash :: Hash

record Asset_Full =
  ai_ID :: AssetID
  ai_Owner :: PeerID
  ai_Value :: AmountBig
  ai_LockHeight :: Height
  ai_Metadata :: Metadata

text \<open>
  Transaction elements. \<open>inp_Maturity\<close> and \<open>inp_ID\<close> are \<open>m_Internal.m_Maturity\<close>
  and \<open>m_Internal.m_ID\<close>, written by the forward pass. \<open>outp_pAsset\<close> and the
  \<open>pAsset\<close> fields of the shielded kernels hold \<open>m_pAsset->m_Begin\<close> when an asset
  proof is attached.
\<close>

record Input =
  inp_Commitment :: Point
  inp_Maturity :: Height
  inp_ID :: TxoID

record Output =
  outp_Commitment :: Point
  outp_Coinbase :: bool
  outp_Incubation :: Height
  outp_pAsset :: "AssetID option"

record RelativeLock =
  rl_ID :: Hash
  rl_LockHeight :: Height

datatype KernelData =
    Std "RelativeLock option"
  | AssetCreate PeerID Metadata
  | AssetEmit AssetID PeerID "64 word"
  | AssetDestroy AssetID PeerID
  | ShieldedOutput Point Point "AssetID option"
  | ShieldedInput Point TxoID Sigma_Cfg "AssetID option"

text \<open>
  A kernel: \<open>m_Internal.m_ID\<close>, the nested kernels \<open>m_vNested\<close> and the fields of
  its subtype. \<open>ShieldedOutput serialPub commitment pAsset\<close> carries
  \<open>m_Txo.m_Serial.m_SerialPub\<close>, \<open>m_Txo.m_Commitment\<close> and \<open>m_Txo.m_pAsset\<close>;
  \<open>ShieldedInput spendPk windowEnd cfg pAsset\<close> carries \<open>m_SpendProof.m_SpendPk\<close>,
  \<open>m_WindowEnd\<close>, \<open>m_SpendProof.m_Cfg\<close> and \<open>m_pAsset\<close>;
  \<open>AssetEmit id owner value\<close> carries the signed 64-bit \<open>m_Value\<close>.
\<close>

datatype TxKernel = TxKernel (krn_ID: Hash) (krn_vNested: "TxKernel list") (krn_Data: KernelData)

record TxVectors =
  m_vInputs :: "Input list"
  m_vOutputs :: "Output list"
  m_vKernels :: "TxKernel list"

section \<open>Consensus rules and library primitives\<close>

text \<open>
  The fields of \<open>Rules::get()\<close> that the processor reads, and the primitives of the
  core library whose code is not part of the processor: the hashes of the MMR
  leaves, the point stored for a shielded output, the serializer and deserializer of
  the rollback journal, the inline id found in a leaf that \<open>RadixTree::Find\<close>
  has just created, \<open>HeightAdd\<close>, \<open>Output::get_MinMaturity\<close>, the index
  \<open>H2I\<close> of a height in the MMR of the states, \<open>Difficulty::Unpack\<close>, the
  deserializer of a stored block body (its offset and its vectors, nothing when it
  throws) and the root that \<open>KrnFlyMmr\<close> computes over the kernels of a block.
  They are parameters of every function below.

  \<open>c_NegTestKept\<close> is a fact about the compiled code. The asset emission handler
  negates an \<open>AmountSigned\<close> (\<open>int64_t\<close>) and then tests \<open>val < 0\<close>. For the
  least value the negation overflows, which C++ leaves undefined: code that wraps
  keeps the test and sees the least value again, an optimising compiler may take
  the negation of a negative number to be positive and remove the test.
  \<open>c_NegTestKept\<close> tells whether the test is still there.
\<close>

record Env =
  r_Fork2_Height :: Height
  r_MaxKernelValidityDH :: Height
  r_CA_LockPeriod :: Height
  r_Asset_MaxCount :: AssetID
  r_Shielded_Enabled :: bool
  r_Shielded_MaxOuts :: "32 word"
  r_Shielded_MaxIns :: "32 word"
  r_Shielded_ProofMin :: Sigma_Cfg
  r_Shielded_ProofMax :: Sigma_Cfg
  r_Shielded_MaxWindowBacklog :: "32 word"
  r_MaxRollback :: "32 word"
  r_MaxBodySize :: "32 word"
  r_DA_MaxAhead_s :: "32 word"
  r_DA_WindowMedian0 :: "32 word"
  r_DA_Target_s :: "32 word"
  r_DA_Difficulty0 :: "32 word"
  p_Asset_get_Hash :: "Asset_Full \<Rightarrow> Hash"
  p_DescriptionOutp_get_Hash :: "Point \<Rightarrow> Point \<Rightarrow> TxoID \<Rightarrow> Height \<Rightarrow> Hash"
  p_DescriptionInp_get_Hash :: "Point \<Rightarrow> Height \<Rightarrow> Hash"
  p_ShieldedPoint :: "Point \<Rightarrow> Point \<Rightarrow> Point"
  p_ser_AssetID :: "AssetID \<Rightarrow> byte list"
  p_der_AssetID :: "byte list \<Rightarrow> (AssetID \<times> byte list) option"
  p_ser_Height :: "Height \<Rightarrow> byte list"
  p_der_Height :: "byte list \<Rightarrow> (Height \<times> byte list) option"
  p_ser_Metadata :: "Metadata \<Rightarrow> byte list"
  p_der_Metadata :: "byte list \<Rightarrow> (Metadata \<times> byte list) option"
  p_NewLeafID :: TxoID
  p_HeightAdd :: "Height \<Rightarrow> Height \<Rightarrow> Height"
  p_get_MinMaturity :: "Output \<Rightarrow> Height \<Rightarrow> Height"
  p_H2I :: "Height \<Rightarrow> nat"
  p_Difficulty_Unpack :: "32 word \<Rightarrow> 256 word"
  p_der_Body :: "byte list \<Rightarrow> byte list \<Rightarrow> (256 word \<times> TxVectors) option"
  p_KrnFlyMmr_Hash :: "TxKernel list \<Rightarrow> Hash"
  c_NegTestKept :: bool

section \<open>UtxoTree\<close>

text \<open>
  Modelled from the spec: the radix tree \<open>UtxoTree\<close> (core library) is not part of
  the processor. A leaf is keyed by (commitment, maturity) and holds a non-empty
  stack of TxoIDs: the first component is the id on top (\<open>m_ID\<close> of a leaf that is
  not extended), the list holds the ids below it. \<open>PushID\<close> pushes, \<open>PopID\<close> pops
  and returns the top, \<open>IsExt\<close> says that the leaf holds more than one id,
  \<open>get_Count\<close> is the 32-bit \<open>Input::Count\<close> of ids. \<open>Find(cu, key, bCreate)\<close>
  with \<open>bCreate = true\<close> returns the leaf of the key and creates it when it is
  missing; \<open>bCreate\<close> then tells whether it was created. \<open>Traverse\<close> with the bounds
  \<open>kMin\<close>, \<open>kMax\<close> stops at the first leaf of the commitment in key order, that is
  the one of least maturity in the range.
\<close>

type_synonym UtxoKey = "Point \<times> Height"
type_synonym MyLeaf = "TxoID \<times> TxoID list"
type_synonym UtxoTree = "UtxoKey \<rightharpoonup> MyLeaf"

definition IsExt :: "MyLeaf \<Rightarrow> bool" where
  "IsExt p = (snd p \<noteq> [])"

definition get_Count :: "MyLeaf \<Rightarrow> 32 word" where
  "get_Count p = of_nat (Suc (length (snd p)))"

definition PushID :: "TxoID \<Rightarrow> MyLeaf \<Rightarrow> MyLeaf" where
  "PushID nID p = (nID, fst p # snd p)"

definition PopID :: "MyLeaf \<Rightarrow> TxoID \<times> MyLeaf" where
  "PopID p = (fst p, (case snd p of [] \<Rightarrow> p | x # xs \<Rightarrow> (x, xs)))"

fun Traverse_from :: "UtxoTree \<Rightarrow> Point \<Rightarrow> Height \<Rightarrow> nat \<Rightarrow> Height option" where
  "Traverse_from t c m 0 = None"
| "Traverse_from t c m (Suc n) =
     (if t (c, m) \<noteq> None then Some m else Traverse_from t c (m + 1) n)"

definition Traverse :: "UtxoTree \<Rightarrow> Point \<Rightarrow> Height \<Rightarrow> Height \<Rightarrow> Height option" where
  "Traverse t c lo hi =
     (if lo \<le> hi then Traverse_from t c lo (Suc (unat hi - unat lo)) else None)"

section \<open>Headers\<close>

text \<open>
  \<open>Block::SystemState::Full\<close>, \<open>Block::SystemState::ID\<close> and
  \<open>NodeDB::StateID\<close>. \<open>hdr_Difficulty\<close> is \<open>m_PoW.m_Difficulty.m_Packed\<close>.
  \<open>hdr_Hash\<close> stands for the hash of the header that \<open>get_ID\<close> computes and
  \<open>hdr_IsValid\<close> for the result of the proof-of-work check \<open>IsValid\<close>.
\<close>

record SystemState_Full =
  hdr_Height :: Height
  hdr_Prev :: Hash
  hdr_ChainWork :: "256 word"
  hdr_Kernels :: Hash
  hdr_Definition :: Hash
  hdr_TimeStamp :: Timestamp
  hdr_Difficulty :: "32 word"
  hdr_Hash :: Hash
  hdr_IsValid :: bool

record SystemState_ID =
  id_Height :: Height
  id_Hash :: Hash

record StateID =
  sid_Row :: "64 word"
  sid_Height :: Height

definition get_ID :: "SystemState_Full \<Rightarrow> SystemState_ID" where
  "get_ID s = \<lparr>id_Height = hdr_Height s, id_Hash = hdr_Hash s\<rparr>"

section \<open>NodeDB and the MMRs\<close>

text \<open>
  Modelled from the spec: \<open>NodeDB\<close> is an external store; these are the tables the
  block interpreter uses.
  \<^item> The asset registry maps an asset id to its record; \<open>db_AssetsCount\<close> and
    \<open>db_AssetsCountUsed\<close> are the parameters \<open>AssetsCount\<close> (the highest id in
    use) and \<open>AssetsCountUsed\<close>.
  \<^item> The unique-key set maps a key to the value stored with it.
  \<^item> The kernel index is the list of (kernel id, height) rows.
  \<^item> \<open>db_Shielded\<close> is the list of points of the shielded pool, and
    \<open>db_ShieldedOutputs\<close>, \<open>db_ShieldedInputs\<close> are the parameters of these names.
  \<^item> \<open>db_States\<close> is the table of headers: the row id and, for each row, the
    header, the flags, the peer, the two parts of the block body, the rollback
    data, the number of Txos after the block (\<open>MaxHeight\<close> while the block has
    not been applied), the row of the previous header (0 when unknown), the
    accumulated offset (\<open>get_StateExtra\<close>) and the inputs of the block
    (\<open>set_StateInputs\<close>).
  \<^item> \<open>db_Txos\<close> is the table of Txos: the output stored under a TxoID and the
    height where it was spent (\<open>MaxHeight\<close> while it is unspent).
  \<^item> \<open>db_SyncData\<close> is the parameter \<open>SyncData\<close>.
\<close>

type_synonym Scalar = "256 word"

record SyncData =
  sd_h0 :: Height
  sd_TxoLo :: Height
  sd_Target :: StateID
  sd_Sigma :: Point

record StateRow =
  row_State :: SystemState_Full
  row_Functional :: bool
  row_Active :: bool
  row_Peer :: "PeerID option"
  row_BodyP :: "byte list"
  row_BodyE :: "byte list"
  row_Rollback :: "byte list"
  row_Txos :: TxoID
  row_Prev :: "64 word"
  row_Extra :: "Scalar option"
  row_Inputs :: "(TxoID \<times> Point) list"

datatype UniqueVal =
    ShieldedOutpPacked Height "64 word" TxoID Point
  | ShieldedInpPacked Height "64 word"

record NodeDB =
  db_Assets :: "AssetID \<rightharpoonup> Asset_Full"
  db_AssetsCount :: AssetID
  db_AssetsCountUsed :: AssetID
  db_Unique :: "Point \<rightharpoonup> UniqueVal"
  db_Kernels :: "(Hash \<times> Height) list"
  db_Shielded :: "Point list"
  db_ShieldedOutputs :: "64 word"
  db_ShieldedInputs :: "64 word"
  db_States :: "(64 word \<times> StateRow) list"
  db_Txos :: "TxoID \<rightharpoonup> Output \<times> Height"
  db_SyncData :: "SyncData option"

text \<open>
  \<open>AssetGetSafe\<close> fills the record of the id, or returns false. \<open>AssetFindByOwner\<close>
  tells whether the owner has an asset. \<open>AssetAdd\<close> with \<open>m_ID = 0\<close> allocates the
  next asset id, with another \<open>m_ID\<close> it stores the record under that id; it raises
  \<open>AssetsCount\<close> to the id and counts one more used asset. \<open>AssetDelete\<close> removes
  the record and returns the new \<open>AssetsCount\<close>, which drops by one when the last
  id was removed. \<open>AssetSetValue\<close> rewrites the value and the lock height.
\<close>

definition AssetGetSafe :: "NodeDB \<Rightarrow> AssetID \<Rightarrow> Asset_Full option" where
  "AssetGetSafe db aid = map_option (\<lambda>ai. ai\<lparr>ai_ID := aid\<rparr>) (db_Assets db aid)"

fun AssetFindByOwner_upto :: "(AssetID \<rightharpoonup> Asset_Full) \<Rightarrow> PeerID \<Rightarrow> nat \<Rightarrow> bool" where
  "AssetFindByOwner_upto m owner 0 = False"
| "AssetFindByOwner_upto m owner (Suc n) =
     ((case m (of_nat (Suc n)) of None \<Rightarrow> False | Some ai \<Rightarrow> ai_Owner ai = owner)
      \<or> AssetFindByOwner_upto m owner n)"

definition AssetFindByOwner :: "NodeDB \<Rightarrow> PeerID \<Rightarrow> bool" where
  "AssetFindByOwner db owner =
     AssetFindByOwner_upto (db_Assets db) owner (unat (db_AssetsCount db))"

definition AssetAdd :: "Asset_Full \<Rightarrow> NodeDB \<Rightarrow> Asset_Full \<times> NodeDB" where
  "AssetAdd ai db =
    (let aid = (if ai_ID ai = 0 then db_AssetsCount db + 1 else ai_ID ai);
         ai' = ai\<lparr>ai_ID := aid\<rparr>
     in (ai', db\<lparr>db_Assets := (db_Assets db)(aid \<mapsto> ai'),
                 db_AssetsCount := max (db_AssetsCount db) aid,
                 db_AssetsCountUsed := db_AssetsCountUsed db + 1\<rparr>))"

definition AssetDelete :: "AssetID \<Rightarrow> NodeDB \<Rightarrow> AssetID \<times> NodeDB" where
  "AssetDelete aid db =
    (let nCount = (if aid = db_AssetsCount db then db_AssetsCount db - 1 else db_AssetsCount db)
     in (nCount, db\<lparr>db_Assets := (db_Assets db)(aid := None),
                     db_AssetsCount := nCount,
                     db_AssetsCountUsed := db_AssetsCountUsed db - 1\<rparr>))"

definition AssetSetValue :: "AssetID \<Rightarrow> AmountBig \<Rightarrow> Height \<Rightarrow> NodeDB \<Rightarrow> NodeDB" where
  "AssetSetValue aid v hLock db =
    (case db_Assets db aid of
       None \<Rightarrow> db
     | Some ai \<Rightarrow> db\<lparr>db_Assets := (db_Assets db)(aid \<mapsto> ai\<lparr>ai_Value := v, ai_LockHeight := hLock\<rparr>)\<rparr>)"

text \<open>
  \<open>UniqueInsertSafe\<close> fails when the key is present. \<open>UniqueDeleteStrict\<close> throws
  when it is absent. \<open>UniqueFind\<close> tells whether it is present.
\<close>

definition UniqueInsertSafe :: "Point \<Rightarrow> UniqueVal \<Rightarrow> NodeDB \<Rightarrow> NodeDB option" where
  "UniqueInsertSafe k v db =
    (if db_Unique db k \<noteq> None then None
     else Some (db\<lparr>db_Unique := (db_Unique db)(k \<mapsto> v)\<rparr>))"

definition UniqueDeleteStrict :: "Point \<Rightarrow> NodeDB \<Rightarrow> exc + NodeDB" where
  "UniqueDeleteStrict k db =
    (if db_Unique db k = None then Inl DbInconsistent
     else Inr (db\<lparr>db_Unique := (db_Unique db)(k := None)\<rparr>))"

definition UniqueFind :: "NodeDB \<Rightarrow> Point \<Rightarrow> bool" where
  "UniqueFind db k = (db_Unique db k \<noteq> None)"

text \<open>
  \<open>InsertKernel\<close> adds a row, \<open>DeleteKernel\<close> removes one row of the id and height
  and throws when there is none, \<open>FindKernel\<close> returns the greatest height stored
  for the id, or 0.
\<close>

definition InsertKernel :: "Hash \<Rightarrow> Height \<Rightarrow> NodeDB \<Rightarrow> NodeDB" where
  "InsertKernel kid h db = db\<lparr>db_Kernels := (kid, h) # db_Kernels db\<rparr>"

definition DeleteKernel :: "Hash \<Rightarrow> Height \<Rightarrow> NodeDB \<Rightarrow> exc + NodeDB" where
  "DeleteKernel kid h db =
    (if (kid, h) \<in> set (db_Kernels db)
     then Inr (db\<lparr>db_Kernels := remove1 (kid, h) (db_Kernels db)\<rparr>)
     else Inl DbInconsistent)"

definition FindKernel :: "NodeDB \<Rightarrow> Hash \<Rightarrow> Height" where
  "FindKernel db kid = foldr max (map snd (filter (\<lambda>row. fst row = kid) (db_Kernels db))) 0"

text \<open>
  \<open>ShieldedResize(n, n0)\<close> makes the point list \<open>n\<close> long, dropping the points from
  \<open>n\<close> on and padding with zero points; \<open>ShieldedWrite(pos, p, 1)\<close> stores a point.
\<close>

definition ShieldedResize :: "64 word \<Rightarrow> NodeDB \<Rightarrow> NodeDB" where
  "ShieldedResize n db =
     db\<lparr>db_Shielded := take (unat n)
        (db_Shielded db @ replicate (unat n - length (db_Shielded db)) \<lparr>m_X = 0, m_Y = 0\<rparr>)\<rparr>"

definition ShieldedWrite :: "64 word \<Rightarrow> Point \<Rightarrow> NodeDB \<Rightarrow> NodeDB" where
  "ShieldedWrite pos pt db = db\<lparr>db_Shielded := (db_Shielded db)[unat pos := pt]\<rparr>"

text \<open>
  \<open>StateFindSafe\<close> returns the row of the header with the id, or 0.
  \<open>InsertState\<close> adds a row for the header and its peer, linked to the row of
  the previous header when that is known. \<open>GetStateFlags\<close>, \<open>get_StateTxos\<close>,
  \<open>get_Peer\<close>, \<open>get_Prev\<close>, \<open>get_State\<close> and \<open>GetStateBlock\<close> read a row
  and throw when it does not exist; \<open>SetStateBlock\<close> and \<open>SetStateFunctional\<close>
  write it.
\<close>

definition StateFindSafe :: "NodeDB \<Rightarrow> SystemState_ID \<Rightarrow> 64 word" where
  "StateFindSafe db sid =
    (case find (\<lambda>r. get_ID (row_State (snd r)) = sid) (db_States db) of
       None \<Rightarrow> 0
     | Some r \<Rightarrow> fst r)"

definition InsertState :: "SystemState_Full \<Rightarrow> PeerID \<Rightarrow> NodeDB \<Rightarrow> NodeDB" where
  "InsertState st peer db =
    db\<lparr>db_States := db_States db @
        [(of_nat (length (db_States db)) + 1,
          \<lparr>row_State = st, row_Functional = False, row_Active = False, row_Peer = Some peer,
           row_BodyP = [], row_BodyE = [], row_Rollback = [], row_Txos = MaxHeight,
           row_Prev = StateFindSafe db \<lparr>id_Height = hdr_Height st - 1, id_Hash = hdr_Prev st\<rparr>,
           row_Extra = None, row_Inputs = []\<rparr>)]\<rparr>"

definition get_Row :: "NodeDB \<Rightarrow> 64 word \<Rightarrow> exc + StateRow" where
  "get_Row db row =
    (case map_of (db_States db) row of None \<Rightarrow> Inl DbInconsistent | Some r \<Rightarrow> Inr r)"

definition set_Row :: "64 word \<Rightarrow> StateRow \<Rightarrow> NodeDB \<Rightarrow> NodeDB" where
  "set_Row row r db =
    db\<lparr>db_States := map (\<lambda>x. if fst x = row then (row, r) else x) (db_States db)\<rparr>"

definition SetStateBlock ::
  "64 word \<Rightarrow> byte list \<Rightarrow> byte list \<Rightarrow> PeerID \<Rightarrow> NodeDB \<Rightarrow> exc + NodeDB" where
  "SetStateBlock row bbP bbE peer db =
    (case get_Row db row of
       Inl x \<Rightarrow> Inl x
     | Inr r \<Rightarrow> Inr (set_Row row (r\<lparr>row_BodyP := bbP, row_BodyE := bbE, row_Peer := Some peer\<rparr>) db))"

definition SetStateFunctional :: "64 word \<Rightarrow> NodeDB \<Rightarrow> exc + NodeDB" where
  "SetStateFunctional row db =
    (case get_Row db row of
       Inl x \<Rightarrow> Inl x
     | Inr r \<Rightarrow> Inr (set_Row row (r\<lparr>row_Functional := True\<rparr>) db))"

text \<open>
  Modelled from the spec: the three MMRs of \<open>NodeProcessor::Mmr\<close>, each the list of
  its leaf hashes, so that \<open>m_Count\<close> is the length (a natural number).
  \<open>Append\<close> adds a leaf, \<open>ShrinkTo\<close> keeps the first leaves, \<open>ResizeTo\<close>
  shrinks or pads with zero hashes, \<open>Replace\<close> overwrites a leaf.
\<close>

record Mmr =
  m_States :: "Hash list"
  m_Shielded :: "Hash list"
  m_Assets :: "Hash list"

definition Mmr_Append :: "Hash \<Rightarrow> Hash list \<Rightarrow> Hash list" where
  "Mmr_Append hv xs = xs @ [hv]"

definition Mmr_ShrinkTo :: "nat \<Rightarrow> Hash list \<Rightarrow> Hash list" where
  "Mmr_ShrinkTo n xs = take n xs"

definition Mmr_ResizeTo :: "nat \<Rightarrow> Hash list \<Rightarrow> Hash list" where
  "Mmr_ResizeTo n xs = take n (xs @ replicate (n - length xs) 0)"

definition Mmr_Replace :: "nat \<Rightarrow> Hash \<Rightarrow> Hash list \<Rightarrow> Hash list" where
  "Mmr_Replace i hv xs = xs[i := hv]"

section \<open>The interpreter context and the rollback journal\<close>

text \<open>
  \<open>NodeProcessor::BlockInterpretCtx\<close>. \<open>m_pRollback\<close> is \<open>None\<close> for the null
  pointer. \<open>m_pDups\<close> and \<open>m_pDupIDs\<close> are the keys collected in validate-only
  mode.
\<close>

record BlockInterpretCtx =
  m_Height :: Height
  m_Fwd :: bool
  m_ValidateOnly :: bool
  m_AlreadyValidated :: bool
  m_SaveKid :: bool
  m_UpdateMmrs :: bool
  m_StoreShieldedOutput :: bool
  m_LimitExceeded :: bool
  m_ShieldedIns :: "32 word"
  m_ShieldedOuts :: "32 word"
  m_AssetsUsed :: AssetID
  m_AssetHi :: AssetID
  m_pRollback :: "byte list option"
  m_pDups :: "Point list"
  m_pDupIDs :: "Hash list"

text \<open>The constructor \<open>BlockInterpretCtx(h, bFwd)\<close> with the member initializers.\<close>

definition BlockInterpretCtx_new :: "Env \<Rightarrow> Height \<Rightarrow> bool \<Rightarrow> BlockInterpretCtx" where
  "BlockInterpretCtx_new e h bFwd =
    \<lparr> m_Height = h, m_Fwd = bFwd, m_ValidateOnly = False, m_AlreadyValidated = False,
      m_SaveKid = True, m_UpdateMmrs = True, m_StoreShieldedOutput = False,
      m_LimitExceeded = False, m_ShieldedIns = 0, m_ShieldedOuts = 0,
      m_AssetsUsed = r_Asset_MaxCount e + 1, m_AssetHi = - 1,
      m_pRollback = None, m_pDups = [], m_pDupIDs = [] \<rparr>"

definition ValidateAssetRange :: "BlockInterpretCtx \<Rightarrow> AssetID option \<Rightarrow> bool" where
  "ValidateAssetRange bic p = (case p of None \<Rightarrow> True | Some b \<Rightarrow> b \<le> m_AssetHi bic)"

definition EnsureAssetsUsed :: "Env \<Rightarrow> NodeDB \<Rightarrow> BlockInterpretCtx \<Rightarrow> BlockInterpretCtx" where
  "EnsureAssetsUsed e db bic =
    (if m_AssetsUsed bic = r_Asset_MaxCount e + 1
     then bic\<lparr>m_AssetsUsed := db_AssetsCountUsed db\<rparr> else bic)"

text \<open>
  \<open>Ser::Marker\<close> is \<open>uintBigFor<uint32_t>::Type\<close>: four bytes, most significant
  first.
\<close>

definition Marker_bytes :: "32 word \<Rightarrow> byte list" where
  "Marker_bytes n = [ucast (drop_bit 24 n), ucast (drop_bit 16 n), ucast (drop_bit 8 n), ucast n]"

definition Marker_Export :: "byte list \<Rightarrow> 32 word" where
  "Marker_Export bs =
    (case bs of
       [b3, b2, b1, b0] \<Rightarrow>
         push_bit 24 (ucast b3) OR push_bit 16 (ucast b2) OR push_bit 8 (ucast b1) OR ucast b0
     | _ \<Rightarrow> 0)"

text \<open>
  \<open>BlockInterpretCtx::Ser\<close>: the constructor notes the size of the rollback buffer,
  the serialized payload is appended, and the destructor appends the marker holding
  the 32-bit length of the payload.
\<close>

definition Ser :: "byte list \<Rightarrow> BlockInterpretCtx \<Rightarrow> exc + BlockInterpretCtx" where
  "Ser payload bic =
    (case m_pRollback bic of
       None \<Rightarrow> Inl NullRollback
     | Some buf \<Rightarrow>
         Inr (bic\<lparr>m_pRollback := Some (buf @ payload @ Marker_bytes (of_nat (length payload)))\<rparr>))"

text \<open>
  \<open>BlockInterpretCtx::Der\<close> with \<open>SetBwd\<close>: the marker is taken off the end of the
  buffer (\<open>OnCorrupted\<close> when fewer than four bytes are left), then the payload of
  the length it holds (\<open>OnCorrupted\<close> when the buffer is shorter). The result is the
  payload to deserialize and the context with the shortened buffer.
\<close>

definition SetBwd :: "byte list \<Rightarrow> nat \<Rightarrow> exc + (byte list \<times> byte list)" where
  "SetBwd buf nPortion =
    (if length buf < nPortion then Inl Corrupted
     else Inr (drop (length buf - nPortion) buf, take (length buf - nPortion) buf))"

definition Der :: "BlockInterpretCtx \<Rightarrow> exc + (byte list \<times> BlockInterpretCtx)" where
  "Der bic =
    (case m_pRollback bic of
       None \<Rightarrow> Inl NullRollback
     | Some buf \<Rightarrow>
        (case SetBwd buf 4 of
           Inl x \<Rightarrow> Inl x
         | Inr (mk, buf1) \<Rightarrow>
            (case SetBwd buf1 (unat (Marker_Export mk)) of
               Inl x \<Rightarrow> Inl x
             | Inr (payload, buf2) \<Rightarrow> Inr (payload, bic\<lparr>m_pRollback := Some buf2\<rparr>))))"

section \<open>The processor state\<close>

text \<open>
  The members of \<open>NodeProcessor\<close> that the functions below read and write:
  \<open>m_DB\<close>, \<open>m_Utxos\<close>, \<open>m_Mmr\<close>, of \<open>m_Extra\<close> the counters \<open>m_Txos\<close>,
  \<open>m_ShieldedOutputs\<close> and \<open>m_TxosTreasury\<close> and the watermark \<open>m_TxoHi\<close>, the
  cursor, the sync data and the ring of recent states (the latest entry first).
\<close>

record Extra =
  m_Txos :: TxoID
  m_ShieldedOutputs :: TxoID
  m_TxoHi :: Height
  m_TxosTreasury :: TxoID

record Cursor =
  cur_Sid :: StateID
  cur_ID :: SystemState_ID
  cur_Full :: SystemState_Full
  cur_DifficultyNext :: "32 word"

record NodeProcessor =
  m_DB :: NodeDB
  m_Utxos :: UtxoTree
  m_Mmr :: Mmr
  m_Extra :: Extra
  m_Cursor :: Cursor
  m_SyncData :: SyncData
  m_RecentStates :: "(64 word \<times> SystemState_Full) list"

text \<open>
  Modelled from the spec: \<open>IsFastSync\<close> is declared in the header of the
  processor; fast-sync is on while a sync target is set.
\<close>

definition IsFastSync :: "NodeProcessor \<Rightarrow> bool" where
  "IsFastSync s = (sid_Row (sd_Target (m_SyncData s)) \<noteq> 0)"

section \<open>Handlers of inputs and outputs\<close>

text \<open>
  The element handlers return the result of the C++ function, the element (the
  forward input handler writes \<open>m_Internal\<close>), the context and the processor.
\<close>

definition HandleBlockElement_Input ::
  "Env \<Rightarrow> Input \<Rightarrow> BlockInterpretCtx \<Rightarrow> NodeProcessor
   \<Rightarrow> exc + (bool \<times> Input \<times> BlockInterpretCtx \<times> NodeProcessor)" where
  "HandleBlockElement_Input e v bic s =
    (if m_Fwd bic then
       (case Traverse (m_Utxos s) (inp_Commitment v) (HeightGenesis - 1) (m_Height bic - 1) of
          None \<Rightarrow> Inr (False, v, bic, s)
        | Some mat \<Rightarrow>
           (case m_Utxos s (inp_Commitment v, mat) of
              None \<Rightarrow> Inr (False, v, bic, s)
            | Some p \<Rightarrow>
               (if \<not> IsExt p
                then Inr (True, v\<lparr>inp_Maturity := mat, inp_ID := fst p\<rparr>, bic,
                          s\<lparr>m_Utxos := (m_Utxos s)((inp_Commitment v, mat) := None)\<rparr>)
                else Inr (True, v\<lparr>inp_Maturity := mat, inp_ID := fst (PopID p)\<rparr>, bic,
                          s\<lparr>m_Utxos := (m_Utxos s)((inp_Commitment v, mat) \<mapsto> snd (PopID p))\<rparr>))))
     else
       (case m_Utxos s (inp_Commitment v, inp_Maturity v) of
          None \<Rightarrow>
            Inr (True, v, bic,
                 s\<lparr>m_Utxos := (m_Utxos s)((inp_Commitment v, inp_Maturity v) \<mapsto> (inp_ID v, []))\<rparr>)
        | Some p \<Rightarrow>
            Inr (True, v, bic,
                 s\<lparr>m_Utxos := (m_Utxos s)((inp_Commitment v, inp_Maturity v) \<mapsto> PushID (inp_ID v) p)\<rparr>)))"

text \<open>
  \<open>HandleBlockElement(const Output&, ...)\<close>. \<open>Find\<close> is called with
  \<open>bCreate = true\<close> before the direction is looked at, so the leaf of the key exists
  from there on: \<open>Utxos_Find\<close> returns \<open>bCreate\<close>, the leaf and the tree holding it.
\<close>

definition Utxos_Find :: "Env \<Rightarrow> UtxoTree \<Rightarrow> UtxoKey \<Rightarrow> bool \<times> MyLeaf \<times> UtxoTree" where
  "Utxos_Find e t key =
    (case t key of
       None \<Rightarrow> (True, (p_NewLeafID e, []), t(key \<mapsto> (p_NewLeafID e, [])))
     | Some p \<Rightarrow> (False, p, t))"

definition HandleBlockElement_Output ::
  "Env \<Rightarrow> Output \<Rightarrow> BlockInterpretCtx \<Rightarrow> NodeProcessor
   \<Rightarrow> exc + (bool \<times> Output \<times> BlockInterpretCtx \<times> NodeProcessor)" where
  "HandleBlockElement_Output e v bic s =
    (let key = (outp_Commitment v, p_get_MinMaturity e v (m_Height bic));
         (bCreate, p, t) = Utxos_Find e (m_Utxos s) key
     in if m_Fwd bic then
          (if \<not> ValidateAssetRange bic (outp_pAsset v)
           then Inr (False, v, bic, s\<lparr>m_Utxos := t\<rparr>)
           else if bCreate
           then Inr (True, v, bic,
                     s\<lparr>m_Utxos := t(key \<mapsto> (m_Txos (m_Extra s), [])),
                       m_Extra := (m_Extra s)\<lparr>m_Txos := m_Txos (m_Extra s) + 1\<rparr>\<rparr>)
           else if get_Count p + 1 = 0
           then Inr (False, v, bic, s\<lparr>m_Utxos := t\<rparr>)
           else Inr (True, v, bic,
                     s\<lparr>m_Utxos := t(key \<mapsto> PushID (m_Txos (m_Extra s)) p),
                       m_Extra := (m_Extra s)\<lparr>m_Txos := m_Txos (m_Extra s) + 1\<rparr>\<rparr>))
        else
          (if \<not> IsExt p
           then Inr (True, v, bic,
                     s\<lparr>m_Utxos := t(key := None),
                       m_Extra := (m_Extra s)\<lparr>m_Txos := m_Txos (m_Extra s) - 1\<rparr>\<rparr>)
           else Inr (True, v, bic,
                     s\<lparr>m_Utxos := t(key \<mapsto> snd (PopID p)),
                       m_Extra := (m_Extra s)\<lparr>m_Txos := m_Txos (m_Extra s) - 1\<rparr>\<rparr>)))"

section \<open>Handlers of the kernel subtypes\<close>

definition FindVisibleKernel :: "Env \<Rightarrow> NodeDB \<Rightarrow> Hash \<Rightarrow> BlockInterpretCtx \<Rightarrow> Height" where
  "FindVisibleKernel e db kid bic =
    (let h = FindKernel db kid
     in if HeightGenesis \<le> h \<and> r_Fork2_Height e \<le> m_Height bic
           \<and> r_MaxKernelValidityDH e < m_Height bic - h
        then 0 else h)"

definition HandleKernel_Std ::
  "Env \<Rightarrow> RelativeLock option \<Rightarrow> BlockInterpretCtx \<Rightarrow> NodeProcessor
   \<Rightarrow> exc + (bool \<times> BlockInterpretCtx \<times> NodeProcessor)" where
  "HandleKernel_Std e pRelativeLock bic s =
    (case pRelativeLock of
       None \<Rightarrow> Inr (True, bic, s)
     | Some x \<Rightarrow>
        (if m_Fwd bic \<and> \<not> m_AlreadyValidated bic then
           (let h0 = FindVisibleKernel e (m_DB s) (rl_ID x) bic
            in if h0 < HeightGenesis then Inr (False, bic, s)
               else if m_Height bic < p_HeightAdd e h0 (rl_LockHeight x) then Inr (False, bic, s)
               else Inr (True, bic, s))
         else Inr (True, bic, s)))"

definition InternalAssetAdd :: "Env \<Rightarrow> Asset_Full \<Rightarrow> NodeProcessor \<Rightarrow> Asset_Full \<times> NodeProcessor" where
  "InternalAssetAdd e ai s =
    (let (ai', db) = AssetAdd (ai\<lparr>ai_Value := 0\<rparr>) (m_DB s);
         mmr = m_Assets (m_Mmr s);
         mmr1 = (if length mmr < unat (ai_ID ai') then Mmr_ResizeTo (unat (ai_ID ai')) mmr else mmr)
     in (ai', s\<lparr>m_DB := db,
                 m_Mmr := (m_Mmr s)\<lparr>m_Assets :=
                    Mmr_Replace (unat (ai_ID ai' - 1)) (p_Asset_get_Hash e ai') mmr1\<rparr>\<rparr>))"

definition InternalAssetDel :: "AssetID \<Rightarrow> NodeProcessor \<Rightarrow> NodeProcessor" where
  "InternalAssetDel nAssetID s =
    (let (nCount, db) = AssetDelete nAssetID (m_DB s);
         mmr = m_Assets (m_Mmr s)
     in s\<lparr>m_DB := db,
           m_Mmr := (m_Mmr s)\<lparr>m_Assets :=
             (if unat nCount < length mmr then Mmr_ResizeTo (unat nCount) mmr
              else Mmr_Replace (unat (nAssetID - 1)) 0 mmr)\<rparr>\<rparr>)"

definition HandleKernel_AssetCreate ::
  "Env \<Rightarrow> PeerID \<Rightarrow> Metadata \<Rightarrow> BlockInterpretCtx \<Rightarrow> NodeProcessor
   \<Rightarrow> exc + (bool \<times> BlockInterpretCtx \<times> NodeProcessor)" where
  "HandleKernel_AssetCreate e owner md bic0 s =
    (let bic1 = (if \<not> m_AlreadyValidated bic0 then EnsureAssetsUsed e (m_DB s) bic0 else bic0)
     in if \<not> m_AlreadyValidated bic1 \<and> m_Fwd bic1 \<and> AssetFindByOwner (m_DB s) owner
        then Inr (False, bic1, s)
        else if \<not> m_AlreadyValidated bic1 \<and> m_Fwd bic1 \<and> r_Asset_MaxCount e \<le> m_AssetsUsed bic1
        then Inr (False, bic1, s)
        else
          (let bic = (if m_AlreadyValidated bic1 then bic1
                      else if m_Fwd bic1 then bic1\<lparr>m_AssetsUsed := m_AssetsUsed bic1 + 1\<rparr>
                      else bic1\<lparr>m_AssetsUsed := m_AssetsUsed bic1 - 1\<rparr>)
           in if \<not> m_UpdateMmrs bic then Inr (True, bic, s)
              else if m_Fwd bic then
                (let (ai, s') = InternalAssetAdd e
                        \<lparr>ai_ID = 0, ai_Owner = owner, ai_Value = 0,
                         ai_LockHeight = m_Height bic, ai_Metadata = md\<rparr> s
                 in case Ser (p_ser_AssetID e (ai_ID ai)) bic of
                      Inl x \<Rightarrow> Inl x
                    | Inr bic' \<Rightarrow> Inr (True, bic', s'))
              else
                (case Der bic of
                   Inl x \<Rightarrow> Inl x
                 | Inr (payload, bic') \<Rightarrow>
                    (case p_der_AssetID e payload of
                       None \<Rightarrow> Inl DeserializeFailed
                     | Some (nVal, rest) \<Rightarrow> Inr (True, bic', InternalAssetDel nVal s)))))"

definition HandleKernel_AssetDestroy ::
  "Env \<Rightarrow> AssetID \<Rightarrow> PeerID \<Rightarrow> BlockInterpretCtx \<Rightarrow> NodeProcessor
   \<Rightarrow> exc + (bool \<times> BlockInterpretCtx \<times> NodeProcessor)" where
  "HandleKernel_AssetDestroy e aid owner bic0 s =
    (let bic1 = (if \<not> m_AlreadyValidated bic0 then EnsureAssetsUsed e (m_DB s) bic0 else bic0)
     in if m_Fwd bic1 then
          (case AssetGetSafe (m_DB s) aid of
             None \<Rightarrow> Inr (False, bic1, s)
           | Some ai \<Rightarrow>
              (if \<not> m_AlreadyValidated bic1 \<and> ai_Owner ai \<noteq> owner then Inr (False, bic1, s)
               else if \<not> m_AlreadyValidated bic1 \<and> ai_Value ai \<noteq> 0 then Inr (False, bic1, s)
               else if \<not> m_AlreadyValidated bic1
                       \<and> m_Height bic1 < ai_LockHeight ai + r_CA_LockPeriod e
               then Inr (False, bic1, s)
               else
                 (let bic = (if m_AlreadyValidated bic1 then bic1
                             else bic1\<lparr>m_AssetsUsed := m_AssetsUsed bic1 - 1\<rparr>)
                  in if m_UpdateMmrs bic then
                       (case Ser (p_ser_Metadata e (ai_Metadata ai) @ p_ser_Height e (ai_LockHeight ai)) bic of
                          Inl x \<Rightarrow> Inl x
                        | Inr bic' \<Rightarrow> Inr (True, bic', InternalAssetDel aid s))
                     else Inr (True, bic, s))))
        else
          (case (if m_UpdateMmrs bic1 then
                   (case Der bic1 of
                      Inl x \<Rightarrow> Inl x
                    | Inr (payload, bic') \<Rightarrow>
                       (case p_der_Metadata e payload of
                          None \<Rightarrow> Inl DeserializeFailed
                        | Some (md, rest) \<Rightarrow>
                           (case p_der_Height e rest of
                              None \<Rightarrow> Inl DeserializeFailed
                            | Some (hLock, rest') \<Rightarrow>
                               (let (ai, s') = InternalAssetAdd e
                                      \<lparr>ai_ID = aid, ai_Owner = owner, ai_Value = 0,
                                       ai_LockHeight = hLock, ai_Metadata = md\<rparr> s
                                in if ai_ID ai \<noteq> aid then Inl Corrupted else Inr (bic', s')))))
                 else Inr (bic1, s)) of
             Inl x \<Rightarrow> Inl x
           | Inr (bic2, s2) \<Rightarrow>
               Inr (True,
                    (if m_AlreadyValidated bic2 then bic2
                     else bic2\<lparr>m_AssetsUsed := m_AssetsUsed bic2 + 1\<rparr>), s2)))"

text \<open>
  \<open>HandleKernel(const TxKernelAssetEmit&, ...)\<close>. \<open>AmountSigned\<close> is \<open>int64_t\<close>:
  \<open>val < 0\<close> reads the word as two's complement. \<open>val = -val\<close> is the negation of
  the machine; on the least value it is undefined in C++ and leaves the same bits,
  and the test \<open>if (val < 0) return false\<close> that follows it is there only when
  \<open>c_NegTestKept\<close> holds. \<open>(Amount) val\<close> reads the bits as unsigned.
\<close>

definition HandleKernel_AssetEmit ::
  "Env \<Rightarrow> AssetID \<Rightarrow> PeerID \<Rightarrow> 64 word \<Rightarrow> BlockInterpretCtx \<Rightarrow> NodeProcessor
   \<Rightarrow> exc + (bool \<times> BlockInterpretCtx \<times> NodeProcessor)" where
  "HandleKernel_AssetEmit e aid owner krn_Value bic s =
    (if \<not> m_Fwd bic \<and> \<not> m_UpdateMmrs bic then Inr (True, bic, s)
     else
      (case AssetGetSafe (m_DB s) aid of
         None \<Rightarrow> Inr (False, bic, s)
       | Some ai \<Rightarrow>
          (if ai_Owner ai \<noteq> owner then Inr (False, bic, s)
           else
            (let bAdd0 = (0 \<le> sint krn_Value);
                 val = (if bAdd0 then krn_Value else - krn_Value)
             in if \<not> bAdd0 \<and> c_NegTestKept e \<and> sint val < 0 then Inr (False, bic, s)
                else
                 (let valBig = (ucast val :: AmountBig);
                      bAdd = (if m_Fwd bic then bAdd0 else \<not> bAdd0);
                      bWasZero = (ai_Value ai = 0)
                  in if bAdd \<and> ai_Value ai + valBig < valBig then Inr (False, bic, s)
                     else if \<not> bAdd \<and> ai_Value ai < valBig then Inr (False, bic, s)
                     else
                      (let newVal = (if bAdd then ai_Value ai + valBig else ai_Value ai + (- valBig))
                       in if \<not> m_UpdateMmrs bic then Inr (True, bic, s)
                          else
                           (case (if (newVal = 0) \<noteq> bWasZero then
                                    (if m_Fwd bic then
                                       (case Ser (p_ser_Height e (ai_LockHeight ai)) bic of
                                          Inl x \<Rightarrow> Inl x
                                        | Inr bic' \<Rightarrow> Inr (m_Height bic, bic'))
                                     else
                                       (case Der bic of
                                          Inl x \<Rightarrow> Inl x
                                        | Inr (payload, bic') \<Rightarrow>
                                           (case p_der_Height e payload of
                                              None \<Rightarrow> Inl DeserializeFailed
                                            | Some (hLock, rest) \<Rightarrow> Inr (hLock, bic'))))
                                  else Inr (ai_LockHeight ai, bic)) of
                              Inl x \<Rightarrow> Inl x
                            | Inr (hLock, bic') \<Rightarrow>
                                Inr (True, bic',
                                     s\<lparr>m_DB := AssetSetValue aid newVal hLock (m_DB s),
                                       m_Mmr := (m_Mmr s)\<lparr>m_Assets :=
                                         Mmr_Replace (unat (aid - 1))
                                           (p_Asset_get_Hash e (ai\<lparr>ai_Value := newVal, ai_LockHeight := hLock\<rparr>))
                                           (m_Assets (m_Mmr s))\<rparr>\<rparr>))))))))"

definition ValidateUniqueNoDup ::
  "BlockInterpretCtx \<Rightarrow> NodeDB \<Rightarrow> Point \<Rightarrow> bool \<times> BlockInterpretCtx" where
  "ValidateUniqueNoDup bic db key =
    (if key \<in> set (m_pDups bic) then (False, bic)
     else if UniqueFind db key then (False, bic)
     else (True, bic\<lparr>m_pDups := key # m_pDups bic\<rparr>))"

definition HandleKernel_ShieldedOutput ::
  "Env \<Rightarrow> Point \<Rightarrow> Point \<Rightarrow> AssetID option \<Rightarrow> BlockInterpretCtx \<Rightarrow> NodeProcessor
   \<Rightarrow> exc + (bool \<times> BlockInterpretCtx \<times> NodeProcessor)" where
  "HandleKernel_ShieldedOutput e serialPub commitment pAsset bic s =
    (case
      (if m_Fwd bic then
         (if r_Shielded_MaxOuts e \<le> m_ShieldedOuts bic
          then Inr (False, bic\<lparr>m_LimitExceeded := True\<rparr>, s)
          else if \<not> ValidateAssetRange bic pAsset then Inr (False, bic, s)
          else if m_ValidateOnly bic then
            (case ValidateUniqueNoDup bic (m_DB s) serialPub of
               (False, bic') \<Rightarrow> Inr (False, bic', s)
             | (True, bic') \<Rightarrow> Inr (True, bic'\<lparr>m_ShieldedOuts := m_ShieldedOuts bic' + 1\<rparr>, s))
          else
            (case UniqueInsertSafe serialPub
                    (ShieldedOutpPacked (m_Height bic) (of_nat (length (m_Shielded (m_Mmr s))))
                       (m_ShieldedOutputs (m_Extra s)) commitment) (m_DB s) of
               None \<Rightarrow> Inr (False, bic, s)
             | Some db1 \<Rightarrow>
                (let nOuts = m_ShieldedOutputs (m_Extra s);
                     db2 = (if m_StoreShieldedOutput bic
                            then ShieldedWrite nOuts (p_ShieldedPoint e commitment serialPub)
                                   (ShieldedResize (nOuts + 1) db1)
                            else db1);
                     mmr = (if m_UpdateMmrs bic
                            then (m_Mmr s)\<lparr>m_Shielded :=
                                   Mmr_Append (p_DescriptionOutp_get_Hash e serialPub commitment nOuts (m_Height bic))
                                     (m_Shielded (m_Mmr s))\<rparr>
                            else m_Mmr s)
                 in Inr (True, bic\<lparr>m_ShieldedOuts := m_ShieldedOuts bic + 1\<rparr>,
                         s\<lparr>m_DB := db2, m_Mmr := mmr,
                           m_Extra := (m_Extra s)\<lparr>m_ShieldedOutputs := nOuts + 1\<rparr>\<rparr>))))
       else
         (case UniqueDeleteStrict serialPub (m_DB s) of
            Inl x \<Rightarrow> Inl x
          | Inr db1 \<Rightarrow>
             (let nOuts = m_ShieldedOutputs (m_Extra s);
                  mmr = (if m_UpdateMmrs bic
                         then (m_Mmr s)\<lparr>m_Shielded :=
                                Mmr_ShrinkTo (length (m_Shielded (m_Mmr s)) - 1) (m_Shielded (m_Mmr s))\<rparr>
                         else m_Mmr s);
                  db2 = (if m_StoreShieldedOutput bic then ShieldedResize (nOuts - 1) db1 else db1)
              in Inr (True, bic\<lparr>m_ShieldedOuts := m_ShieldedOuts bic - 1\<rparr>,
                      s\<lparr>m_DB := db2, m_Mmr := mmr,
                        m_Extra := (m_Extra s)\<lparr>m_ShieldedOutputs := nOuts - 1\<rparr>\<rparr>)))) of
       Inl x \<Rightarrow> Inl x
     | Inr (False, bic', s') \<Rightarrow> Inr (False, bic', s')
     | Inr (True, bic', s') \<Rightarrow>
         Inr (True, bic',
              (if m_StoreShieldedOutput bic'
               then s'\<lparr>m_DB := (m_DB s')\<lparr>db_ShieldedOutputs := m_ShieldedOutputs (m_Extra s')\<rparr>\<rparr>
               else s')))"

definition IsShieldedInPool :: "Env \<Rightarrow> NodeProcessor \<Rightarrow> TxoID \<Rightarrow> Sigma_Cfg \<Rightarrow> bool" where
  "IsShieldedInPool e s windowEnd cfg =
    (if \<not> r_Shielded_Enabled e then False
     else if m_ShieldedOutputs (m_Extra s) < windowEnd then False
     else if cfg \<noteq> r_Shielded_ProofMin e then
       (if cfg \<noteq> r_Shielded_ProofMax e then False
        else if windowEnd + ucast (r_Shielded_MaxWindowBacklog e) < m_ShieldedOutputs (m_Extra s)
        then False
        else True)
     else True)"

definition HandleKernel_ShieldedInput ::
  "Env \<Rightarrow> Point \<Rightarrow> TxoID \<Rightarrow> Sigma_Cfg \<Rightarrow> AssetID option \<Rightarrow> BlockInterpretCtx \<Rightarrow> NodeProcessor
   \<Rightarrow> exc + (bool \<times> BlockInterpretCtx \<times> NodeProcessor)" where
  "HandleKernel_ShieldedInput e spendPk windowEnd cfg pAsset bic s =
    (let key = spendPk\<lparr>m_Y := m_Y spendPk OR 2\<rparr>
     in case
      (if m_Fwd bic then
         (if \<not> m_AlreadyValidated bic \<and> \<not> ValidateAssetRange bic pAsset then Inr (False, bic, s)
          else if \<not> m_AlreadyValidated bic \<and> r_Shielded_MaxIns e \<le> m_ShieldedIns bic
          then Inr (False, bic\<lparr>m_LimitExceeded := True\<rparr>, s)
          else if \<not> m_AlreadyValidated bic \<and> \<not> IsShieldedInPool e s windowEnd cfg
          then Inr (False, bic, s)
          else if m_ValidateOnly bic then
            (case ValidateUniqueNoDup bic (m_DB s) key of
               (False, bic') \<Rightarrow> Inr (False, bic', s)
             | (True, bic') \<Rightarrow> Inr (True, bic'\<lparr>m_ShieldedIns := m_ShieldedIns bic' + 1\<rparr>, s))
          else
            (case UniqueInsertSafe key
                    (ShieldedInpPacked (m_Height bic) (of_nat (length (m_Shielded (m_Mmr s))))) (m_DB s) of
               None \<Rightarrow> Inr (False, bic, s)
             | Some db1 \<Rightarrow>
                (let mmr = (if m_UpdateMmrs bic
                            then (m_Mmr s)\<lparr>m_Shielded :=
                                   Mmr_Append (p_DescriptionInp_get_Hash e spendPk (m_Height bic))
                                     (m_Shielded (m_Mmr s))\<rparr>
                            else m_Mmr s)
                 in Inr (True, bic\<lparr>m_ShieldedIns := m_ShieldedIns bic + 1\<rparr>,
                         s\<lparr>m_DB := db1, m_Mmr := mmr\<rparr>))))
       else
         (case UniqueDeleteStrict key (m_DB s) of
            Inl x \<Rightarrow> Inl x
          | Inr db1 \<Rightarrow>
             (let mmr = (if m_UpdateMmrs bic
                         then (m_Mmr s)\<lparr>m_Shielded :=
                                Mmr_ShrinkTo (length (m_Shielded (m_Mmr s)) - 1) (m_Shielded (m_Mmr s))\<rparr>
                         else m_Mmr s)
              in Inr (True, bic\<lparr>m_ShieldedIns := m_ShieldedIns bic - 1\<rparr>,
                      s\<lparr>m_DB := db1, m_Mmr := mmr\<rparr>)))) of
       Inl x \<Rightarrow> Inl x
     | Inr (False, bic', s') \<Rightarrow> Inr (False, bic', s')
     | Inr (True, bic', s') \<Rightarrow>
         Inr (True, bic',
              (if m_StoreShieldedOutput bic'
               then s'\<lparr>m_DB := (m_DB s')\<lparr>db_ShieldedInputs :=
                         of_nat (length (m_Shielded (m_Mmr s'))) - m_ShieldedOutputs (m_Extra s')\<rparr>\<rparr>
               else s')))"

section \<open>Kernel dispatch\<close>

text \<open>The \<open>switch (v.get_Subtype())\<close> of \<open>HandleKernel(const TxKernel&, ...)\<close>.\<close>

definition HandleKernel_Subtype ::
  "Env \<Rightarrow> KernelData \<Rightarrow> BlockInterpretCtx \<Rightarrow> NodeProcessor
   \<Rightarrow> exc + (bool \<times> BlockInterpretCtx \<times> NodeProcessor)" where
  "HandleKernel_Subtype e d bic s =
    (case d of
       Std pRelativeLock \<Rightarrow> HandleKernel_Std e pRelativeLock bic s
     | AssetCreate owner md \<Rightarrow> HandleKernel_AssetCreate e owner md bic s
     | AssetEmit aid owner v \<Rightarrow> HandleKernel_AssetEmit e aid owner v bic s
     | AssetDestroy aid owner \<Rightarrow> HandleKernel_AssetDestroy e aid owner bic s
     | ShieldedOutput serialPub commitment pAsset \<Rightarrow>
         HandleKernel_ShieldedOutput e serialPub commitment pAsset bic s
     | ShieldedInput spendPk windowEnd cfg pAsset \<Rightarrow>
         HandleKernel_ShieldedInput e spendPk windowEnd cfg pAsset bic s)"

text \<open>
  \<open>HandleKernel(const TxKernel&, ...)\<close>. \<open>HandleKernel_NestedFwd\<close> is the forward
  loop over \<open>m_vNested\<close>: it returns \<open>bOk\<close> and the index \<open>n\<close> where it stopped.
  \<open>HandleKernel_NestedBwd nested n\<close> is the loop \<open>while (n--)\<close>, which visits
  \<open>nested[n-1]\<close>, ..., \<open>nested[0]\<close> and calls \<open>OnCorrupted\<close> when one of them fails.
\<close>

fun HandleKernel ::
      "Env \<Rightarrow> TxKernel \<Rightarrow> BlockInterpretCtx \<Rightarrow> NodeProcessor
       \<Rightarrow> exc + (bool \<times> BlockInterpretCtx \<times> NodeProcessor)"
  and HandleKernel_NestedFwd ::
      "Env \<Rightarrow> TxKernel list \<Rightarrow> BlockInterpretCtx \<Rightarrow> NodeProcessor
       \<Rightarrow> exc + (bool \<times> nat \<times> BlockInterpretCtx \<times> NodeProcessor)"
  and HandleKernel_NestedBwd ::
      "Env \<Rightarrow> TxKernel list \<Rightarrow> nat \<Rightarrow> BlockInterpretCtx \<Rightarrow> NodeProcessor
       \<Rightarrow> exc + (BlockInterpretCtx \<times> NodeProcessor)"
where
  "HandleKernel e (TxKernel kid nested d) bic s =
    (case (if m_Fwd bic then HandleKernel_NestedFwd e nested bic s
           else Inr (True, length nested, bic, s)) of
       Inl x \<Rightarrow> Inl x
     | Inr (bOk0, n, bic1, s1) \<Rightarrow>
        (case (if bOk0 then HandleKernel_Subtype e d bic1 s1 else Inr (False, bic1, s1)) of
           Inl x \<Rightarrow> Inl x
         | Inr (bOk, bic2, s2) \<Rightarrow>
            (if \<not> bOk \<and> \<not> m_Fwd bic2 then Inl Corrupted
             else
              (let bic3 = (if \<not> bOk then bic2\<lparr>m_Fwd := False\<rparr> else bic2)
               in case (if \<not> m_Fwd bic3 \<and> \<not> m_ValidateOnly bic3
                        then HandleKernel_NestedBwd e nested n bic3 s2
                        else Inr (bic3, s2)) of
                    Inl x \<Rightarrow> Inl x
                  | Inr (bic4, s4) \<Rightarrow>
                      Inr (bOk, (if \<not> bOk then bic4\<lparr>m_Fwd := True\<rparr> else bic4), s4)))))"
| "HandleKernel_NestedFwd e [] bic s = Inr (True, 0, bic, s)"
| "HandleKernel_NestedFwd e (k # ks) bic s =
    (case HandleKernel e k bic s of
       Inl x \<Rightarrow> Inl x
     | Inr (ok, bic1, s1) \<Rightarrow>
        (if \<not> ok then Inr (False, 0, bic1, s1)
         else
          (case HandleKernel_NestedFwd e ks bic1 s1 of
             Inl x \<Rightarrow> Inl x
           | Inr (ok2, n, bic2, s2) \<Rightarrow> Inr (ok2, Suc n, bic2, s2))))"
| "HandleKernel_NestedBwd e [] n bic s = Inr (bic, s)"
| "HandleKernel_NestedBwd e (k # ks) n bic s =
    (if n = 0 then Inr (bic, s)
     else
      (case HandleKernel_NestedBwd e ks (n - 1) bic s of
         Inl x \<Rightarrow> Inl x
       | Inr (bic1, s1) \<Rightarrow>
          (case HandleKernel e k bic1 s1 of
             Inl x \<Rightarrow> Inl x
           | Inr (ok, bic2, s2) \<Rightarrow> if \<not> ok then Inl Corrupted else Inr (bic2, s2))))"

definition HandleBlockElement_Kernel ::
  "Env \<Rightarrow> TxKernel \<Rightarrow> BlockInterpretCtx \<Rightarrow> NodeProcessor
   \<Rightarrow> exc + (bool \<times> TxKernel \<times> BlockInterpretCtx \<times> NodeProcessor)" where
  "HandleBlockElement_Kernel e v bic0 s =
    (case
      (if m_Fwd bic0 \<and> r_Fork2_Height e \<le> m_Height bic0 \<and> \<not> m_AlreadyValidated bic0 then
         (if HeightGenesis \<le> FindVisibleKernel e (m_DB s) (krn_ID v) bic0 then None
          else if m_ValidateOnly bic0 then
            (if krn_ID v \<in> set (m_pDupIDs bic0) then None
             else Some (bic0\<lparr>m_pDupIDs := krn_ID v # m_pDupIDs bic0\<rparr>))
          else Some bic0)
       else Some bic0) of
       None \<Rightarrow> Inr (False, v, bic0, s)
     | Some bic \<Rightarrow>
        (let bSaveID = (HeightGenesis \<le> m_Height bic \<and> m_SaveKid bic)
         in case (if bSaveID \<and> \<not> m_Fwd bic
                  then DeleteKernel (krn_ID v) (m_Height bic) (m_DB s)
                  else Inr (m_DB s)) of
              Inl x \<Rightarrow> Inl x
            | Inr db1 \<Rightarrow>
               (case HandleKernel e v bic (s\<lparr>m_DB := db1\<rparr>) of
                  Inl x \<Rightarrow> Inl x
                | Inr (ok, bic', s') \<Rightarrow>
                   (if \<not> ok then (if \<not> m_Fwd bic' then Inl Corrupted else Inr (False, v, bic', s'))
                    else if bSaveID \<and> m_Fwd bic'
                    then Inr (True, v, bic',
                              s'\<lparr>m_DB := InsertKernel (krn_ID v) (m_Height bic') (m_DB s')\<rparr>)
                    else Inr (True, v, bic', s')))))"

section \<open>Transactions and blocks\<close>

text \<open>
  \<open>HandleElementVecFwd\<close> and \<open>HandleElementVecBwd\<close> are templates over the element
  type; here the handler of the element is the first argument. The forward loop
  returns the result and the index \<open>n\<close> at which it stopped. The backward loop
  \<open>while (n--)\<close> handles \<open>vec[n-1]\<close>, ..., \<open>vec[0]\<close> (no backward handler writes to
  its element) and calls \<open>OnCorrupted\<close> when a handler fails.
\<close>

fun HandleElementVecFwd ::
  "('a \<Rightarrow> BlockInterpretCtx \<Rightarrow> NodeProcessor \<Rightarrow> exc + (bool \<times> 'a \<times> BlockInterpretCtx \<times> NodeProcessor))
   \<Rightarrow> 'a list \<Rightarrow> BlockInterpretCtx \<Rightarrow> NodeProcessor
   \<Rightarrow> exc + (bool \<times> nat \<times> 'a list \<times> BlockInterpretCtx \<times> NodeProcessor)" where
  "HandleElementVecFwd h [] bic s = Inr (True, 0, [], bic, s)"
| "HandleElementVecFwd h (v # vs) bic s =
    (case h v bic s of
       Inl x \<Rightarrow> Inl x
     | Inr (ok, v', bic1, s1) \<Rightarrow>
        (if \<not> ok then Inr (False, 0, v' # vs, bic1, s1)
         else
          (case HandleElementVecFwd h vs bic1 s1 of
             Inl x \<Rightarrow> Inl x
           | Inr (ok2, n, vs', bic2, s2) \<Rightarrow> Inr (ok2, Suc n, v' # vs', bic2, s2))))"

fun HandleElementVecBwd ::
  "('a \<Rightarrow> BlockInterpretCtx \<Rightarrow> NodeProcessor \<Rightarrow> exc + (bool \<times> 'a \<times> BlockInterpretCtx \<times> NodeProcessor))
   \<Rightarrow> 'a list \<Rightarrow> nat \<Rightarrow> BlockInterpretCtx \<Rightarrow> NodeProcessor
   \<Rightarrow> exc + (BlockInterpretCtx \<times> NodeProcessor)" where
  "HandleElementVecBwd h [] n bic s = Inr (bic, s)"
| "HandleElementVecBwd h (v # vs) n bic s =
    (if n = 0 then Inr (bic, s)
     else
      (case HandleElementVecBwd h vs (n - 1) bic s of
         Inl x \<Rightarrow> Inl x
       | Inr (bic1, s1) \<Rightarrow>
          (case h v bic1 s1 of
             Inl x \<Rightarrow> Inl x
           | Inr (ok, v', bic2, s2) \<Rightarrow> if \<not> ok then Inl Corrupted else Inr (bic2, s2))))"

text \<open>
  \<open>HandleValidatedTx\<close>: forward, the three vectors in order, stopping at the first
  failure with the counts \<open>pN\<close> of what was applied; then, with \<open>m_Fwd\<close> cleared,
  the backward loops over kernels, outputs and inputs, and \<open>m_Fwd\<close> set again.
  Backward, all of the three vectors.
\<close>

definition HandleValidatedTx ::
  "Env \<Rightarrow> TxVectors \<Rightarrow> BlockInterpretCtx \<Rightarrow> NodeProcessor
   \<Rightarrow> exc + (bool \<times> TxVectors \<times> BlockInterpretCtx \<times> NodeProcessor)" where
  "HandleValidatedTx e txv bic s =
    (case
      (if m_Fwd bic then
         (case HandleElementVecFwd (HandleBlockElement_Input e) (m_vInputs txv) bic s of
            Inl x \<Rightarrow> Inl x
          | Inr (ok0, n0, ins, bic0, s0) \<Rightarrow>
             (if \<not> ok0 then Inr (False, n0, 0, 0, txv\<lparr>m_vInputs := ins\<rparr>, bic0, s0)
              else
               (case HandleElementVecFwd (HandleBlockElement_Output e) (m_vOutputs txv) bic0 s0 of
                  Inl x \<Rightarrow> Inl x
                | Inr (ok1, n1, outs, bic1, s1) \<Rightarrow>
                   (if \<not> ok1 then Inr (False, n0, n1, 0, txv\<lparr>m_vInputs := ins\<rparr>, bic1, s1)
                    else
                     (case HandleElementVecFwd (HandleBlockElement_Kernel e) (m_vKernels txv) bic1 s1 of
                        Inl x \<Rightarrow> Inl x
                      | Inr (ok2, n2, krns, bic2, s2) \<Rightarrow>
                          Inr (ok2, n0, n1, n2, txv\<lparr>m_vInputs := ins\<rparr>, bic2, s2))))))
       else Inr (True, length (m_vInputs txv), length (m_vOutputs txv), length (m_vKernels txv),
                 txv, bic, s)) of
       Inl x \<Rightarrow> Inl x
     | Inr (bOk, n0, n1, n2, txv', bic', s') \<Rightarrow>
        (if m_Fwd bic' \<and> bOk then Inr (True, txv', bic', s')
         else
          (case HandleElementVecBwd (HandleBlockElement_Kernel e) (m_vKernels txv') n2
                  (bic'\<lparr>m_Fwd := False\<rparr>) s' of
             Inl x \<Rightarrow> Inl x
           | Inr (bicA, sA) \<Rightarrow>
              (case HandleElementVecBwd (HandleBlockElement_Output e) (m_vOutputs txv') n1 bicA sA of
                 Inl x \<Rightarrow> Inl x
               | Inr (bicB, sB) \<Rightarrow>
                  (case HandleElementVecBwd (HandleBlockElement_Input e) (m_vInputs txv') n0 bicB sB of
                     Inl x \<Rightarrow> Inl x
                   | Inr (bicC, sC) \<Rightarrow>
                       Inr (bOk, txv', (if \<not> bOk then bicC\<lparr>m_Fwd := True\<rparr> else bicC), sC))))))"

definition HandleValidatedBlock ::
  "Env \<Rightarrow> TxVectors \<Rightarrow> BlockInterpretCtx \<Rightarrow> NodeProcessor
   \<Rightarrow> exc + (bool \<times> TxVectors \<times> BlockInterpretCtx \<times> NodeProcessor)" where
  "HandleValidatedBlock e block bic s =
    (let s0 = (if \<not> m_Fwd bic
               then s\<lparr>m_Extra := (m_Extra s)\<lparr>m_Txos := m_Txos (m_Extra s) - 1\<rparr>\<rparr> else s)
     in case HandleValidatedTx e block bic s0 of
          Inl x \<Rightarrow> Inl x
        | Inr (ok, block', bic', s') \<Rightarrow>
           (if \<not> ok then Inr (False, block', bic', s')
            else if m_Fwd bic'
            then Inr (True, block', bic',
                      s'\<lparr>m_Extra := (m_Extra s')\<lparr>m_Txos := m_Txos (m_Extra s') + 1\<rparr>\<rparr>)
            else Inr (True, block', bic', s')))"

section \<open>Receiving headers and blocks\<close>

datatype DataStatus = Accepted | Rejected | Invalid | Unreachable

definition get_LowestReturnHeight :: "Env \<Rightarrow> NodeProcessor \<Rightarrow> Height" where
  "get_LowestReturnHeight e s =
    (let hRet = m_TxoHi (m_Extra s);
         h0 = (if IsFastSync s then sd_h0 (m_SyncData s) else id_Height (cur_ID (m_Cursor s)));
         hMaxRollback = (ucast (r_MaxRollback e) :: Height)
     in if hMaxRollback < h0 then setmax hRet (h0 - hMaxRollback) else hRet)"

text \<open>
  \<open>OnStateInternal\<close>; \<open>ts\<close> is the value of \<open>getTimestamp()\<close>. The id of the
  header is \<open>get_ID s\<close>.
\<close>

definition OnStateInternal ::
  "Env \<Rightarrow> Timestamp \<Rightarrow> SystemState_Full \<Rightarrow> bool \<Rightarrow> NodeProcessor \<Rightarrow> DataStatus" where
  "OnStateInternal e ts st bAlreadyChecked s =
    (if \<not> (bAlreadyChecked \<or> hdr_IsValid st) then Invalid
     else if ts < hdr_TimeStamp st \<and> ucast (r_DA_MaxAhead_s e) < hdr_TimeStamp st - ts then Invalid
     else if hdr_Height st < get_LowestReturnHeight e s then Unreachable
     else if StateFindSafe (m_DB s) (get_ID st) \<noteq> 0 then Rejected
     else Accepted)"

definition OnStateSilent ::
  "Env \<Rightarrow> Timestamp \<Rightarrow> SystemState_Full \<Rightarrow> PeerID \<Rightarrow> bool \<Rightarrow> NodeProcessor
   \<Rightarrow> DataStatus \<times> NodeProcessor" where
  "OnStateSilent e ts st peer bAlreadyChecked s =
    (let ret = OnStateInternal e ts st bAlreadyChecked s
     in if ret = Accepted then (ret, s\<lparr>m_DB := InsertState st peer (m_DB s)\<rparr>) else (ret, s))"

definition OnState ::
  "Env \<Rightarrow> Timestamp \<Rightarrow> SystemState_Full \<Rightarrow> PeerID \<Rightarrow> NodeProcessor
   \<Rightarrow> DataStatus \<times> NodeProcessor" where
  "OnState e ts st peer s = OnStateSilent e ts st peer False s"

text \<open>
  \<open>OnBlock(const NodeDB::StateID&, ...)\<close> and the overload taking the id of the
  header, which looks the row up first.
\<close>

definition OnBlock ::
  "Env \<Rightarrow> StateID \<Rightarrow> byte list \<Rightarrow> byte list \<Rightarrow> PeerID \<Rightarrow> NodeProcessor
   \<Rightarrow> exc + (DataStatus \<times> NodeProcessor)" where
  "OnBlock e sid bbP bbE peer s =
    (if unat (r_MaxBodySize e) < length bbP + length bbE then Inr (Invalid, s)
     else
      (case get_Row (m_DB s) (sid_Row sid) of
         Inl x \<Rightarrow> Inl x
       | Inr r \<Rightarrow>
          (if row_Functional r then Inr (Rejected, s)
           else if sid_Height sid < get_LowestReturnHeight e s then Inr (Unreachable, s)
           else
            (case SetStateBlock (sid_Row sid) bbP bbE peer (m_DB s) of
               Inl x \<Rightarrow> Inl x
             | Inr db1 \<Rightarrow>
                (case SetStateFunctional (sid_Row sid) db1 of
                   Inl x \<Rightarrow> Inl x
                 | Inr db2 \<Rightarrow> Inr (Accepted, s\<lparr>m_DB := db2\<rparr>))))))"

definition OnBlock_ID ::
  "Env \<Rightarrow> SystemState_ID \<Rightarrow> byte list \<Rightarrow> byte list \<Rightarrow> PeerID \<Rightarrow> NodeProcessor
   \<Rightarrow> exc + (DataStatus \<times> NodeProcessor)" where
  "OnBlock_ID e sid bbP bbE peer s =
    (let row = StateFindSafe (m_DB s) sid
     in if row = 0 then Inr (Rejected, s)
        else OnBlock e \<lparr>sid_Row = row, sid_Height = id_Height sid\<rparr> bbP bbE peer s)"

section \<open>A concrete environment\<close>

text \<open>
  An instance of the rules and primitives, on which the functions above can be run:
  the serializer writes integers with a fixed width, most significant byte first,
  and a byte string after its 32-bit length. \<open>np_empty\<close> is the empty processor
  state, \<open>np_asset v\<close> holds one asset of value \<open>v\<close>, and \<open>bic_block h\<close> is the
  context that \<open>HandleBlock\<close> builds for a block at height \<open>h\<close>.
\<close>

fun nat_to_bytes :: "nat \<Rightarrow> nat \<Rightarrow> byte list" where
  "nat_to_bytes 0 x = []"
| "nat_to_bytes (Suc n) x = nat_to_bytes n (x div 256) @ [of_nat (x mod 256)]"

definition bytes_to_nat :: "byte list \<Rightarrow> nat" where
  "bytes_to_nat bs = foldl (\<lambda>acc b. acc * 256 + unat b) 0 bs"

definition ser_AssetID_be :: "AssetID \<Rightarrow> byte list" where
  "ser_AssetID_be x = nat_to_bytes 4 (unat x)"

definition der_AssetID_be :: "byte list \<Rightarrow> (AssetID \<times> byte list) option" where
  "der_AssetID_be bs =
    (if length bs < 4 then None else Some (of_nat (bytes_to_nat (take 4 bs)), drop 4 bs))"

definition ser_Height_be :: "Height \<Rightarrow> byte list" where
  "ser_Height_be x = nat_to_bytes 8 (unat x)"

definition der_Height_be :: "byte list \<Rightarrow> (Height \<times> byte list) option" where
  "der_Height_be bs =
    (if length bs < 8 then None else Some (of_nat (bytes_to_nat (take 8 bs)), drop 8 bs))"

definition ser_Metadata_be :: "Metadata \<Rightarrow> byte list" where
  "ser_Metadata_be md =
     nat_to_bytes 4 (length (md_Value md)) @ md_Value md @ nat_to_bytes 32 (unat (md_Hash md))"

definition der_Metadata_be :: "byte list \<Rightarrow> (Metadata \<times> byte list) option" where
  "der_Metadata_be bs =
    (if length bs < 4 then None
     else (let n = bytes_to_nat (take 4 bs); r = drop 4 bs
           in if length r < n + 32 then None
              else Some (\<lparr>md_Value = take n r,
                         md_Hash = of_nat (bytes_to_nat (take 32 (drop n r)))\<rparr>,
                         drop (n + 32) r)))"

definition Asset_get_Hash0 :: "Asset_Full \<Rightarrow> Hash" where
  "Asset_get_Hash0 ai = 1 + ucast (ai_ID ai) + ucast (ai_Value ai) + ucast (ai_LockHeight ai)"

definition DescriptionOutp_get_Hash0 :: "Point \<Rightarrow> Point \<Rightarrow> TxoID \<Rightarrow> Height \<Rightarrow> Hash" where
  "DescriptionOutp_get_Hash0 serialPub commitment nID h =
     2 + m_X serialPub + m_X commitment + ucast nID + ucast h"

definition DescriptionInp_get_Hash0 :: "Point \<Rightarrow> Height \<Rightarrow> Hash" where
  "DescriptionInp_get_Hash0 spendPk h = 3 + m_X spendPk + ucast h"

definition ShieldedPoint0 :: "Point \<Rightarrow> Point \<Rightarrow> Point" where
  "ShieldedPoint0 commitment serialPub = \<lparr>m_X = m_X commitment + m_X serialPub, m_Y = 0\<rparr>"

definition HeightAdd0 :: "Height \<Rightarrow> Height \<Rightarrow> Height" where
  "HeightAdd0 h dh = (if h + dh < dh then MaxHeight else h + dh)"

definition get_MinMaturity0 :: "Output \<Rightarrow> Height \<Rightarrow> Height" where
  "get_MinMaturity0 v h = max h (h + (if outp_Coinbase v then 3 else 0) + outp_Incubation v)"

definition H2I0 :: "Height \<Rightarrow> nat" where
  "H2I0 h = unat (h - HeightGenesis)"

definition Difficulty_Unpack0 :: "32 word \<Rightarrow> 256 word" where
  "Difficulty_Unpack0 d = ucast d"

definition der_Body0 :: "byte list \<Rightarrow> byte list \<Rightarrow> (256 word \<times> TxVectors) option" where
  "der_Body0 bbP bbE = None"

definition KrnFlyMmr_Hash0 :: "TxKernel list \<Rightarrow> Hash" where
  "KrnFlyMmr_Hash0 ks = sum_list (map krn_ID ks)"

definition env0 :: Env where
  "env0 =
    \<lparr> r_Fork2_Height = 5, r_MaxKernelValidityDH = 100,
      r_CA_LockPeriod = 2, r_Asset_MaxCount = 1000,
      r_Shielded_Enabled = True, r_Shielded_MaxOuts = 2, r_Shielded_MaxIns = 2,
      r_Shielded_ProofMin = \<lparr>cfg_n = 4, cfg_M = 3\<rparr>,
      r_Shielded_ProofMax = \<lparr>cfg_n = 4, cfg_M = 8\<rparr>,
      r_Shielded_MaxWindowBacklog = 16,
      r_MaxRollback = 1440, r_MaxBodySize = 1048576, r_DA_MaxAhead_s = 7200,
      r_DA_WindowMedian0 = 3, r_DA_Target_s = 60, r_DA_Difficulty0 = 0,
      p_Asset_get_Hash = Asset_get_Hash0,
      p_DescriptionOutp_get_Hash = DescriptionOutp_get_Hash0,
      p_DescriptionInp_get_Hash = DescriptionInp_get_Hash0,
      p_ShieldedPoint = ShieldedPoint0,
      p_ser_AssetID = ser_AssetID_be,
      p_der_AssetID = der_AssetID_be,
      p_ser_Height = ser_Height_be,
      p_der_Height = der_Height_be,
      p_ser_Metadata = ser_Metadata_be,
      p_der_Metadata = der_Metadata_be,
      p_NewLeafID = 0,
      p_HeightAdd = HeightAdd0,
      p_get_MinMaturity = get_MinMaturity0,
      p_H2I = H2I0,
      p_Difficulty_Unpack = Difficulty_Unpack0,
      p_der_Body = der_Body0,
      p_KrnFlyMmr_Hash = KrnFlyMmr_Hash0,
      c_NegTestKept = True \<rparr>"

definition np_empty :: NodeProcessor where
  "np_empty =
    \<lparr> m_DB = \<lparr> db_Assets = Map.empty, db_AssetsCount = 0, db_AssetsCountUsed = 0,
               db_Unique = Map.empty, db_Kernels = [], db_Shielded = [],
               db_ShieldedOutputs = 0, db_ShieldedInputs = 0, db_States = [],
               db_Txos = Map.empty, db_SyncData = None \<rparr>,
      m_Utxos = Map.empty,
      m_Mmr = \<lparr> m_States = [], m_Shielded = [], m_Assets = [] \<rparr>,
      m_Extra = \<lparr> m_Txos = 0, m_ShieldedOutputs = 0, m_TxoHi = 0, m_TxosTreasury = 0 \<rparr>,
      m_Cursor = \<lparr> cur_Sid = \<lparr>sid_Row = 0, sid_Height = 0\<rparr>,
                   cur_ID = \<lparr>id_Height = 0, id_Hash = 0\<rparr>,
                   cur_Full = \<lparr>hdr_Height = 0, hdr_Prev = 0, hdr_ChainWork = 0, hdr_Kernels = 0,
                               hdr_Definition = 0, hdr_TimeStamp = 0, hdr_Difficulty = 0,
                               hdr_Hash = 0, hdr_IsValid = False\<rparr>,
                   cur_DifficultyNext = 0 \<rparr>,
      m_SyncData = \<lparr> sd_h0 = 0, sd_TxoLo = 0, sd_Target = \<lparr>sid_Row = 0, sid_Height = 0\<rparr>,
                     sd_Sigma = \<lparr>m_X = 0, m_Y = 0\<rparr> \<rparr>,
      m_RecentStates = [] \<rparr>"

definition asset_example :: "AmountBig \<Rightarrow> Asset_Full" where
  "asset_example v = \<lparr>ai_ID = 1, ai_Owner = 7, ai_Value = v, ai_LockHeight = 3,
            ai_Metadata = \<lparr>md_Value = [1, 2], md_Hash = 9\<rparr>\<rparr>"

definition np_asset :: "AmountBig \<Rightarrow> NodeProcessor" where
  "np_asset v =
     np_empty\<lparr> m_DB := (m_DB np_empty)\<lparr> db_Assets := [1 \<mapsto> asset_example v],
                  db_AssetsCount := 1, db_AssetsCountUsed := 1 \<rparr>,
               m_Mmr := (m_Mmr np_empty)\<lparr> m_Assets := [Asset_get_Hash0 (asset_example v)] \<rparr> \<rparr>"

definition bic_block :: "Height \<Rightarrow> BlockInterpretCtx" where
  "bic_block h = (BlockInterpretCtx_new env0 h True)\<lparr>m_pRollback := Some [], m_StoreShieldedOutput := True\<rparr>"

text \<open>
  A processor at height 5000 that knows a header of height 1 without its block and
  a header of height 4000 with its block.
\<close>

definition hdr_example :: "Height \<Rightarrow> SystemState_Full" where
  "hdr_example h = \<lparr>hdr_Height = h, hdr_Prev = 0, hdr_ChainWork = 10, hdr_Kernels = 0,
                     hdr_Definition = 0, hdr_TimeStamp = 100, hdr_Difficulty = 10,
                     hdr_Hash = 77, hdr_IsValid = True\<rparr>"

definition row_example :: "Height \<Rightarrow> bool \<Rightarrow> StateRow" where
  "row_example h f = \<lparr>row_State = hdr_example h, row_Functional = f, row_Active = False,
                       row_Peer = None, row_BodyP = [], row_BodyE = [], row_Rollback = [],
                       row_Txos = MaxHeight, row_Prev = 0, row_Extra = None, row_Inputs = []\<rparr>"

definition np_5000 :: NodeProcessor where
  "np_5000 =
     np_empty\<lparr> m_DB := (m_DB np_empty)\<lparr> db_States :=
                  [(1, row_example 1 False), (2, row_example 4000 True)] \<rparr>,
               m_Cursor := (m_Cursor np_empty)\<lparr> cur_ID := \<lparr>id_Height = 5000, id_Hash = 1\<rparr> \<rparr> \<rparr>"

text \<open>
  The flags of the context that no handler writes: two contexts agree on them.
\<close>

definition same_flags :: "BlockInterpretCtx \<Rightarrow> BlockInterpretCtx \<Rightarrow> bool" where
  "same_flags bic bic' =
    (m_Height bic' = m_Height bic \<and> m_Fwd bic' = m_Fwd bic
     \<and> m_ValidateOnly bic' = m_ValidateOnly bic \<and> m_AlreadyValidated bic' = m_AlreadyValidated bic
     \<and> m_SaveKid bic' = m_SaveKid bic \<and> m_UpdateMmrs bic' = m_UpdateMmrs bic
     \<and> m_StoreShieldedOutput bic' = m_StoreShieldedOutput bic \<and> m_AssetHi bic' = m_AssetHi bic)"

text \<open>
  \<open>steps_ok h vs c c'\<close>: the handler \<open>h\<close> ran on the elements \<open>vs\<close> in this order
  from \<open>c\<close> to \<open>c'\<close>, and returned \<open>true\<close> on each of them.
\<close>

inductive steps_ok ::
  "('v \<Rightarrow> 'c \<Rightarrow> 'n \<Rightarrow> exc + (bool \<times> 'v \<times> 'c \<times> 'n)) \<Rightarrow> 'v list \<Rightarrow> 'c \<times> 'n \<Rightarrow> 'c \<times> 'n \<Rightarrow> bool"
  for h where
  steps_ok_Nil: "steps_ok h [] c c"
| steps_ok_Cons: "h v bic s = Inr (True, v', bic1, s1) \<Longrightarrow> steps_ok h vs (bic1, s1) c
    \<Longrightarrow> steps_ok h (v # vs) (bic, s) c"

text \<open>
  A block of one output and one kernel, the processor after it was applied at
  height 1, and the context of its backward pass.
\<close>

definition output_example :: Output where
  "output_example = \<lparr>outp_Commitment = \<lparr>m_X = 21, m_Y = 0\<rparr>, outp_Coinbase = False,
                      outp_Incubation = 0, outp_pAsset = None\<rparr>"

definition kernel_example :: TxKernel where
  "kernel_example = TxKernel 31 [] (Std None)"

definition block_example :: TxVectors where
  "block_example = \<lparr>m_vInputs = [], m_vOutputs = [output_example], m_vKernels = [kernel_example]\<rparr>"

definition np_block1 :: NodeProcessor where
  "np_block1 =
     np_empty\<lparr> m_DB := (m_DB np_empty)\<lparr> db_Kernels := [(31, 1)] \<rparr>,
               m_Utxos := [(\<lparr>m_X = 21, m_Y = 0\<rparr>, 1) \<mapsto> (0, [])],
               m_Extra := (m_Extra np_empty)\<lparr> m_Txos := 2 \<rparr> \<rparr>"

definition bic_bwd :: "Height \<Rightarrow> BlockInterpretCtx" where
  "bic_bwd h = (bic_block h)\<lparr>m_Fwd := False\<rparr>"

definition np_block1_mid :: NodeProcessor where
  "np_block1_mid =
     np_empty\<lparr> m_Utxos := [(\<lparr>m_X = 21, m_Y = 0\<rparr>, 1) \<mapsto> (0, [])],
               m_Extra := (m_Extra np_empty)\<lparr> m_Txos := 1 \<rparr> \<rparr>"

text \<open>\<open>BlockInterpretCtx::SetAssetHi\<close>: the number of leaves of the asset MMR.\<close>

definition SetAssetHi :: "NodeProcessor \<Rightarrow> BlockInterpretCtx \<Rightarrow> BlockInterpretCtx" where
  "SetAssetHi np bic = bic\<lparr>m_AssetHi := of_nat (length (m_Assets (m_Mmr np)))\<rparr>"

text \<open>A block of one output whose asset proof begins at asset 5.\<close>

definition output_asset5 :: Output where
  "output_asset5 = \<lparr>outp_Commitment = \<lparr>m_X = 11, m_Y = 0\<rparr>, outp_Coinbase = False,
                     outp_Incubation = 0, outp_pAsset = Some 5\<rparr>"

definition block_asset5 :: TxVectors where
  "block_asset5 = \<lparr>m_vInputs = [], m_vOutputs = [output_asset5], m_vKernels = []\<rparr>"

text \<open>The environment of a build that removed the test after the negation.\<close>

definition env_opt :: Env where
  "env_opt = env0\<lparr>c_NegTestKept := False\<rparr>"

text \<open>
  The blocks of a path applied one after the other, each with its context, as the
  loop of \<open>TryGoTo\<close> does through \<open>HandleBlock\<close>: the processor after the last
  one, if each of them was applied.
\<close>

fun apply_blocks :: "Env \<Rightarrow> (TxVectors \<times> BlockInterpretCtx) list \<Rightarrow> NodeProcessor
    \<Rightarrow> NodeProcessor option" where
  "apply_blocks e [] s = Some s"
| "apply_blocks e (b # bs) s =
    (case HandleValidatedBlock e (fst b) (snd b) s of
       Inl x \<Rightarrow> None
     | Inr (ok, blk', bic', s') \<Rightarrow> if ok then apply_blocks e bs s' else None)"

text \<open>
  The TxoID that the forward pass over a block writes on top of the leaf of the
  block's \<open>i\<close>-th output: the inputs are handled, then the outputs before this one,
  then this one.
\<close>

definition assigned_TxoID :: "Env \<Rightarrow> TxVectors \<Rightarrow> BlockInterpretCtx \<Rightarrow> NodeProcessor \<Rightarrow> nat
    \<Rightarrow> TxoID option" where
  "assigned_TxoID e blk bic s i =
    (case HandleElementVecFwd (HandleBlockElement_Input e) (m_vInputs blk) bic s of
       Inl x \<Rightarrow> None
     | Inr (ok0, n0, ins, b0, s0) \<Rightarrow>
        (if \<not> ok0 then None
         else
          (case HandleElementVecFwd (HandleBlockElement_Output e) (take i (m_vOutputs blk)) b0 s0 of
             Inl x \<Rightarrow> None
           | Inr (ok1, n1, outs, b1, s1) \<Rightarrow>
              (if \<not> ok1 then None
               else
                (case HandleBlockElement_Output e (m_vOutputs blk ! i) b1 s1 of
                   Inl x \<Rightarrow> None
                 | Inr (ok2, v', b2, s2) \<Rightarrow>
                    (if \<not> ok2 then None
                     else map_option fst
                            (m_Utxos s2 (outp_Commitment (m_vOutputs blk ! i),
                               p_get_MinMaturity e (m_vOutputs blk ! i) (m_Height b1)))))))))"

text \<open>The number of TxoIDs that the blocks of a path consume.\<close>

definition chain_Txos :: "(TxVectors \<times> BlockInterpretCtx) list \<Rightarrow> nat" where
  "chain_Txos bs = sum_list (map (\<lambda>b. length (m_vOutputs (fst b)) + 1) bs)"

definition np_block2 :: NodeProcessor where
  "np_block2 =
     np_empty\<lparr> m_DB := (m_DB np_empty)\<lparr> db_Kernels := [(31, 2), (31, 1)] \<rparr>,
               m_Utxos := [(\<lparr>m_X = 21, m_Y = 0\<rparr>, 1) \<mapsto> (0, []),
                           (\<lparr>m_X = 21, m_Y = 0\<rparr>, 2) \<mapsto> (2, [])],
               m_Extra := (m_Extra np_empty)\<lparr> m_Txos := 4 \<rparr> \<rparr>"

text \<open>
  \<open>HandleKernel\<close> with the kernel handed back: the shape of an element handler, so
  that the loop over the nested kernels can be compared with \<open>HandleElementVecBwd\<close>.
\<close>

definition HandleKernel_elem ::
  "Env \<Rightarrow> TxKernel \<Rightarrow> BlockInterpretCtx \<Rightarrow> NodeProcessor
   \<Rightarrow> exc + (bool \<times> TxKernel \<times> BlockInterpretCtx \<times> NodeProcessor)" where
  "HandleKernel_elem e k bic s =
    (case HandleKernel e k bic s of
       Inl x \<Rightarrow> Inl x
     | Inr (ok, bic', s') \<Rightarrow> Inr (ok, k, bic', s'))"

text \<open>
  \<open>RollbackTo(h)\<close>. Modelled from the spec: NodeDB is not part of the processor, so
  what it hands to \<open>RollbackTo\<close> is given as data. \<open>rb_Path\<close> holds the states from
  the cursor down, in the order in which \<open>get_Prev\<close> and \<open>MoveBack\<close> visit them,
  each with its height, its stored inputs as \<open>get_StateInputs\<close> and
  \<open>ToInputWithMaturity\<close> rebuild them, the kernels of its stored block and its
  rollback buffer; \<open>rb_Txos\<close> holds the outputs that \<open>EnumTxos\<close> walks with the
  heights of their creation; \<open>rb_id0\<close> is \<open>get_TxosBefore(h + 1)\<close>; \<open>rb_Cursor\<close> is
  the cursor that \<open>InitCursor\<close> reads back and \<open>rb_Definition\<close> is
  \<open>Evaluator::get_Definition\<close>. The writes to the tables of spent and stored Txos
  and of events are not part of the state of the model.
\<close>

record StateUndo =
  su_Height :: Height
  su_Inputs :: "Input list"
  su_Kernels :: "TxKernel list"
  su_Rollback :: "byte list"

record RollbackData =
  rb_id0 :: TxoID
  rb_Path :: "StateUndo list"
  rb_Txos :: "(Height \<times> Output) list"
  rb_Cursor :: Cursor
  rb_Definition :: "NodeProcessor \<Rightarrow> Hash"

text \<open>The loop over the inputs of one state: those created in the range are skipped.\<close>

fun RollbackTo_Inputs ::
  "Env \<Rightarrow> TxoID \<Rightarrow> Input list \<Rightarrow> BlockInterpretCtx \<Rightarrow> NodeProcessor
   \<Rightarrow> exc + (BlockInterpretCtx \<times> NodeProcessor)" where
  "RollbackTo_Inputs e id0 [] bic s = Inr (bic, s)"
| "RollbackTo_Inputs e id0 (inp # v) bic s =
    (if id0 \<le> inp_ID inp then RollbackTo_Inputs e id0 v bic s
     else
      (case HandleBlockElement_Input e inp bic s of
         Inl x \<Rightarrow> Inl x
       | Inr (ok, inp', bic1, s1) \<Rightarrow>
           if \<not> ok then Inl Corrupted else RollbackTo_Inputs e id0 v bic1 s1))"

fun RollbackTo_UndoInputs ::
  "Env \<Rightarrow> Height \<Rightarrow> TxoID \<Rightarrow> StateUndo list \<Rightarrow> NodeProcessor \<Rightarrow> exc + NodeProcessor" where
  "RollbackTo_UndoInputs e h id0 [] s = Inr s"
| "RollbackTo_UndoInputs e h id0 (st # path) s =
    (if h < su_Height st then
       (case RollbackTo_Inputs e id0 (su_Inputs st) (BlockInterpretCtx_new e (su_Height st) False) s of
          Inl x \<Rightarrow> Inl x
        | Inr (bic1, s1) \<Rightarrow> RollbackTo_UndoInputs e h id0 path s1)
     else Inr s)"

fun RollbackTo_UndoOutputs ::
  "Env \<Rightarrow> (Height \<times> Output) list \<Rightarrow> NodeProcessor \<Rightarrow> exc + NodeProcessor" where
  "RollbackTo_UndoOutputs e [] s = Inr s"
| "RollbackTo_UndoOutputs e (x # txos) s =
    (case HandleBlockElement_Output e (snd x) (BlockInterpretCtx_new e (fst x) False) s of
       Inl x \<Rightarrow> Inl x
     | Inr (ok, outp', bic1, s1) \<Rightarrow>
         if \<not> ok then Inl Corrupted else RollbackTo_UndoOutputs e txos s1)"

definition RollbackTo_bic :: "Env \<Rightarrow> StateUndo \<Rightarrow> BlockInterpretCtx" where
  "RollbackTo_bic e st =
    (BlockInterpretCtx_new e (su_Height st) False)
      \<lparr>m_StoreShieldedOutput := True, m_pRollback := Some (su_Rollback st),
       m_ShieldedIns := - 1, m_ShieldedOuts := - 1\<rparr>"

fun RollbackTo_UndoKernels ::
  "Env \<Rightarrow> Height \<Rightarrow> StateUndo list \<Rightarrow> NodeProcessor \<Rightarrow> exc + NodeProcessor" where
  "RollbackTo_UndoKernels e h [] s = Inr s"
| "RollbackTo_UndoKernels e h (st # path) s =
    (if h < su_Height st then
       (case HandleElementVecBwd (HandleBlockElement_Kernel e) (su_Kernels st)
               (length (su_Kernels st)) (RollbackTo_bic e st) s of
          Inl x \<Rightarrow> Inl x
        | Inr (bic1, s1) \<Rightarrow> RollbackTo_UndoKernels e h path s1)
     else Inr s)"

text \<open>\<open>RecentStates::RollbackTo\<close>, the newest entry first.\<close>

definition RecentStates_RollbackTo ::
  "Height \<Rightarrow> (64 word \<times> SystemState_Full) list \<Rightarrow> (64 word \<times> SystemState_Full) list" where
  "RecentStates_RollbackTo h rs = dropWhile (\<lambda>x. hdr_Height (snd x) \<noteq> h) rs"

definition TestDefinition :: "(NodeProcessor \<Rightarrow> Hash) \<Rightarrow> NodeProcessor \<Rightarrow> bool" where
  "TestDefinition get_Definition s =
    (if id_Height (cur_ID (m_Cursor s)) < HeightGenesis
        \<or> id_Height (cur_ID (m_Cursor s)) < sd_TxoLo (m_SyncData s)
     then True
     else hdr_Definition (cur_Full (m_Cursor s)) = get_Definition s)"

definition RollbackTo :: "Env \<Rightarrow> Height \<Rightarrow> RollbackData \<Rightarrow> NodeProcessor \<Rightarrow> exc + NodeProcessor" where
  "RollbackTo e h rb s =
    (if h = sid_Height (cur_Sid (m_Cursor s)) then Inr s
     else
      (case RollbackTo_UndoInputs e h (rb_id0 rb) (rb_Path rb) s of
         Inl x \<Rightarrow> Inl x
       | Inr s1 \<Rightarrow>
          (case RollbackTo_UndoOutputs e (rb_Txos rb) s1 of
             Inl x \<Rightarrow> Inl x
           | Inr s2 \<Rightarrow>
              (case RollbackTo_UndoKernels e h (rb_Path rb) s2 of
                 Inl x \<Rightarrow> Inl x
               | Inr s3 \<Rightarrow>
                  (let hCur = (case dropWhile (\<lambda>st. h < su_Height st) (rb_Path rb) of
                                 [] \<Rightarrow> 0 | st # path \<Rightarrow> su_Height st);
                       s4 = s3\<lparr>m_RecentStates := RecentStates_RollbackTo h (m_RecentStates s3),
                               m_Mmr := (m_Mmr s3)\<lparr>m_States :=
                                  (if hCur < HeightGenesis then []
                                   else Mmr_ShrinkTo (p_H2I e hCur) (m_States (m_Mmr s3)))\<rparr>,
                               m_Extra := (m_Extra s3)\<lparr>m_Txos := rb_id0 rb\<rparr>,
                               m_Cursor := rb_Cursor rb\<rparr>
                   in if \<not> TestDefinition (rb_Definition rb) s4 then Inl Corrupted
                      else Inr s4)))))"

text \<open>
  Examples for the backward pass: an emission for an asset that does not exist,
  alone and nested in a kernel; an input; and the data of a rollback from height 1
  to height 0 of the processor that holds the example block.
\<close>

definition kernel_emit_missing :: TxKernel where
  "kernel_emit_missing = TxKernel 32 [] (AssetEmit 9 7 5)"

definition kernel_nesting :: TxKernel where
  "kernel_nesting = TxKernel 33 [kernel_emit_missing] (Std None)"

definition input_example :: Input where
  "input_example = \<lparr>inp_Commitment = \<lparr>m_X = 21, m_Y = 0\<rparr>, inp_Maturity = 0, inp_ID = 0\<rparr>"

definition su_example :: StateUndo where
  "su_example = \<lparr>su_Height = 1, su_Inputs = [], su_Kernels = [kernel_example], su_Rollback = []\<rparr>"

definition rb_example :: RollbackData where
  "rb_example = \<lparr>rb_id0 = 0, rb_Path = [su_example], rb_Txos = [(1, output_example)],
                  rb_Cursor = m_Cursor np_empty, rb_Definition = (\<lambda>s. 0)\<rparr>"

definition np_block1_cur :: NodeProcessor where
  "np_block1_cur =
     np_empty\<lparr> m_DB := (m_DB np_empty)\<lparr> db_Kernels := [(31, 1)] \<rparr>,
               m_Utxos := [(\<lparr>m_X = 21, m_Y = 0\<rparr>, 1) \<mapsto> (0, [])],
               m_Extra := (m_Extra np_empty)\<lparr> m_Txos := 2 \<rparr>,
               m_Cursor := (m_Cursor np_empty)\<lparr> cur_Sid := \<lparr>sid_Row = 1, sid_Height = 1\<rparr> \<rparr> \<rparr>"

section \<open>Properties of the horizon\<close>

lemma setmax_ge1: "a \<le> setmax a b"
  by (auto simp: setmax_def)

lemma setmax_ge2: "b \<le> setmax a b"
  by (auto simp: setmax_def)

lemma word64_less_MaxHeight_plus1:
  fixes x :: Height
  assumes "x < MaxHeight"
  shows "x < x + 1"
  using assms unfolding MaxHeight_def by unat_arith

text \<open>
  C6 (as stated): after \<open>Normalize\<close> every configuration has \<open>sync.Lo > sync.Hi\<close>.
  This fails for the default (infinite) horizon, where \<open>sync.Hi = MaxHeight\<close> and the
  increment is skipped by the guard \<open>m_Sync.Hi < MaxHeight\<close>.
\<close>

theorem Normalize_sync_strict_counterexample:
  "\<not> (Hi (m_Sync (Normalize 1440 SetInfinite)) < Lo (m_Sync (Normalize 1440 SetInfinite)))"
  by (simp add: Normalize_def SetInfinite_def setmax_def MaxHeight_def Let_def)

text \<open>
  C6 (amended): after \<open>Normalize\<close>, \<open>branching \<ge> 1\<close>, \<open>sync.Hi \<ge> MaxRollback\<close>,
  \<open>sync.Lo \<ge> sync.Hi\<close> with \<open>sync.Lo > sync.Hi\<close> whenever \<open>sync.Hi < MaxHeight\<close>,
  \<open>local.Hi \<ge> sync.Hi\<close> and \<open>local.Lo \<ge> max(local.Hi, sync.Lo)\<close>.
\<close>

theorem Normalize_invariants:
  fixes hz :: Horizon and MaxRollback :: "32 word"
  defines "n \<equiv> Normalize MaxRollback hz"
  shows "1 \<le> m_Branching n
       \<and> ucast MaxRollback \<le> Hi (m_Sync n)
       \<and> Hi (m_Sync n) \<le> Lo (m_Sync n)
       \<and> (Hi (m_Sync n) < MaxHeight \<longrightarrow> Hi (m_Sync n) < Lo (m_Sync n))
       \<and> Hi (m_Sync n) \<le> Hi (m_Local n)
       \<and> max (Hi (m_Local n)) (Lo (m_Sync n)) \<le> Lo (m_Local n)"
proof -
  define branching where "branching = setmax (m_Branching hz) 1"
  define syncHi where "syncHi = setmax (Hi (m_Sync hz)) (max (ucast MaxRollback) branching)"
  define syncLo0 where "syncLo0 = setmax (Lo (m_Sync hz)) syncHi"
  define syncLo where
    "syncLo = (if syncLo0 = syncHi \<and> syncHi < MaxHeight then syncLo0 + 1 else syncLo0)"
  define localHi where "localHi = setmax (Hi (m_Local hz)) syncHi"
  define localLo where "localLo = setmax (Lo (m_Local hz)) (max localHi syncLo)"
  have n: "n = \<lparr> m_Branching = branching,
                 m_Sync = \<lparr> Lo = syncLo, Hi = syncHi \<rparr>,
                 m_Local = \<lparr> Lo = localLo, Hi = localHi \<rparr> \<rparr>"
    by (simp add: n_def Normalize_def Let_def branching_def syncHi_def syncLo0_def
        syncLo_def localHi_def localLo_def)
  have b: "1 \<le> branching"
    unfolding branching_def by (rule setmax_ge2)
  have "max (ucast MaxRollback) branching \<le> syncHi"
    unfolding syncHi_def by (rule setmax_ge2)
  then have r: "ucast MaxRollback \<le> syncHi" by simp
  have lo0: "syncHi \<le> syncLo0"
    unfolding syncLo0_def by (rule setmax_ge2)
  have strict: "syncHi < syncLo" if "syncHi < MaxHeight"
  proof (cases "syncLo0 = syncHi")
    case True
    then have "syncLo = syncHi + 1" using that by (simp add: syncLo_def)
    then show ?thesis using word64_less_MaxHeight_plus1 [OF that] by simp
  next
    case False
    then show ?thesis using lo0 by (simp add: syncLo_def)
  qed
  have weak: "syncHi \<le> syncLo"
  proof (cases "syncHi < MaxHeight")
    case True
    then show ?thesis using strict by simp
  next
    case False
    then show ?thesis using lo0 by (simp add: syncLo_def)
  qed
  have lh: "syncHi \<le> localHi"
    unfolding localHi_def by (rule setmax_ge2)
  have ll: "max localHi syncLo \<le> localLo"
    unfolding localLo_def by (rule setmax_ge2)
  show ?thesis
    using b r strict weak lh ll by (simp add: n)
qed

theorem Normalize_invariants_witness:
  "Hi (m_Sync (Normalize 1440 \<lparr> m_Branching = 0, m_Sync = \<lparr> Lo = 0, Hi = 0 \<rparr>,
                                m_Local = \<lparr> Lo = 0, Hi = 0 \<rparr> \<rparr>)) < MaxHeight
   \<and> Hi (m_Sync (Normalize 1440 \<lparr> m_Branching = 0, m_Sync = \<lparr> Lo = 0, Hi = 0 \<rparr>,
                                m_Local = \<lparr> Lo = 0, Hi = 0 \<rparr> \<rparr>))
     < Lo (m_Sync (Normalize 1440 \<lparr> m_Branching = 0, m_Sync = \<lparr> Lo = 0, Hi = 0 \<rparr>,
                                m_Local = \<lparr> Lo = 0, Hi = 0 \<rparr> \<rparr>))"
proof -
  have h: "Hi (m_Sync (Normalize 1440 \<lparr> m_Branching = 0, m_Sync = \<lparr> Lo = 0, Hi = 0 \<rparr>,
                                m_Local = \<lparr> Lo = 0, Hi = 0 \<rparr> \<rparr>)) < MaxHeight"
    by (simp add: Normalize_def setmax_def MaxHeight_def Let_def)
  show ?thesis
    using h Normalize_invariants [of 1440 "\<lparr> m_Branching = 0, m_Sync = \<lparr> Lo = 0, Hi = 0 \<rparr>,
                                m_Local = \<lparr> Lo = 0, Hi = 0 \<rparr> \<rparr>"]
    by blast
qed

section \<open>Evaluation of the concrete environment\<close>

lemma nat_to_bytes_numeral:
  "nat_to_bytes (numeral k) x = nat_to_bytes (pred_numeral k) (x div 256) @ [of_nat (x mod 256)]"
proof -
  have "nat_to_bytes (numeral k) x = nat_to_bytes (Suc (pred_numeral k)) x"
    by (simp only: numeral_eq_Suc)
  then show ?thesis by (simp only: nat_to_bytes.simps)
qed

lemma bic_block_simps:
  "m_Fwd (bic_block h)" "m_UpdateMmrs (bic_block h)" "m_Height (bic_block h) = h"
  "m_pRollback (bic_block h) = Some []" "\<not> m_ValidateOnly (bic_block h)"
  "\<not> m_AlreadyValidated (bic_block h)" "m_SaveKid (bic_block h)"
  "m_StoreShieldedOutput (bic_block h)" "m_ShieldedIns (bic_block h) = 0"
  "m_ShieldedOuts (bic_block h) = 0" "m_AssetHi (bic_block h) = - 1"
  by (simp_all add: bic_block_def BlockInterpretCtx_new_def)

lemma asset_example_simps:
  "ai_ID (asset_example v) = 1" "ai_Owner (asset_example v) = 7"
  "ai_Value (asset_example v) = v" "ai_LockHeight (asset_example v) = 3"
  "(asset_example v)\<lparr>ai_ID := 1\<rparr> = asset_example v"
  "(asset_example v)\<lparr>ai_Value := w\<rparr> = asset_example w"
  by (simp_all add: asset_example_def)

lemma np_asset_simps:
  "db_Assets (m_DB (np_asset v)) = [1 \<mapsto> asset_example v]"
  "m_Assets (m_Mmr (np_asset v)) = [Asset_get_Hash0 (asset_example v)]"
  by (simp_all add: np_asset_def np_empty_def)

lemma env0_simps:
  "r_Fork2_Height env0 = 5" "r_MaxKernelValidityDH env0 = 100"
  "r_CA_LockPeriod env0 = 2" "r_Asset_MaxCount env0 = 1000"
  "r_Shielded_Enabled env0" "r_Shielded_MaxOuts env0 = 2" "r_Shielded_MaxIns env0 = 2"
  "r_Shielded_ProofMin env0 = \<lparr>cfg_n = 4, cfg_M = 3\<rparr>"
  "r_Shielded_ProofMax env0 = \<lparr>cfg_n = 4, cfg_M = 8\<rparr>"
  "r_Shielded_MaxWindowBacklog env0 = 16"
  "p_Asset_get_Hash env0 = Asset_get_Hash0"
  "p_DescriptionOutp_get_Hash env0 = DescriptionOutp_get_Hash0"
  "p_DescriptionInp_get_Hash env0 = DescriptionInp_get_Hash0"
  "p_ShieldedPoint env0 = ShieldedPoint0"
  "p_ser_AssetID env0 = ser_AssetID_be" "p_der_AssetID env0 = der_AssetID_be"
  "p_ser_Height env0 = ser_Height_be" "p_der_Height env0 = der_Height_be"
  "p_ser_Metadata env0 = ser_Metadata_be" "p_der_Metadata env0 = der_Metadata_be"
  "p_NewLeafID env0 = 0" "p_HeightAdd env0 = HeightAdd0"
  "p_get_MinMaturity env0 = get_MinMaturity0" "c_NegTestKept env0"
  "p_H2I env0 = H2I0"
  "r_DA_WindowMedian0 env0 = 3" "r_DA_Target_s env0 = 60" "r_DA_Difficulty0 env0 = 0"
  "p_Difficulty_Unpack env0 = Difficulty_Unpack0" "p_der_Body env0 = der_Body0"
  "p_KrnFlyMmr_Hash env0 = KrnFlyMmr_Hash0"
  by (simp_all add: env0_def)

lemma env0_ser_Height_3: "ser_Height_be 3 = [0,0,0,0,0,0,0,3]"
  by (simp add: ser_Height_be_def nat_to_bytes_numeral)

lemma Marker_bytes_8: "Marker_bytes 8 = [0,0,0,8]"
  by (simp add: Marker_bytes_def)

section \<open>Asset emission\<close>

lemma unat_ucast_64_128: "unat (ucast (v::64 word) :: 128 word) = unat v" 
  by (simp add: unsigned_ucast_eq take_bit_nat_eq_self_iff) (use unsigned_less [of v, where 'a = nat] in simp)

lemma sint64_cases: "sint (x::64 word) = uint x \<or> sint x = uint x - 2 ^ 64"
proof -
  have "uint x < 2 ^ 64" using unsigned_less [of x, where 'a = int] by simp
  then have "take_bit 64 (uint x) = uint x" by (simp add: take_bit_int_eq_self)
  then show ?thesis by (simp add: sint_uint signed_take_bit_eq_take_bit_minus)
qed

lemma sint64_nonneg: "0 \<le> sint (x::64 word) \<Longrightarrow> sint x = uint x"
  using sint64_cases [of x] unsigned_less [of x, where 'a = int] by auto

lemma sint64_neg: "sint (x::64 word) < 0 \<Longrightarrow> sint x = uint x - 2 ^ 64"
  using sint64_cases [of x] unsigned_greater_eq [of x, where 'a = int] by auto

lemma uint_neg64: "sint (x::64 word) < 0 \<Longrightarrow> uint (- x) = - sint x"
proof -
  assume a: "sint x < 0"
  have s: "sint x = uint x - 2 ^ 64" using a by (rule sint64_neg)
  have lt: "uint x < 2 ^ 64" using unsigned_less [of x, where 'a = int] by simp
  have ge: "- (2 ^ 63) \<le> sint x" using sint_ge [of x] by simp
  have pos: "0 < uint x" using s ge by simp
  have "uint (- x) = (- uint x) mod 2 ^ 64"
    by (simp add: uint_word_ariths)
  also have "\<dots> = 2 ^ 64 - uint x" using pos lt by (simp add: zmod_zminus1_eq_if)
  finally show ?thesis using s by simp
qed

lemma add_overflow_128: fixes a :: "128 word" and v :: "64 word"
  assumes "2 ^ 128 \<le> unat a + unat v"
  shows "a + ucast v < (ucast v :: 128 word)"
proof -
  have "unat a < 2 ^ 128" using unsigned_less [of a, where 'a = nat] by simp
  moreover have "unat v < 2 ^ 64" using unsigned_less [of v, where 'a = nat] by simp
  ultimately have "unat (a + ucast v) = unat a + unat v - 2 ^ 128"
    using assms unat_ucast_64_128 [of v] by (simp add: unat_word_ariths mod_if)
  then show ?thesis using \<open>unat a < 2 ^ 128\<close> assms unat_ucast_64_128 [of v] by (simp add: word_less_nat_alt)
qed

lemma add_no_overflow_128: fixes a :: "128 word" and v :: "64 word"
  assumes "\<not> a + ucast v < (ucast v :: 128 word)"
  shows "unat (a + ucast v) = unat a + unat v"
proof (rule ccontr)
  assume n: "unat (a + ucast v) \<noteq> unat a + unat v"
  have "\<not> unat a + unat v < 2 ^ 128"
  proof
    assume "unat a + unat v < 2 ^ 128"
    then have "unat (a + ucast v) = unat a + unat v"
      using unat_ucast_64_128 [of v] by (simp add: unat_word_ariths)
    then show False using n by simp
  qed
  then have "2 ^ 128 \<le> unat a + unat v" by simp
  then show False using add_overflow_128 assms by blast
qed

lemma sub_128: fixes a :: "128 word" and v :: "64 word"
  assumes "\<not> a < ucast v"
  shows "unat (a + (- ucast v)) = unat a - unat v"
proof -
  have "(ucast v :: 128 word) \<le> a" using assms by simp
  then have "unat (a - ucast v) = unat a - unat (ucast v :: 128 word)"
    by (rule unat_sub)
  then show ?thesis by (simp add: unat_ucast_64_128)
qed

lemma add_no_overflow_128_uint: fixes a :: "128 word" and v :: "64 word"
  assumes "\<not> a + ucast v < (ucast v :: 128 word)"
  shows "uint (a + ucast v) = uint a + uint v"
proof -
  have "int (unat (a + ucast v)) = int (unat a + unat v)"
    using add_no_overflow_128 [OF assms] by simp
  then show ?thesis by simp
qed

lemma sub_128_uint: fixes a :: "128 word" and w :: "64 word"
  assumes "\<not> a < ucast w"
  shows "uint (a + (- ucast w)) = uint a - uint w"
proof -
  have le: "unat w \<le> unat a"
    using assms by (simp add: word_less_nat_alt unat_ucast_64_128)
  have "int (unat (a + (- ucast w))) = int (unat a - unat w)"
    using sub_128 [OF assms] by simp
  also have "\<dots> = int (unat a) - int (unat w)" using le by simp
  finally show ?thesis by simp
qed

lemma AssetEmit_fwd_success:
  assumes "m_Fwd bic" "m_UpdateMmrs bic"
    and "HandleKernel_AssetEmit e aid owner v bic s = Inr (True, bic', s')"
    and "db_Assets (m_DB s) aid = Some ai"
  shows "\<exists>ai'. db_Assets (m_DB s') aid = Some ai'
          \<and> ai_Value ai' = (if 0 \<le> sint v then ai_Value ai + ucast v
                             else ai_Value ai + (- ucast (- v)))
          \<and> (if 0 \<le> sint v then \<not> ai_Value ai + ucast v < ucast v
              else \<not> ai_Value ai < ucast (- v))"
  using assms
  by (auto simp: HandleKernel_AssetEmit_def Let_def AssetGetSafe_def AssetSetValue_def
      split: if_splits option.splits sum.splits)

text \<open>
  The rules of an AssetEmit kernel applied forward. Where the test after the
  negation is kept, the least amount \<open>0x8000000000000000\<close> is rejected; a
  non-negative amount is rejected when the 128-bit value of the asset would
  overflow; a negative amount is rejected when it exceeds the value of the asset;
  whenever the stored value goes from zero to non-zero or back, the lock height
  stored with it is the height of the block and the previous lock height is
  appended to the rollback buffer, followed by its length marker. On success with
  \<open>m_UpdateMmrs\<close> the stored value is the old value plus the signed amount.
\<close>

lemma AssetEmit_forward_rules:
  assumes fwd: "m_Fwd bic"
  shows "(c_NegTestKept e
            \<longrightarrow> HandleKernel_AssetEmit e aid owner 0x8000000000000000 bic s = Inr (False, bic, s))
    \<and> (\<forall>ai. AssetGetSafe (m_DB s) aid = Some ai \<and> 0 \<le> sint v
            \<and> 2 ^ 128 \<le> uint (ai_Value ai) + sint v
          \<longrightarrow> HandleKernel_AssetEmit e aid owner v bic s = Inr (False, bic, s))
    \<and> (\<forall>ai. AssetGetSafe (m_DB s) aid = Some ai \<and> sint v < 0
            \<and> uint (ai_Value ai) + sint v < 0
          \<longrightarrow> HandleKernel_AssetEmit e aid owner v bic s = Inr (False, bic, s))
    \<and> (\<forall>bic' s' ai ai'. HandleKernel_AssetEmit e aid owner v bic s = Inr (True, bic', s')
            \<and> db_Assets (m_DB s) aid = Some ai \<and> db_Assets (m_DB s') aid = Some ai'
            \<and> (ai_Value ai = 0) \<noteq> (ai_Value ai' = 0)
          \<longrightarrow> ai_LockHeight ai' = m_Height bic
              \<and> (\<exists>buf. m_pRollback bic = Some buf
                   \<and> m_pRollback bic' = Some (buf @ p_ser_Height e (ai_LockHeight ai)
                        @ Marker_bytes (of_nat (length (p_ser_Height e (ai_LockHeight ai)))))))
    \<and> (\<forall>bic' s' ai. HandleKernel_AssetEmit e aid owner v bic s = Inr (True, bic', s')
            \<and> m_UpdateMmrs bic \<and> db_Assets (m_DB s) aid = Some ai
          \<longrightarrow> (\<exists>ai'. db_Assets (m_DB s') aid = Some ai'
                 \<and> uint (ai_Value ai') = uint (ai_Value ai) + sint v))"
proof -
  have p1: "HandleKernel_AssetEmit e aid owner 0x8000000000000000 bic s = Inr (False, bic, s)"
    if "c_NegTestKept e"
    using fwd that by (simp add: HandleKernel_AssetEmit_def Let_def split: option.splits)
  have p2: "HandleKernel_AssetEmit e aid owner v bic s = Inr (False, bic, s)"
    if a: "AssetGetSafe (m_DB s) aid = Some ai \<and> 0 \<le> sint v
            \<and> 2 ^ 128 \<le> uint (ai_Value ai) + sint v" for ai
  proof -
    have "2 ^ 128 \<le> uint (ai_Value ai) + uint v"
      using a sint64_nonneg [of v] by simp
    then have "2 ^ 128 \<le> int (unat (ai_Value ai) + unat v)" by simp
    then have "2 ^ 128 \<le> unat (ai_Value ai) + unat v"
      by (metis of_nat_le_iff of_nat_numeral of_nat_power)
    then have "ai_Value ai + ucast v < (ucast v :: 128 word)" by (rule add_overflow_128)
    then show ?thesis
      using a fwd by (simp add: HandleKernel_AssetEmit_def Let_def)
  qed
  have p3: "HandleKernel_AssetEmit e aid owner v bic s = Inr (False, bic, s)"
    if a: "AssetGetSafe (m_DB s) aid = Some ai \<and> sint v < 0
            \<and> uint (ai_Value ai) + sint v < 0" for ai
  proof -
    have "uint (ai_Value ai) < uint (- v)"
      using a uint_neg64 [of v] by simp
    moreover have "uint (ucast (- v) :: 128 word) = uint (- v)"
      by (simp add: uint_up_ucast is_up)
    ultimately have "ai_Value ai < ucast (- v)"
      by (simp add: word_less_def)
    then show ?thesis
      using a fwd by (simp add: HandleKernel_AssetEmit_def Let_def)
  qed
  have p4: "ai_LockHeight ai' = m_Height bic
              \<and> (\<exists>buf. m_pRollback bic = Some buf
                   \<and> m_pRollback bic' = Some (buf @ p_ser_Height e (ai_LockHeight ai)
                        @ Marker_bytes (of_nat (length (p_ser_Height e (ai_LockHeight ai))))))"
    if a: "HandleKernel_AssetEmit e aid owner v bic s = Inr (True, bic', s')
            \<and> db_Assets (m_DB s) aid = Some ai \<and> db_Assets (m_DB s') aid = Some ai'
            \<and> (ai_Value ai = 0) \<noteq> (ai_Value ai' = 0)" for bic' s' ai ai'
    using a fwd
    by (auto simp: HandleKernel_AssetEmit_def Let_def AssetGetSafe_def AssetSetValue_def Ser_def
        split: if_splits option.splits sum.splits)
  have p5: "\<exists>ai'. db_Assets (m_DB s') aid = Some ai'
                 \<and> uint (ai_Value ai') = uint (ai_Value ai) + sint v"
    if a: "HandleKernel_AssetEmit e aid owner v bic s = Inr (True, bic', s')
            \<and> m_UpdateMmrs bic \<and> db_Assets (m_DB s) aid = Some ai" for bic' s' ai
  proof -
    obtain ai' where st: "db_Assets (m_DB s') aid = Some ai'"
      and val: "ai_Value ai' = (if 0 \<le> sint v then ai_Value ai + ucast v
                             else ai_Value ai + (- ucast (- v)))"
      and ok: "if 0 \<le> sint v then \<not> ai_Value ai + ucast v < ucast v
              else \<not> ai_Value ai < ucast (- v)"
      using AssetEmit_fwd_success [of bic e aid owner v s bic' s' ai] a fwd by blast
    show ?thesis
    proof (cases "0 \<le> sint v")
      case True
      then have "uint (ai_Value ai + ucast v) = uint (ai_Value ai) + sint v"
        using ok add_no_overflow_128_uint [of "ai_Value ai" v] sint64_nonneg [of v] by simp
      then show ?thesis using st val True by simp
    next
      case False
      then have neg: "sint v < 0" by simp
      have "uint (ai_Value ai + (- ucast (- v))) = uint (ai_Value ai) - uint (- v)"
        using ok False sub_128_uint [of "ai_Value ai" "- v"] by simp
      then have "uint (ai_Value ai + (- ucast (- v))) = uint (ai_Value ai) + sint v"
        using uint_neg64 [OF neg] by simp
      then show ?thesis using st val False by simp
    qed
  qed
  show ?thesis using p1 p2 p3 p4 p5 by blast
qed

lemma AssetEmit_forward_rules_witness:
  "m_Fwd (bic_block 10)
   \<and> HandleKernel_AssetEmit env0 1 7 0x8000000000000000 (bic_block 10) (np_asset 5)
       = Inr (False, bic_block 10, np_asset 5)
   \<and> HandleKernel_AssetEmit env0 1 7 1 (bic_block 10) (np_asset (- 1))
       = Inr (False, bic_block 10, np_asset (- 1))
   \<and> HandleKernel_AssetEmit env0 1 7 (- 5) (bic_block 10) (np_asset 4)
       = Inr (False, bic_block 10, np_asset 4)
   \<and> HandleKernel_AssetEmit env0 1 7 5 (bic_block 10) (np_asset 0)
       = Inr (True, (bic_block 10)\<lparr>m_pRollback := Some [0,0,0,0,0,0,0,3,0,0,0,8]\<rparr>,
           (np_asset 0)\<lparr>m_DB := (m_DB (np_asset 0))\<lparr>db_Assets :=
                [1 \<mapsto> (asset_example 5)\<lparr>ai_LockHeight := 10\<rparr>]\<rparr>,
              m_Mmr := (m_Mmr (np_asset 0))\<lparr>m_Assets :=
                [Asset_get_Hash0 ((asset_example 5)\<lparr>ai_LockHeight := 10\<rparr>)]\<rparr>\<rparr>)
   \<and> ai_LockHeight ((asset_example 5)\<lparr>ai_LockHeight := 10\<rparr>) = m_Height (bic_block 10)
   \<and> uint (ai_Value ((asset_example 5)\<lparr>ai_LockHeight := 10\<rparr>)) = uint (ai_Value (asset_example 0)) + sint (5 :: 64 word)"
proof -
  let ?bic = "bic_block 10"
  let ?s' = "(np_asset 0)\<lparr>m_DB := (m_DB (np_asset 0))\<lparr>db_Assets :=
                [1 \<mapsto> (asset_example 5)\<lparr>ai_LockHeight := 10\<rparr>]\<rparr>,
              m_Mmr := (m_Mmr (np_asset 0))\<lparr>m_Assets :=
                [Asset_get_Hash0 ((asset_example 5)\<lparr>ai_LockHeight := 10\<rparr>)]\<rparr>\<rparr>"
  have fwd: "m_Fwd ?bic" by (simp add: bic_block_simps)
  have get: "AssetGetSafe (m_DB (np_asset v)) 1 = Some (asset_example v)" for v
    by (simp add: AssetGetSafe_def np_asset_simps asset_example_simps)
  have ser: "Ser [0,0,0,0,0,0,0,3] ?bic
             = Inr (?bic\<lparr>m_pRollback := Some [0,0,0,0,0,0,0,3,0,0,0,8]\<rparr>)"
    unfolding Ser_def by (simp add: bic_block_simps Marker_bytes_8)
  have setv: "AssetSetValue 1 5 10 (m_DB (np_asset 0)) = (m_DB (np_asset 0))\<lparr>db_Assets :=
                [1 \<mapsto> (asset_example 5)\<lparr>ai_LockHeight := 10\<rparr>]\<rparr>"
    unfolding AssetSetValue_def by (simp add: np_asset_simps asset_example_simps)
  have ev: "HandleKernel_AssetEmit env0 1 7 5 ?bic (np_asset 0)
       = Inr (True, ?bic\<lparr>m_pRollback := Some [0,0,0,0,0,0,0,3,0,0,0,8]\<rparr>, ?s')"
    unfolding HandleKernel_AssetEmit_def
    by (simp add: Let_def get ser setv bic_block_simps asset_example_simps np_asset_simps
        env0_simps env0_ser_Height_3 Mmr_Replace_def)
  have a1: "HandleKernel_AssetEmit env0 1 7 0x8000000000000000 ?bic (np_asset 5)
       = Inr (False, ?bic, np_asset 5)"
    using AssetEmit_forward_rules [OF fwd, of env0 1 7 "np_asset 5" 0] env0_simps(24) by blast
  have u: "uint (- 1 :: 128 word) = 2 ^ 128 - 1"
    by (simp add: unsigned_minus_1_eq_mask mask_eq_exp_minus_1)
  have h2: "AssetGetSafe (m_DB (np_asset (- 1))) 1 = Some (asset_example (- 1))
            \<and> 0 \<le> sint (1 :: 64 word)
            \<and> 2 ^ 128 \<le> uint (ai_Value (asset_example (- 1))) + sint (1 :: 64 word)"
    using u by (simp add: get asset_example_simps)
  have a2: "HandleKernel_AssetEmit env0 1 7 1 ?bic (np_asset (- 1))
       = Inr (False, ?bic, np_asset (- 1))"
    using AssetEmit_forward_rules [OF fwd, of env0 1 7 "np_asset (- 1)" 1] h2 by blast
  have h3: "AssetGetSafe (m_DB (np_asset 4)) 1 = Some (asset_example 4)
            \<and> sint (- 5 :: 64 word) < 0
            \<and> uint (ai_Value (asset_example 4)) + sint (- 5 :: 64 word) < 0"
    by (simp add: get asset_example_simps)
  have a3: "HandleKernel_AssetEmit env0 1 7 (- 5) ?bic (np_asset 4)
       = Inr (False, ?bic, np_asset 4)"
    using AssetEmit_forward_rules [OF fwd, of env0 1 7 "np_asset 4" "- 5"] h3 by blast
  have after: "db_Assets (m_DB ?s') 1 = Some ((asset_example 5)\<lparr>ai_LockHeight := 10\<rparr>)"
    by simp
  have before: "db_Assets (m_DB (np_asset 0)) 1 = Some (asset_example 0)"
    by (simp add: np_asset_simps)
  have tr: "(ai_Value (asset_example 0) = 0) \<noteq> (ai_Value ((asset_example 5)\<lparr>ai_LockHeight := 10\<rparr>) = 0)"
    by (simp add: asset_example_simps)
  have a4: "ai_LockHeight ((asset_example 5)\<lparr>ai_LockHeight := 10\<rparr>) = m_Height ?bic"
    using AssetEmit_forward_rules [OF fwd, of env0 1 7 "np_asset 0" 5] ev before after tr
    by blast
  have a5: "uint (ai_Value ((asset_example 5)\<lparr>ai_LockHeight := 10\<rparr>))
            = uint (ai_Value (asset_example 0)) + sint (5 :: 64 word)"
    by (simp add: asset_example_simps)
  show ?thesis using fwd a1 a2 a3 ev a4 a5 by blast
qed

section \<open>Receiving headers and blocks: the statuses\<close>

lemma np_5000_simps:
  "db_States (m_DB np_5000) = [(1, row_example 1 False), (2, row_example 4000 True)]"
  "m_TxoHi (m_Extra np_5000) = 0"
  "id_Height (cur_ID (m_Cursor np_5000)) = 5000"
  "\<not> IsFastSync np_5000"
  by (simp_all add: np_5000_def np_empty_def IsFastSync_def)

lemma row_example_simps:
  "row_Functional (row_example h f) = f" "row_State (row_example h f) = hdr_example h"
  by (simp_all add: row_example_def)

lemma hdr_example_simps:
  "hdr_Height (hdr_example h) = h" "hdr_IsValid (hdr_example h)"
  "hdr_TimeStamp (hdr_example h) = 100" "hdr_Hash (hdr_example h) = 77"
  by (simp_all add: hdr_example_def)

lemma env0_simps2:
  "r_MaxRollback env0 = 1440" "r_MaxBodySize env0 = 1048576" "r_DA_MaxAhead_s env0 = 7200"
  by (simp_all add: env0_def)

lemma lowest_np_5000: "get_LowestReturnHeight env0 np_5000 = 3560"
  by (simp add: get_LowestReturnHeight_def Let_def np_5000_simps env0_simps2 setmax_def)

lemma get_Row_np_5000:
  "get_Row (m_DB np_5000) 1 = Inr (row_example 1 False)"
  "get_Row (m_DB np_5000) 2 = Inr (row_example 4000 True)"
  by (simp_all add: get_Row_def np_5000_simps)

text \<open>
  C8 (as stated): \<open>OnBlock\<close> and \<open>OnState\<close> return \<open>Rejected\<close> when the height
  of the data is below \<open>get_LowestReturnHeight()\<close>. They return \<open>Unreachable\<close>:
  with the cursor at height 5000 and \<open>MaxRollback = 1440\<close> the lowest height is
  3560, and a block or header of height 1 is answered with \<open>Unreachable\<close>.
\<close>

theorem OnBlock_below_lowest_counterexample:
  "sid_Height \<lparr>sid_Row = 1, sid_Height = 1\<rparr> < get_LowestReturnHeight env0 np_5000
   \<and> OnBlock env0 \<lparr>sid_Row = 1, sid_Height = 1\<rparr> [] [] 9 np_5000 = Inr (Unreachable, np_5000)
   \<and> hdr_Height (hdr_example 1) < get_LowestReturnHeight env0 np_5000
   \<and> OnState env0 100 (hdr_example 1) 9 np_5000 = (Unreachable, np_5000)"
  by (simp add: OnBlock_def OnState_def OnStateSilent_def OnStateInternal_def Let_def
      lowest_np_5000 get_Row_np_5000 row_example_simps hdr_example_simps env0_simps2)

text \<open>
  C8 (amended): \<open>OnBlock\<close> returns \<open>Rejected\<close> when the body is not larger than
  \<open>MaxBodySize\<close> and the \<open>Functional\<close> flag of the row is set, and
  \<open>Unreachable\<close> when the flag is clear and the height is below
  \<open>get_LowestReturnHeight()\<close>; \<open>OnState\<close> returns \<open>Rejected\<close> when the header
  is valid, not too far ahead of the clock, not below that height and already
  stored, and \<open>Unreachable\<close> when it is valid, not too far ahead and below that
  height. Whenever the status is not \<open>Accepted\<close>, the processor state with its
  database is unchanged.
\<close>

theorem OnBlock_OnState_not_accepted:
  "(length bbP + length bbE \<le> unat (r_MaxBodySize e) \<and> get_Row (m_DB s) (sid_Row sid) = Inr r
      \<and> row_Functional r
      \<longrightarrow> OnBlock e sid bbP bbE peer s = Inr (Rejected, s))
   \<and> (length bbP + length bbE \<le> unat (r_MaxBodySize e) \<and> get_Row (m_DB s) (sid_Row sid) = Inr r
      \<and> \<not> row_Functional r \<and> sid_Height sid < get_LowestReturnHeight e s
      \<longrightarrow> OnBlock e sid bbP bbE peer s = Inr (Unreachable, s))
   \<and> (hdr_IsValid st
      \<and> \<not> (ts < hdr_TimeStamp st \<and> ucast (r_DA_MaxAhead_s e) < hdr_TimeStamp st - ts)
      \<and> \<not> hdr_Height st < get_LowestReturnHeight e s
      \<and> StateFindSafe (m_DB s) (get_ID st) \<noteq> 0
      \<longrightarrow> OnState e ts st peer s = (Rejected, s))
   \<and> (hdr_IsValid st
      \<and> \<not> (ts < hdr_TimeStamp st \<and> ucast (r_DA_MaxAhead_s e) < hdr_TimeStamp st - ts)
      \<and> hdr_Height st < get_LowestReturnHeight e s
      \<longrightarrow> OnState e ts st peer s = (Unreachable, s))
   \<and> (\<forall>ret s'. OnState e ts st peer s = (ret, s') \<and> ret \<noteq> Accepted \<longrightarrow> s' = s)
   \<and> (\<forall>ret s'. OnBlock e sid bbP bbE peer s = Inr (ret, s') \<and> ret \<noteq> Accepted \<longrightarrow> s' = s)"
proof -
  have p1: "OnBlock e sid bbP bbE peer s = Inr (Rejected, s)"
    if "length bbP + length bbE \<le> unat (r_MaxBodySize e) \<and> get_Row (m_DB s) (sid_Row sid) = Inr r
      \<and> row_Functional r"
    using that by (simp add: OnBlock_def)
  have p2: "OnBlock e sid bbP bbE peer s = Inr (Unreachable, s)"
    if "length bbP + length bbE \<le> unat (r_MaxBodySize e) \<and> get_Row (m_DB s) (sid_Row sid) = Inr r
      \<and> \<not> row_Functional r \<and> sid_Height sid < get_LowestReturnHeight e s"
    using that by (simp add: OnBlock_def)
  have p3: "OnState e ts st peer s = (Rejected, s)"
    if "hdr_IsValid st
      \<and> \<not> (ts < hdr_TimeStamp st \<and> ucast (r_DA_MaxAhead_s e) < hdr_TimeStamp st - ts)
      \<and> \<not> hdr_Height st < get_LowestReturnHeight e s
      \<and> StateFindSafe (m_DB s) (get_ID st) \<noteq> 0"
    using that by (simp add: OnState_def OnStateSilent_def OnStateInternal_def Let_def)
  have p4: "OnState e ts st peer s = (Unreachable, s)"
    if "hdr_IsValid st
      \<and> \<not> (ts < hdr_TimeStamp st \<and> ucast (r_DA_MaxAhead_s e) < hdr_TimeStamp st - ts)
      \<and> hdr_Height st < get_LowestReturnHeight e s"
    using that by (simp add: OnState_def OnStateSilent_def OnStateInternal_def Let_def)
  have p5: "s' = s" if "OnState e ts st peer s = (ret, s') \<and> ret \<noteq> Accepted" for ret s'
    using that by (auto simp: OnState_def OnStateSilent_def Let_def split: if_splits)
  have p6: "s' = s" if "OnBlock e sid bbP bbE peer s = Inr (ret, s') \<and> ret \<noteq> Accepted" for ret s'
    using that by (auto simp: OnBlock_def split: if_splits sum.splits)
  show ?thesis using p1 p2 p3 p4 p5 p6 by blast
qed

theorem OnBlock_OnState_not_accepted_witness:
  "OnBlock env0 \<lparr>sid_Row = 2, sid_Height = 4000\<rparr> [] [] 9 np_5000 = Inr (Rejected, np_5000)
   \<and> OnBlock env0 \<lparr>sid_Row = 1, sid_Height = 1\<rparr> [] [] 9 np_5000 = Inr (Unreachable, np_5000)
   \<and> OnState env0 100 (hdr_example 4000) 9 np_5000 = (Rejected, np_5000)
   \<and> OnState env0 100 (hdr_example 1) 9 np_5000 = (Unreachable, np_5000)"
proof -
  have h1: "length ([] :: byte list) + length ([] :: byte list) \<le> unat (r_MaxBodySize env0)
      \<and> get_Row (m_DB np_5000) (sid_Row \<lparr>sid_Row = 2, sid_Height = 4000\<rparr>) = Inr (row_example 4000 True)
      \<and> row_Functional (row_example 4000 True)"
    by (simp add: get_Row_np_5000 row_example_simps)
  have h2: "length ([] :: byte list) + length ([] :: byte list) \<le> unat (r_MaxBodySize env0)
      \<and> get_Row (m_DB np_5000) (sid_Row \<lparr>sid_Row = 1, sid_Height = 1\<rparr>) = Inr (row_example 1 False)
      \<and> \<not> row_Functional (row_example 1 False)
      \<and> sid_Height \<lparr>sid_Row = 1, sid_Height = 1\<rparr> < get_LowestReturnHeight env0 np_5000"
    by (simp add: get_Row_np_5000 row_example_simps lowest_np_5000)
  have h3: "hdr_IsValid (hdr_example 4000)
      \<and> \<not> (100 < hdr_TimeStamp (hdr_example 4000)
           \<and> ucast (r_DA_MaxAhead_s env0) < hdr_TimeStamp (hdr_example 4000) - 100)
      \<and> \<not> hdr_Height (hdr_example 4000) < get_LowestReturnHeight env0 np_5000
      \<and> StateFindSafe (m_DB np_5000) (get_ID (hdr_example 4000)) \<noteq> 0"
    by (simp add: hdr_example_simps lowest_np_5000 StateFindSafe_def np_5000_simps
        row_example_simps get_ID_def)
  have h4: "hdr_IsValid (hdr_example 1)
      \<and> \<not> (100 < hdr_TimeStamp (hdr_example 1)
           \<and> ucast (r_DA_MaxAhead_s env0) < hdr_TimeStamp (hdr_example 1) - 100)
      \<and> hdr_Height (hdr_example 1) < get_LowestReturnHeight env0 np_5000"
    by (simp add: hdr_example_simps lowest_np_5000)
  show ?thesis
    using h1 h2 h3 h4
      OnBlock_OnState_not_accepted [where bbP = "[]" and bbE = "[]" and e = env0 and s = np_5000
        and sid = "\<lparr>sid_Row = 2, sid_Height = 4000\<rparr>" and r = "row_example 4000 True"
        and st = "hdr_example 4000" and ts = 100 and peer = 9]
      OnBlock_OnState_not_accepted [where bbP = "[]" and bbE = "[]" and e = env0 and s = np_5000
        and sid = "\<lparr>sid_Row = 1, sid_Height = 1\<rparr>" and r = "row_example 1 False"
        and st = "hdr_example 1" and ts = 100 and peer = 9]
    by blast
qed

section \<open>The flags of the context are stable\<close>

lemma same_flags_refl [simp]: "same_flags bic bic"
  by (simp add: same_flags_def)

lemma same_flags_trans: "same_flags a b \<Longrightarrow> same_flags b c \<Longrightarrow> same_flags a c"
  by (simp add: same_flags_def)

lemma same_flags_upd [simp]:
  "same_flags bic (bic'\<lparr>m_pRollback := r\<rparr>) = same_flags bic bic'"
  "same_flags bic (bic'\<lparr>m_AssetsUsed := a\<rparr>) = same_flags bic bic'"
  "same_flags bic (bic'\<lparr>m_ShieldedIns := i\<rparr>) = same_flags bic bic'"
  "same_flags bic (bic'\<lparr>m_ShieldedOuts := i\<rparr>) = same_flags bic bic'"
  "same_flags bic (bic'\<lparr>m_LimitExceeded := b\<rparr>) = same_flags bic bic'"
  "same_flags bic (bic'\<lparr>m_pDups := d\<rparr>) = same_flags bic bic'"
  "same_flags bic (bic'\<lparr>m_pDupIDs := d2\<rparr>) = same_flags bic bic'"
  by (simp_all add: same_flags_def)

lemma Ser_flags: "Ser payload bic = Inr bic' \<Longrightarrow> same_flags bic bic'"
  by (auto simp: Ser_def split: option.splits)

lemma Der_flags: "Der bic = Inr (payload, bic') \<Longrightarrow> same_flags bic bic'"
  by (auto simp: Der_def split: option.splits sum.splits prod.splits)

lemma EnsureAssetsUsed_flags [simp]: "same_flags bic (EnsureAssetsUsed e db bic)"
  by (simp add: EnsureAssetsUsed_def)

lemma EnsureAssetsUsed_fields [simp]:
  "m_Fwd (EnsureAssetsUsed e db bic) = m_Fwd bic"
  "m_AlreadyValidated (EnsureAssetsUsed e db bic) = m_AlreadyValidated bic"
  "m_UpdateMmrs (EnsureAssetsUsed e db bic) = m_UpdateMmrs bic"
  "m_Height (EnsureAssetsUsed e db bic) = m_Height bic"
  "m_pRollback (EnsureAssetsUsed e db bic) = m_pRollback bic"
  "m_ValidateOnly (EnsureAssetsUsed e db bic) = m_ValidateOnly bic"
  "m_SaveKid (EnsureAssetsUsed e db bic) = m_SaveKid bic"
  "m_StoreShieldedOutput (EnsureAssetsUsed e db bic) = m_StoreShieldedOutput bic"
  "m_AssetHi (EnsureAssetsUsed e db bic) = m_AssetHi bic"
  "m_ShieldedIns (EnsureAssetsUsed e db bic) = m_ShieldedIns bic"
  "m_ShieldedOuts (EnsureAssetsUsed e db bic) = m_ShieldedOuts bic"
  by (simp_all add: EnsureAssetsUsed_def)

lemma Std_flags: "HandleKernel_Std e rl bic s = Inr (ok, bic', s') \<Longrightarrow> same_flags bic bic'"
  by (auto simp: HandleKernel_Std_def Let_def split: option.splits if_splits)

lemma AssetCreate_flags:
  "HandleKernel_AssetCreate e owner md bic s = Inr (ok, bic', s') \<Longrightarrow> same_flags bic bic'"
  unfolding HandleKernel_AssetCreate_def Let_def
  by (auto split: if_splits sum.splits prod.splits option.splits
       dest!: Ser_flags Der_flags simp: same_flags_def)

lemma AssetDestroy_flags:
  "HandleKernel_AssetDestroy e aid owner bic s = Inr (ok, bic', s') \<Longrightarrow> same_flags bic bic'"
  unfolding HandleKernel_AssetDestroy_def Let_def
  by (auto split: if_splits sum.splits prod.splits option.splits
       dest!: Ser_flags Der_flags simp: same_flags_def)

lemma AssetEmit_flags:
  "HandleKernel_AssetEmit e aid owner v bic s = Inr (ok, bic', s') \<Longrightarrow> same_flags bic bic'"
  unfolding HandleKernel_AssetEmit_def Let_def
  by (auto split: if_splits sum.splits prod.splits option.splits
       dest!: Ser_flags Der_flags simp: same_flags_def)

lemma ValidateUniqueNoDup_flags:
  "ValidateUniqueNoDup bic db key = (ok, bic') \<Longrightarrow> same_flags bic bic'"
  by (auto simp: ValidateUniqueNoDup_def split: if_splits)

lemma ShieldedOutput_flags:
  "HandleKernel_ShieldedOutput e sp c pa bic s = Inr (ok, bic', s') \<Longrightarrow> same_flags bic bic'"
  unfolding HandleKernel_ShieldedOutput_def Let_def
  by (auto split: if_splits sum.splits prod.splits option.splits bool.splits
       dest!: ValidateUniqueNoDup_flags)

lemma ShieldedInput_flags:
  "HandleKernel_ShieldedInput e spk w cfg pa bic s = Inr (ok, bic', s') \<Longrightarrow> same_flags bic bic'"
  unfolding HandleKernel_ShieldedInput_def Let_def
  by (auto split: if_splits sum.splits prod.splits option.splits bool.splits
       dest!: ValidateUniqueNoDup_flags)

lemma Subtype_flags:
  "HandleKernel_Subtype e d bic s = Inr (ok, bic', s') \<Longrightarrow> same_flags bic bic'"
  by (cases d)
     (auto simp: HandleKernel_Subtype_def
       dest: Std_flags AssetCreate_flags AssetDestroy_flags AssetEmit_flags
             ShieldedOutput_flags ShieldedInput_flags)

lemma HandleKernel_Inr_D:
  assumes "HandleKernel e (TxKernel kid nested d) bic s = Inr (ok, bic', s')"
  shows "\<exists>bOk0 n bic1 s1 bic2 s2 bic4.
     (if m_Fwd bic then HandleKernel_NestedFwd e nested bic s
      else Inr (True, length nested, bic, s)) = Inr (bOk0, n, bic1, s1)
   \<and> (if bOk0 then HandleKernel_Subtype e d bic1 s1 else Inr (False, bic1, s1)) = Inr (ok, bic2, s2)
   \<and> \<not> (\<not> ok \<and> \<not> m_Fwd bic2)
   \<and> (if \<not> m_Fwd (if \<not> ok then bic2\<lparr>m_Fwd := False\<rparr> else bic2)
           \<and> \<not> m_ValidateOnly (if \<not> ok then bic2\<lparr>m_Fwd := False\<rparr> else bic2)
        then HandleKernel_NestedBwd e nested n (if \<not> ok then bic2\<lparr>m_Fwd := False\<rparr> else bic2) s2
        else Inr ((if \<not> ok then bic2\<lparr>m_Fwd := False\<rparr> else bic2), s2)) = Inr (bic4, s')
   \<and> bic' = (if \<not> ok then bic4\<lparr>m_Fwd := True\<rparr> else bic4)"
  using assms
  by (simp add: Let_def split: sum.splits prod.splits if_splits) blast+

lemma NestedFwd_Cons_D:
  assumes "HandleKernel_NestedFwd e (k # ks) bic s = Inr (ok, n, bic', s')"
  shows "\<exists>ok1 bic1 s1. HandleKernel e k bic s = Inr (ok1, bic1, s1)
          \<and> (if \<not> ok1 then \<not> ok \<and> n = 0 \<and> bic' = bic1 \<and> s' = s1
              else \<exists>n2. HandleKernel_NestedFwd e ks bic1 s1 = Inr (ok, n2, bic', s') \<and> n = Suc n2)"
proof (cases "HandleKernel e k bic s")
  case (Inl x)
  then show ?thesis using assms by simp
next
  case (Inr r)
  obtain ok1 bic1 s1 where r: "r = (ok1, bic1, s1)" by (cases r) auto
  show ?thesis
  proof (cases ok1)
    case False
    then show ?thesis using assms Inr r by (simp; blast)
  next
    case True
    show ?thesis
    proof (cases "HandleKernel_NestedFwd e ks bic1 s1")
      case (Inl x)
      then show ?thesis using assms Inr r True by simp
    next
      case (Inr r2)
      obtain ok2 n2 bic2 s2 where r2: "r2 = (ok2, n2, bic2, s2)" by (cases r2) auto
      show ?thesis using assms \<open>HandleKernel e k bic s = Inr r\<close> r True Inr r2 by (simp; blast)
    qed
  qed
qed

lemma NestedBwd_Cons_D:
  assumes "HandleKernel_NestedBwd e (k # ks) n bic s = Inr (bic', s')" and "n \<noteq> 0"
  shows "\<exists>bic1 s1. HandleKernel_NestedBwd e ks (n - 1) bic s = Inr (bic1, s1)
          \<and> HandleKernel e k bic1 s1 = Inr (True, bic', s')"
proof (cases "HandleKernel_NestedBwd e ks (n - 1) bic s")
  case (Inl x)
  then show ?thesis using assms by simp
next
  case (Inr r)
  obtain bic1 s1 where r: "r = (bic1, s1)" by (cases r) auto
  show ?thesis
  proof (cases "HandleKernel e k bic1 s1")
    case (Inl x)
    then show ?thesis using assms Inr r by simp
  next
    case (Inr r2)
    obtain ok2 bic2 s2 where r2: "r2 = (ok2, bic2, s2)" by (cases r2) auto
    show ?thesis
      using assms \<open>HandleKernel_NestedBwd e ks (n - 1) bic s = Inr r\<close> r Inr r2
      by (cases ok2) (simp; blast)+
  qed
qed

lemma HandleKernel_flags_all:
  "(\<forall>ok bic' s'. HandleKernel e k bic s = Inr (ok, bic', s') \<longrightarrow> same_flags bic bic')"
  "(\<forall>ok n bic' s'. HandleKernel_NestedFwd e ks bic s = Inr (ok, n, bic', s') \<longrightarrow> same_flags bic bic')"
  "(\<forall>bic' s'. HandleKernel_NestedBwd e ks n bic s = Inr (bic', s') \<longrightarrow> same_flags bic bic')"
proof (induction e k bic s and e ks bic s and e ks n bic s
       rule: HandleKernel_HandleKernel_NestedFwd_HandleKernel_NestedBwd.induct)
  case (1 e kid nested d bic s)
  show ?case
  proof (intro allI impI)
    fix ok bic' s'
    assume r: "HandleKernel e (TxKernel kid nested d) bic s = Inr (ok, bic', s')"
    from HandleKernel_Inr_D [OF r] obtain bOk0 n bic1 s1 bic2 s2 bic4 where
      A1: "(if m_Fwd bic then HandleKernel_NestedFwd e nested bic s
            else Inr (True, length nested, bic, s)) = Inr (bOk0, n, bic1, s1)"
      and A5: "(if bOk0 then HandleKernel_Subtype e d bic1 s1 else Inr (False, bic1, s1))
               = Inr (ok, bic2, s2)"
      and A8: "\<not> (\<not> ok \<and> \<not> m_Fwd bic2)"
      and B: "(if \<not> m_Fwd (if \<not> ok then bic2\<lparr>m_Fwd := False\<rparr> else bic2)
           \<and> \<not> m_ValidateOnly (if \<not> ok then bic2\<lparr>m_Fwd := False\<rparr> else bic2)
        then HandleKernel_NestedBwd e nested n (if \<not> ok then bic2\<lparr>m_Fwd := False\<rparr> else bic2) s2
        else Inr ((if \<not> ok then bic2\<lparr>m_Fwd := False\<rparr> else bic2), s2)) = Inr (bic4, s')"
      and C: "bic' = (if \<not> ok then bic4\<lparr>m_Fwd := True\<rparr> else bic4)"
      by blast
    let ?bic3 = "if \<not> ok then bic2\<lparr>m_Fwd := False\<rparr> else bic2"
    have f1: "same_flags bic bic1"
      using A1 "1.IH"(1) by (auto split: if_splits)
    have f2: "same_flags bic1 bic2"
      using A5 Subtype_flags by (auto split: if_splits)
    have f3: "same_flags ?bic3 bic4"
    proof (cases "\<not> m_Fwd ?bic3 \<and> \<not> m_ValidateOnly ?bic3")
      case True
      then show ?thesis
        using "1.IH"(2) [OF A1 refl refl refl A5 refl refl A8 refl True] B by simp
    next
      case False
      then show ?thesis using B by (auto split: if_splits)
    qed
    show "same_flags bic bic'"
      using f1 f2 f3 A8 C by (auto simp: same_flags_def split: if_splits)
  qed
next
  case (2 e bic s)
  then show ?case by simp
next
  case (3 e k ks bic s)
  show ?case
  proof (intro allI impI)
    fix ok n bic' s'
    assume r: "HandleKernel_NestedFwd e (k # ks) bic s = Inr (ok, n, bic', s')"
    from NestedFwd_Cons_D [OF r] obtain ok1 bic1 s1 where
      h: "HandleKernel e k bic s = Inr (ok1, bic1, s1)"
      and c: "if \<not> ok1 then \<not> ok \<and> n = 0 \<and> bic' = bic1 \<and> s' = s1
              else \<exists>n2. HandleKernel_NestedFwd e ks bic1 s1 = Inr (ok, n2, bic', s') \<and> n = Suc n2"
      by blast
    have f1: "same_flags bic bic1" using "3.IH"(1) h by blast
    show "same_flags bic bic'"
    proof (cases ok1)
      case False
      then show ?thesis using c f1 by simp
    next
      case True
      then obtain n2 where t: "HandleKernel_NestedFwd e ks bic1 s1 = Inr (ok, n2, bic', s')"
        using c by auto
      have "\<not> \<not> ok1" using True by simp
      then have "same_flags bic1 bic'"
        using "3.IH"(2) [OF h refl refl] t by blast
      then show ?thesis using f1 same_flags_trans by blast
    qed
  qed
next
  case (4 e n bic s)
  then show ?case by simp
next
  case (5 e k ks n bic s)
  show ?case
  proof (intro allI impI)
    fix bic' s'
    assume r: "HandleKernel_NestedBwd e (k # ks) n bic s = Inr (bic', s')"
    show "same_flags bic bic'"
    proof (cases "n = 0")
      case True
      then show ?thesis using r by simp
    next
      case False
      from NestedBwd_Cons_D [OF r False] obtain bic1 s1 where
        t: "HandleKernel_NestedBwd e ks (n - 1) bic s = Inr (bic1, s1)"
        and h: "HandleKernel e k bic1 s1 = Inr (True, bic', s')"
        by blast
      have "same_flags bic bic1" using "5.IH"(1) [OF False] t by blast
      moreover have "same_flags bic1 bic'" using "5.IH"(2) [OF False t refl] h by blast
      ultimately show ?thesis using same_flags_trans by blast
    qed
  qed
qed

section \<open>Backward passes\<close>

lemma steps_ok_append:
  "steps_ok h xs a b \<Longrightarrow> steps_ok h ys b c \<Longrightarrow> steps_ok h (xs @ ys) a c"
  by (induction rule: steps_ok.induct) (auto intro: steps_ok.intros)

lemma VecBwd_Cons_D:
  assumes "HandleElementVecBwd h (v # vs) n bic s = Inr (bic', s')" and "n \<noteq> 0"
  shows "\<exists>bic1 s1 v'. HandleElementVecBwd h vs (n - 1) bic s = Inr (bic1, s1)
          \<and> h v bic1 s1 = Inr (True, v', bic', s')"
proof (cases "HandleElementVecBwd h vs (n - 1) bic s")
  case (Inl x)
  then show ?thesis using assms by simp
next
  case (Inr r)
  obtain bic1 s1 where r: "r = (bic1, s1)" by (cases r) auto
  show ?thesis
  proof (cases "h v bic1 s1")
    case (Inl x)
    then show ?thesis using assms Inr r by simp
  next
    case (Inr r2)
    obtain ok2 v2 bic2 s2 where r2: "r2 = (ok2, v2, bic2, s2)" by (cases r2) auto
    show ?thesis
      using assms \<open>HandleElementVecBwd h vs (n - 1) bic s = Inr r\<close> r Inr r2
      by (cases ok2) (simp; blast)+
  qed
qed

lemma HandleElementVecBwd_steps:
  "HandleElementVecBwd h vs n bic s = Inr r \<Longrightarrow> steps_ok h (rev (take n vs)) (bic, s) r"
proof (induction vs arbitrary: n r)
  case Nil
  then show ?case by (auto intro: steps_ok.intros)
next
  case (Cons v vs)
  show ?case
  proof (cases "n = 0")
    case True
    then show ?thesis using Cons.prems by (auto intro: steps_ok.intros)
  next
    case False
    obtain bic' s' where r: "r = (bic', s')" by (cases r) auto
    from VecBwd_Cons_D [OF Cons.prems [unfolded r] False] obtain bic1 s1 v' where
      t: "HandleElementVecBwd h vs (n - 1) bic s = Inr (bic1, s1)"
      and hv: "h v bic1 s1 = Inr (True, v', bic', s')" by blast
    have a: "steps_ok h (rev (take (n - 1) vs)) (bic, s) (bic1, s1)"
      using Cons.IH [OF t] .
    have b: "steps_ok h [v] (bic1, s1) (bic', s')"
      using hv by (auto intro: steps_ok.intros)
    have "rev (take n (v # vs)) = rev (take (n - 1) vs) @ [v]"
      using False by (cases n) auto
    then show ?thesis using steps_ok_append [OF a b] r by simp
  qed
qed

lemma HandleKernel_bwd_True:
  assumes "\<not> m_Fwd bic" and "HandleKernel e k bic s = Inr (ok, bic', s')"
  shows "ok"
proof (cases k)
  case (TxKernel kid nested d)
  from HandleKernel_Inr_D [OF assms(2) [unfolded TxKernel]] obtain bOk0 n bic1 s1 bic2 s2 where
    A1: "(if m_Fwd bic then HandleKernel_NestedFwd e nested bic s
          else Inr (True, length nested, bic, s)) = Inr (bOk0, n, bic1, s1)"
    and A5: "(if bOk0 then HandleKernel_Subtype e d bic1 s1 else Inr (False, bic1, s1))
             = Inr (ok, bic2, s2)"
    and A8: "\<not> (\<not> ok \<and> \<not> m_Fwd bic2)"
    by blast
  have "bic1 = bic" "bOk0" using A1 assms(1) by auto
  then have "same_flags bic bic2" using A5 Subtype_flags by auto
  then have "\<not> m_Fwd bic2" using assms(1) by (simp add: same_flags_def)
  then show ?thesis using A8 by blast
qed

lemma HandleBlockElement_Kernel_bwd_True:
  assumes "\<not> m_Fwd bic" and "HandleBlockElement_Kernel e k bic s = Inr (ok, v', bic', s')"
  shows "ok"
proof (rule ccontr)
  assume n: "\<not> ok"
  have pre: "(if m_Fwd bic \<and> r_Fork2_Height e \<le> m_Height bic \<and> \<not> m_AlreadyValidated bic then
         (if HeightGenesis \<le> FindVisibleKernel e (m_DB s) (krn_ID k) bic then None
          else if m_ValidateOnly bic then
            (if krn_ID k \<in> set (m_pDupIDs bic) then None
             else Some (bic\<lparr>m_pDupIDs := krn_ID k # m_pDupIDs bic\<rparr>))
          else Some bic)
       else Some bic) = Some bic"
    using assms(1) by simp
  show False
    using assms(2) n HandleKernel_bwd_True [OF assms(1)] assms(1)
    unfolding HandleBlockElement_Kernel_def pre
    by (auto simp: Let_def split: sum.splits prod.splits if_splits)
qed

lemma HandleValidatedTx_bwd_D:
  assumes "\<not> m_Fwd bic" and "HandleValidatedTx e txv bic s = Inr (ok, txv', bic', s')"
  shows "ok \<and> txv' = txv \<and> (\<exists>a b.
      HandleElementVecBwd (HandleBlockElement_Kernel e) (m_vKernels txv) (length (m_vKernels txv))
        bic s = Inr a
    \<and> HandleElementVecBwd (HandleBlockElement_Output e) (m_vOutputs txv) (length (m_vOutputs txv))
        (fst a) (snd a) = Inr b
    \<and> HandleElementVecBwd (HandleBlockElement_Input e) (m_vInputs txv) (length (m_vInputs txv))
        (fst b) (snd b) = Inr (bic', s'))"
proof -
  have b: "bic\<lparr>m_Fwd := False\<rparr> = bic" using assms(1) by simp
  show ?thesis
    using assms unfolding HandleValidatedTx_def
    by (simp add: b split: sum.splits prod.splits)
qed

lemma bic_bwd_simps:
  "\<not> m_Fwd (bic_bwd h)" "m_Height (bic_bwd h) = h" "m_SaveKid (bic_bwd h)"
  "\<not> m_ValidateOnly (bic_bwd h)"
  by (simp_all add: bic_bwd_def bic_block_simps)

lemma np_empty_simps:
  "m_Utxos np_empty = Map.empty" "m_Assets (m_Mmr np_empty) = []"
  "m_Txos (m_Extra np_empty) = 0" "db_Kernels (m_DB np_empty) = []"
  by (simp_all add: np_empty_def)

lemma block_example_simps:
  "m_vInputs block_example = []" "m_vOutputs block_example = [output_example]"
  "m_vKernels block_example = [kernel_example]"
  by (simp_all add: block_example_def)

lemma np_empty_folds:
  "(m_DB np_empty)\<lparr>db_Kernels := []\<rparr> = m_DB np_empty"
  "(m_Extra np_empty)\<lparr>m_Txos := 0\<rparr> = m_Extra np_empty"
  by (simp_all add: np_empty_def)

lemma np_block1_mid_simps:
  "m_Utxos np_block1_mid = [(\<lparr>m_X = 21, m_Y = 0\<rparr>, 1) \<mapsto> (0, [])]"
  "m_Txos (m_Extra np_block1_mid) = 1"
  by (simp_all add: np_block1_mid_def)

lemma ex_krn:
  "HandleBlockElement_Kernel env0 kernel_example (bic_bwd 1)
     (np_block1\<lparr>m_Extra := (m_Extra np_block1)\<lparr>m_Txos := m_Txos (m_Extra np_block1) - 1\<rparr>\<rparr>)
   = Inr (True, kernel_example, bic_bwd 1, np_block1_mid)"
  unfolding HandleBlockElement_Kernel_def
  apply (simp add: bic_bwd_simps Let_def HeightGenesis_def DeleteKernel_def kernel_example_def
      HandleKernel_Subtype_def HandleKernel_Std_def)
  apply (simp add: np_block1_def np_empty_simps np_empty_folds np_block1_mid_def)
  done

lemma ex_out:
  "HandleBlockElement_Output env0 output_example (bic_bwd 1) np_block1_mid
   = Inr (True, output_example, bic_bwd 1, np_empty)"
  unfolding HandleBlockElement_Output_def
  apply (simp add: bic_bwd_simps Let_def Utxos_Find_def env0_simps get_MinMaturity0_def
      output_example_def np_block1_mid_simps IsExt_def)
  apply (simp add: np_block1_mid_def np_empty_simps np_empty_folds)
  done

lemma ex_tx:
  "HandleValidatedTx env0 block_example (bic_bwd 1)
     (np_block1\<lparr>m_Extra := (m_Extra np_block1)\<lparr>m_Txos := m_Txos (m_Extra np_block1) - 1\<rparr>\<rparr>)
   = Inr (True, block_example, bic_bwd 1, np_empty)"
proof -
  have b: "(bic_bwd 1)\<lparr>m_Fwd := False\<rparr> = bic_bwd 1" by (simp add: bic_bwd_def)
  show ?thesis
    unfolding HandleValidatedTx_def
    by (simp add: bic_bwd_simps block_example_simps ex_krn ex_out b)
qed

lemma ex_blk:
  "HandleValidatedBlock env0 block_example (bic_bwd 1) np_block1
   = Inr (True, block_example, bic_bwd 1, np_empty)"
  unfolding HandleValidatedBlock_def
  by (simp add: bic_bwd_simps ex_tx)

lemma HandleValidatedBlock_bwd_D:
  assumes "\<not> m_Fwd bic" and "HandleValidatedBlock e blk bic s = Inr (ok, blk', bic', s')"
  shows "ok"
proof (cases "HandleValidatedTx e blk bic
            (s\<lparr>m_Extra := (m_Extra s)\<lparr>m_Txos := m_Txos (m_Extra s) - 1\<rparr>\<rparr>)")
  case (Inl x)
  then show ?thesis using assms by (simp add: HandleValidatedBlock_def)
next
  case (Inr r)
  obtain ok1 b1 c1 s1 where r: "r = (ok1, b1, c1, s1)" by (cases r) auto
  have ok1: "ok1" using HandleValidatedTx_bwd_D [OF assms(1) Inr [unfolded r]] by simp
  show ?thesis
    using assms Inr r ok1 by (simp add: HandleValidatedBlock_def split: if_splits)
qed

section \<open>A forward failure of the output handler\<close>

lemma cx_bic:
  "m_Fwd (SetAssetHi np_empty (bic_block 1))"
  "m_AssetHi (SetAssetHi np_empty (bic_block 1)) = 0"
  "m_Height (SetAssetHi np_empty (bic_block 1)) = 1"
  by (simp_all add: SetAssetHi_def bic_block_simps np_empty_simps)

lemma cx_out:
  "HandleBlockElement_Output env0 output_asset5 (SetAssetHi np_empty (bic_block 1)) np_empty
   = Inr (False, output_asset5, SetAssetHi np_empty (bic_block 1),
          np_empty\<lparr>m_Utxos := [(\<lparr>m_X = 11, m_Y = 0\<rparr>, 1) \<mapsto> (0, [])]\<rparr>)"
  unfolding HandleBlockElement_Output_def
  by (simp add: Let_def Utxos_Find_def ValidateAssetRange_def cx_bic np_empty_simps env0_simps
      output_asset5_def get_MinMaturity0_def)

lemma cx_tx:
  "HandleValidatedTx env0 block_asset5 (SetAssetHi np_empty (bic_block 1)) np_empty
   = Inr (False, block_asset5, SetAssetHi np_empty (bic_block 1),
          np_empty\<lparr>m_Utxos := [(\<lparr>m_X = 11, m_Y = 0\<rparr>, 1) \<mapsto> (0, [])]\<rparr>)"
  unfolding HandleValidatedTx_def
  by (simp add: cx_bic cx_out block_asset5_def)

text \<open>
  Claim C1. A block whose only output carries an asset proof beginning at asset 5,
  applied forward at height 1 on the empty processor (no asset exists, so
  \<open>m_AssetHi = 0\<close>): the output handler creates the leaf of the output's key and
  then fails on the asset range; \<open>HandleValidatedTx\<close> reverts the outputs before
  the failing one, which are none, and \<open>HandleValidatedBlock\<close> returns \<open>false\<close> on
  a tree that holds a leaf it did not hold before the call.
\<close>

theorem HandleValidatedBlock_leaves_leaf:
  "HandleValidatedBlock env0 block_asset5 (SetAssetHi np_empty (bic_block 1)) np_empty
   = Inr (False, block_asset5, SetAssetHi np_empty (bic_block 1),
          np_empty\<lparr>m_Utxos := [(\<lparr>m_X = 11, m_Y = 0\<rparr>, 1) \<mapsto> (0, [])]\<rparr>)
   \<and> m_Utxos np_empty (\<lparr>m_X = 11, m_Y = 0\<rparr>, 1) = None
   \<and> m_Utxos (np_empty\<lparr>m_Utxos := [(\<lparr>m_X = 11, m_Y = 0\<rparr>, 1) \<mapsto> (0, [])]\<rparr>)
        (\<lparr>m_X = 11, m_Y = 0\<rparr>, 1) = Some (0, [])"
  unfolding HandleValidatedBlock_def
  by (simp add: cx_tx cx_bic np_empty_simps)

section \<open>The least amount of an asset emission\<close>

lemma env_opt_simps:
  "\<not> c_NegTestKept env_opt" "p_Asset_get_Hash env_opt = Asset_get_Hash0"
  "p_ser_Height env_opt = ser_Height_be"
  by (simp_all add: env_opt_def env0_simps)

lemma least_amount_64:
  "\<not> 0 \<le> sint (0x8000000000000000 :: 64 word)"
  "- (0x8000000000000000 :: 64 word) = 0x8000000000000000"
  "(ucast (0x8000000000000000 :: 64 word) :: 128 word) = 0x8000000000000000"
  by simp_all

text \<open>
  Claim C7. An AssetEmit kernel with the least amount \<open>0x8000000000000000\<close>
  (INT64_MIN), applied forward at height 10 to the asset 1 of owner 7 that holds
  \<open>2^64\<close>. Where the test after the negation is kept the kernel is rejected and
  nothing changes. Where the compiler removed it the kernel is accepted: \<open>2^63\<close> is
  burned, the asset holds \<open>2^63\<close> afterwards and its MMR leaf is rewritten.
\<close>

theorem HandleKernel_AssetEmit_least_amount:
  "HandleKernel_AssetEmit env0 1 7 0x8000000000000000 (bic_block 10)
       (np_asset 0x10000000000000000)
     = Inr (False, bic_block 10, np_asset 0x10000000000000000)
   \<and> HandleKernel_AssetEmit env_opt 1 7 0x8000000000000000 (bic_block 10)
       (np_asset 0x10000000000000000)
     = Inr (True, bic_block 10,
         (np_asset 0x10000000000000000)\<lparr>m_DB := (m_DB (np_asset 0x10000000000000000))\<lparr>db_Assets :=
                [1 \<mapsto> asset_example 0x8000000000000000]\<rparr>,
              m_Mmr := (m_Mmr (np_asset 0x10000000000000000))\<lparr>m_Assets :=
                [Asset_get_Hash0 (asset_example 0x8000000000000000)]\<rparr>\<rparr>)"
proof -
  have get: "AssetGetSafe (m_DB (np_asset v)) 1 = Some (asset_example v)" for v
    by (simp add: AssetGetSafe_def np_asset_simps asset_example_simps)
  have lk: "(asset_example 0x8000000000000000)\<lparr>ai_LockHeight := 3\<rparr> = asset_example 0x8000000000000000"
    by (simp add: asset_example_def)
  have setv: "AssetSetValue 1 0x8000000000000000 3 (m_DB (np_asset 0x10000000000000000))
      = (m_DB (np_asset 0x10000000000000000))\<lparr>db_Assets := [1 \<mapsto> asset_example 0x8000000000000000]\<rparr>"
    unfolding AssetSetValue_def by (simp add: np_asset_simps asset_example_simps lk)
  have a: "HandleKernel_AssetEmit env0 1 7 0x8000000000000000 (bic_block 10)
       (np_asset 0x10000000000000000)
     = Inr (False, bic_block 10, np_asset 0x10000000000000000)"
    unfolding HandleKernel_AssetEmit_def
    by (simp add: Let_def get bic_block_simps asset_example_simps env0_simps least_amount_64)
  have b: "HandleKernel_AssetEmit env_opt 1 7 0x8000000000000000 (bic_block 10)
       (np_asset 0x10000000000000000)
     = Inr (True, bic_block 10,
         (np_asset 0x10000000000000000)\<lparr>m_DB := (m_DB (np_asset 0x10000000000000000))\<lparr>db_Assets :=
                [1 \<mapsto> asset_example 0x8000000000000000]\<rparr>,
              m_Mmr := (m_Mmr (np_asset 0x10000000000000000))\<lparr>m_Assets :=
                [Asset_get_Hash0 (asset_example 0x8000000000000000)]\<rparr>\<rparr>)"
    unfolding HandleKernel_AssetEmit_def
    by (simp add: Let_def get setv lk bic_block_simps asset_example_simps np_asset_simps
        env_opt_simps least_amount_64 Mmr_Replace_def)
  show ?thesis using a b by simp
qed

section \<open>Relations that the kernel recursion preserves\<close>

lemma HandleKernel_rel_all:
  assumes rf: "\<And>c. R c c"
    and tr: "\<And>a b c. R a b \<Longrightarrow> R b c \<Longrightarrow> R a c"
    and up: "\<And>bic s b. R (bic, s) (bic\<lparr>m_Fwd := b\<rparr>, s)"
    and sub: "\<And>d bic s ok bic' s'. HandleKernel_Subtype e0 d bic s = Inr (ok, bic', s')
                \<Longrightarrow> R (bic, s) (bic', s')"
  shows
  "e = e0 \<longrightarrow> (\<forall>ok bic' s'. HandleKernel e k bic s = Inr (ok, bic', s') \<longrightarrow> R (bic, s) (bic', s'))"
  "e = e0 \<longrightarrow> (\<forall>ok n bic' s'. HandleKernel_NestedFwd e ks bic s = Inr (ok, n, bic', s')
        \<longrightarrow> R (bic, s) (bic', s'))"
  "e = e0 \<longrightarrow> (\<forall>bic' s'. HandleKernel_NestedBwd e ks n bic s = Inr (bic', s')
        \<longrightarrow> R (bic, s) (bic', s'))"
proof (induction e k bic s and e ks bic s and e ks n bic s
       rule: HandleKernel_HandleKernel_NestedFwd_HandleKernel_NestedBwd.induct)
  case (1 e kid nested d bic s)
  show ?case
  proof (intro allI impI)
    fix ok bic' s'
    assume e: "e = e0"
    assume r: "HandleKernel e (TxKernel kid nested d) bic s = Inr (ok, bic', s')"
    from HandleKernel_Inr_D [OF r] obtain bOk0 n bic1 s1 bic2 s2 bic4 where
      A1: "(if m_Fwd bic then HandleKernel_NestedFwd e nested bic s
            else Inr (True, length nested, bic, s)) = Inr (bOk0, n, bic1, s1)"
      and A5: "(if bOk0 then HandleKernel_Subtype e d bic1 s1 else Inr (False, bic1, s1))
               = Inr (ok, bic2, s2)"
      and A8: "\<not> (\<not> ok \<and> \<not> m_Fwd bic2)"
      and B: "(if \<not> m_Fwd (if \<not> ok then bic2\<lparr>m_Fwd := False\<rparr> else bic2)
           \<and> \<not> m_ValidateOnly (if \<not> ok then bic2\<lparr>m_Fwd := False\<rparr> else bic2)
        then HandleKernel_NestedBwd e nested n (if \<not> ok then bic2\<lparr>m_Fwd := False\<rparr> else bic2) s2
        else Inr ((if \<not> ok then bic2\<lparr>m_Fwd := False\<rparr> else bic2), s2)) = Inr (bic4, s')"
      and C: "bic' = (if \<not> ok then bic4\<lparr>m_Fwd := True\<rparr> else bic4)"
      by blast
    let ?bic3 = "if \<not> ok then bic2\<lparr>m_Fwd := False\<rparr> else bic2"
    have f1: "R (bic, s) (bic1, s1)"
      using A1 "1.IH"(1) e rf by (auto split: if_splits)
    have f2: "R (bic1, s1) (bic2, s2)"
      using A5 sub e rf by (auto split: if_splits)
    have f2b: "R (bic2, s2) (?bic3, s2)"
      using rf up by simp
    have f3: "R (?bic3, s2) (bic4, s')"
    proof (cases "\<not> m_Fwd ?bic3 \<and> \<not> m_ValidateOnly ?bic3")
      case True
      then show ?thesis
        using "1.IH"(2) [OF A1 refl refl refl A5 refl refl A8 refl True] B e by simp
    next
      case False
      then show ?thesis using B rf by (auto split: if_splits)
    qed
    have f4: "R (bic4, s') (bic', s')"
      using C rf up by simp
    show "R (bic, s) (bic', s')"
      using f1 f2 f2b f3 f4 tr by blast
  qed
next
  case (2 e bic s)
  then show ?case using rf by simp
next
  case (3 e k ks bic s)
  show ?case
  proof (intro allI impI)
    fix ok n bic' s'
    assume e: "e = e0"
    assume r: "HandleKernel_NestedFwd e (k # ks) bic s = Inr (ok, n, bic', s')"
    from NestedFwd_Cons_D [OF r] obtain ok1 bic1 s1 where
      h: "HandleKernel e k bic s = Inr (ok1, bic1, s1)"
      and c: "if \<not> ok1 then \<not> ok \<and> n = 0 \<and> bic' = bic1 \<and> s' = s1
              else \<exists>n2. HandleKernel_NestedFwd e ks bic1 s1 = Inr (ok, n2, bic', s') \<and> n = Suc n2"
      by blast
    have f1: "R (bic, s) (bic1, s1)" using "3.IH"(1) h e by blast
    show "R (bic, s) (bic', s')"
    proof (cases ok1)
      case False
      then show ?thesis using c f1 by simp
    next
      case True
      then obtain n2 where t: "HandleKernel_NestedFwd e ks bic1 s1 = Inr (ok, n2, bic', s')"
        using c by auto
      have "\<not> \<not> ok1" using True by simp
      then have "R (bic1, s1) (bic', s')"
        using "3.IH"(2) [OF h refl refl] t e by blast
      then show ?thesis using f1 tr by blast
    qed
  qed
next
  case (4 e n bic s)
  then show ?case using rf by simp
next
  case (5 e k ks n bic s)
  show ?case
  proof (intro allI impI)
    fix bic' s'
    assume e: "e = e0"
    assume r: "HandleKernel_NestedBwd e (k # ks) n bic s = Inr (bic', s')"
    show "R (bic, s) (bic', s')"
    proof (cases "n = 0")
      case True
      then show ?thesis using r rf by simp
    next
      case False
      from NestedBwd_Cons_D [OF r False] obtain bic1 s1 where
        t: "HandleKernel_NestedBwd e ks (n - 1) bic s = Inr (bic1, s1)"
        and h: "HandleKernel e k bic1 s1 = Inr (True, bic', s')"
        by blast
      have "R (bic, s) (bic1, s1)" using "5.IH"(1) [OF False] t e by blast
      moreover have "R (bic1, s1) (bic', s')" using "5.IH"(2) [OF False t refl] h e by blast
      ultimately show ?thesis using tr by blast
    qed
  qed
qed

section \<open>The counter of TxoIDs\<close>

lemma InternalAssetAdd_Extra: "InternalAssetAdd e ai s = (ai', s') \<Longrightarrow> m_Extra s' = m_Extra s"
  by (auto simp: InternalAssetAdd_def Let_def split: prod.splits)

lemma InternalAssetDel_Extra [simp]: "m_Extra (InternalAssetDel aid s) = m_Extra s"
  by (simp add: InternalAssetDel_def Let_def split: prod.splits)

lemma Std_txos:
  "HandleKernel_Std e rl bic s = Inr (ok, bic', s') \<Longrightarrow> s' = s"
  by (auto simp: HandleKernel_Std_def Let_def split: option.splits if_splits)

lemma AssetCreate_txos:
  "HandleKernel_AssetCreate e owner md bic s = Inr (ok, bic', s') \<Longrightarrow> m_Txos (m_Extra s') = m_Txos (m_Extra s)"
  unfolding HandleKernel_AssetCreate_def Let_def
  by (auto split: if_splits sum.splits prod.splits option.splits dest!: InternalAssetAdd_Extra)

lemma AssetDestroy_txos:
  "HandleKernel_AssetDestroy e aid owner bic s = Inr (ok, bic', s') \<Longrightarrow> m_Txos (m_Extra s') = m_Txos (m_Extra s)"
  unfolding HandleKernel_AssetDestroy_def Let_def
  by (auto split: if_splits sum.splits prod.splits option.splits dest!: InternalAssetAdd_Extra)

lemma AssetEmit_txos:
  "HandleKernel_AssetEmit e aid owner v bic s = Inr (ok, bic', s') \<Longrightarrow> m_Txos (m_Extra s') = m_Txos (m_Extra s)"
  unfolding HandleKernel_AssetEmit_def Let_def
  by (auto split: if_splits sum.splits prod.splits option.splits)

lemma ShieldedOutput_txos:
  "HandleKernel_ShieldedOutput e sp c pa bic s = Inr (ok, bic', s') \<Longrightarrow> m_Txos (m_Extra s') = m_Txos (m_Extra s)"
  unfolding HandleKernel_ShieldedOutput_def Let_def
  by (auto split: if_splits sum.splits prod.splits option.splits bool.splits)

lemma ShieldedInput_txos:
  "HandleKernel_ShieldedInput e spk w cfg pa bic s = Inr (ok, bic', s') \<Longrightarrow> m_Txos (m_Extra s') = m_Txos (m_Extra s)"
  unfolding HandleKernel_ShieldedInput_def Let_def
  by (auto split: if_splits sum.splits prod.splits option.splits bool.splits)

lemma Subtype_txos:
  "HandleKernel_Subtype e d bic s = Inr (ok, bic', s') \<Longrightarrow> m_Txos (m_Extra s') = m_Txos (m_Extra s)"
  by (cases d)
     (auto simp: HandleKernel_Subtype_def
       dest: Std_txos AssetCreate_txos AssetDestroy_txos AssetEmit_txos
             ShieldedOutput_txos ShieldedInput_txos)

lemma HandleKernel_txos:
  assumes "HandleKernel e k bic s = Inr (ok, bic', s')"
  shows "m_Txos (m_Extra s') = m_Txos (m_Extra s)"
proof -
  have "e = e \<longrightarrow> (\<forall>ok bic' s'. HandleKernel e k bic s = Inr (ok, bic', s')
      \<longrightarrow> (\<lambda>(b1, s1) (b2, s2). m_Txos (m_Extra s2) = m_Txos (m_Extra s1)) (bic, s) (bic', s'))"
    by (rule HandleKernel_rel_all(1)) (auto dest: Subtype_txos)
  then show ?thesis using assms by auto
qed

lemma HandleKernel_flags:
  "HandleKernel e k bic s = Inr (ok, bic', s') \<Longrightarrow> same_flags bic bic'"
  using HandleKernel_flags_all(1) by blast

lemma HandleBlockElement_Kernel_D:
  assumes "HandleBlockElement_Kernel e k bic s = Inr (ok, k', bic', s')"
  shows "k' = k \<and> ((\<not> ok \<and> bic' = bic \<and> s' = s)
     \<or> (\<exists>bic1 db1 s1.
          (bic1 = bic \<or> bic1 = bic\<lparr>m_pDupIDs := krn_ID k # m_pDupIDs bic\<rparr>)
        \<and> HandleKernel e k bic1 (s\<lparr>m_DB := db1\<rparr>) = Inr (ok, bic', s1)
        \<and> (s' = s1 \<or> s' = s1\<lparr>m_DB := InsertKernel (krn_ID k) (m_Height bic') (m_DB s1)\<rparr>)))"
proof -
  let ?pre = "(if m_Fwd bic \<and> r_Fork2_Height e \<le> m_Height bic \<and> \<not> m_AlreadyValidated bic then
         (if HeightGenesis \<le> FindVisibleKernel e (m_DB s) (krn_ID k) bic then None
          else if m_ValidateOnly bic then
            (if krn_ID k \<in> set (m_pDupIDs bic) then None
             else Some (bic\<lparr>m_pDupIDs := krn_ID k # m_pDupIDs bic\<rparr>))
          else Some bic)
       else Some bic)"
  show ?thesis
  proof (cases ?pre)
    case None
    then show ?thesis using assms unfolding HandleBlockElement_Kernel_def by simp
  next
    case (Some bic1)
    then have b1: "bic1 = bic \<or> bic1 = bic\<lparr>m_pDupIDs := krn_ID k # m_pDupIDs bic\<rparr>"
      by (auto split: if_splits)
    let ?del = "(if (HeightGenesis \<le> m_Height bic1 \<and> m_SaveKid bic1) \<and> \<not> m_Fwd bic1
                  then DeleteKernel (krn_ID k) (m_Height bic1) (m_DB s)
                  else Inr (m_DB s))"
    show ?thesis
    proof (cases ?del)
      case (Inl x)
      then show ?thesis using assms Some unfolding HandleBlockElement_Kernel_def
        by (simp add: Let_def)
    next
      case (Inr db1)
      show ?thesis
      proof (cases "HandleKernel e k bic1 (s\<lparr>m_DB := db1\<rparr>)")
        case (Inl x)
        then show ?thesis using assms Some Inr unfolding HandleBlockElement_Kernel_def
          by (simp add: Let_def)
      next
        case r: (Inr r)
        obtain ok1 bic2 s2 where r2: "r = (ok1, bic2, s2)" by (cases r) auto
        have "k' = k \<and> ok = ok1 \<and> bic' = bic2
            \<and> (s' = s2 \<or> s' = s2\<lparr>m_DB := InsertKernel (krn_ID k) (m_Height bic2) (m_DB s2)\<rparr>)"
          using assms Some Inr r r2 unfolding HandleBlockElement_Kernel_def
          by (auto simp: Let_def split: if_splits)
        then show ?thesis using b1 r r2 by blast
      qed
    qed
  qed
qed

lemma HandleBlockElement_Kernel_txos:
  assumes "HandleBlockElement_Kernel e k bic s = Inr (ok, k', bic', s')"
  shows "m_Txos (m_Extra s') = m_Txos (m_Extra s) \<and> same_flags bic bic'"
proof -
  from HandleBlockElement_Kernel_D [OF assms] consider
    (a) "bic' = bic" "s' = s"
    | (b) bic1 db1 s1 where
      "bic1 = bic \<or> bic1 = bic\<lparr>m_pDupIDs := krn_ID k # m_pDupIDs bic\<rparr>"
      "HandleKernel e k bic1 (s\<lparr>m_DB := db1\<rparr>) = Inr (ok, bic', s1)"
      "s' = s1 \<or> s' = s1\<lparr>m_DB := InsertKernel (krn_ID k) (m_Height bic') (m_DB s1)\<rparr>"
    by blast
  then show ?thesis
  proof cases
    case a
    then show ?thesis by simp
  next
    case b
    have "m_Txos (m_Extra s1) = m_Txos (m_Extra s)"
      using HandleKernel_txos [OF b(2)] by simp
    moreover have "same_flags bic1 bic'" using HandleKernel_flags [OF b(2)] .
    moreover have "same_flags bic bic1" using b(1) by auto
    ultimately show ?thesis using b(3) same_flags_trans by auto
  qed
qed

lemma HandleBlockElement_Input_txos:
  assumes "HandleBlockElement_Input e v bic s = Inr (ok, v', bic', s')"
  shows "m_Txos (m_Extra s') = m_Txos (m_Extra s) \<and> bic' = bic"
  using assms unfolding HandleBlockElement_Input_def
  by (auto split: if_splits option.splits)

lemma HandleBlockElement_Output_txos:
  assumes "HandleBlockElement_Output e v bic s = Inr (ok, v', bic', s')"
  shows "bic' = bic
     \<and> (m_Fwd bic \<and> ok \<longrightarrow> m_Txos (m_Extra s') = m_Txos (m_Extra s) + 1)
     \<and> (m_Fwd bic \<and> \<not> ok \<longrightarrow> m_Txos (m_Extra s') = m_Txos (m_Extra s))
     \<and> (\<not> m_Fwd bic \<longrightarrow> ok \<and> m_Txos (m_Extra s') = m_Txos (m_Extra s) - 1)"
  using assms unfolding HandleBlockElement_Output_def Let_def
  by (auto split: if_splits prod.splits)

lemma VecFwd_Cons_D:
  assumes "HandleElementVecFwd h (v # vs) bic s = Inr (ok, n, vs', bic', s')"
  shows "\<exists>ok1 v1 bic1 s1. h v bic s = Inr (ok1, v1, bic1, s1)
          \<and> (if \<not> ok1 then \<not> ok \<and> n = 0 \<and> vs' = v1 # vs \<and> bic' = bic1 \<and> s' = s1
              else \<exists>n2 vs2. HandleElementVecFwd h vs bic1 s1 = Inr (ok, n2, vs2, bic', s')
                     \<and> n = Suc n2 \<and> vs' = v1 # vs2)"
proof (cases "h v bic s")
  case (Inl x)
  then show ?thesis using assms by simp
next
  case (Inr r)
  obtain ok1 v1 bic1 s1 where r: "r = (ok1, v1, bic1, s1)" by (cases r) auto
  show ?thesis
  proof (cases ok1)
    case False
    then show ?thesis using assms Inr r by (simp; blast)
  next
    case True
    show ?thesis
    proof (cases "HandleElementVecFwd h vs bic1 s1")
      case (Inl x)
      then show ?thesis using assms Inr r True by simp
    next
      case (Inr r2)
      obtain ok2 n2 vs2 bic2 s2 where r2: "r2 = (ok2, n2, vs2, bic2, s2)" by (cases r2) auto
      show ?thesis using assms \<open>h v bic s = Inr r\<close> r True Inr r2 by (simp; blast)
    qed
  qed
qed

lemma VecFwd_txos:
  assumes step: "\<And>v bic s ok v' bic' s'. m_Fwd bic \<Longrightarrow> h v bic s = Inr (ok, v', bic', s')
             \<Longrightarrow> same_flags bic bic' \<and> (ok \<longrightarrow> m_Txos (m_Extra s') = m_Txos (m_Extra s) + d)"
    and "m_Fwd bic"
    and "HandleElementVecFwd h vs bic s = Inr (True, n, vs', bic', s')"
  shows "same_flags bic bic' \<and> n = length vs
       \<and> m_Txos (m_Extra s') = m_Txos (m_Extra s) + of_nat (length vs) * d"
  using assms(2,3)
proof (induction vs arbitrary: bic s n vs')
  case Nil
  then show ?case by simp
next
  case (Cons v vs)
  from VecFwd_Cons_D [OF Cons.prems(2)] obtain ok1 v1 bic1 s1 where
    h: "h v bic s = Inr (ok1, v1, bic1, s1)"
    and c: "if \<not> ok1 then \<not> True \<and> n = 0 \<and> vs' = v1 # vs \<and> bic' = bic1 \<and> s' = s1
            else \<exists>n2 vs2. HandleElementVecFwd h vs bic1 s1 = Inr (True, n2, vs2, bic', s')
                   \<and> n = Suc n2 \<and> vs' = v1 # vs2"
    by blast
  have ok1: ok1 using c by (cases ok1) auto
  then obtain n2 vs2 where t: "HandleElementVecFwd h vs bic1 s1 = Inr (True, n2, vs2, bic', s')"
    and n: "n = Suc n2" using c by auto
  have f1: "same_flags bic bic1" and x1: "m_Txos (m_Extra s1) = m_Txos (m_Extra s) + d"
    using step [OF Cons.prems(1) h] ok1 by auto
  have fwd1: "m_Fwd bic1" using f1 Cons.prems(1) by (simp add: same_flags_def)
  from Cons.IH [OF fwd1 t] have f2: "same_flags bic1 bic'" and n2: "n2 = length vs"
    and x2: "m_Txos (m_Extra s') = m_Txos (m_Extra s1) + of_nat (length vs) * d" by auto
  show ?case using f1 f2 n n2 x1 x2 same_flags_trans by (auto simp: algebra_simps)
qed

lemma steps_ok_txos:
  assumes step: "\<And>v bic s v' bic' s'. \<not> m_Fwd bic \<Longrightarrow> h v bic s = Inr (True, v', bic', s')
             \<Longrightarrow> same_flags bic bic' \<and> m_Txos (m_Extra s') = m_Txos (m_Extra s) - d"
    and "steps_ok h vs c c'" and "\<not> m_Fwd (fst c)"
  shows "same_flags (fst c) (fst c')
       \<and> m_Txos (m_Extra (snd c')) = m_Txos (m_Extra (snd c)) - of_nat (length vs) * d"
  using assms(2,3)
proof (induction rule: steps_ok.induct)
  case (steps_ok_Nil c)
  then show ?case by simp
next
  case (steps_ok_Cons v bic s v' bic1 s1 vs c)
  have f: "\<not> m_Fwd bic" using steps_ok_Cons.prems by simp
  have f1: "same_flags bic bic1" and x1: "m_Txos (m_Extra s1) = m_Txos (m_Extra s) - d"
    using step [OF f steps_ok_Cons.hyps(1)] by auto
  have "\<not> m_Fwd (fst (bic1, s1))" using f f1 by (simp add: same_flags_def)
  from steps_ok_Cons.IH [OF this] show ?case
    using f1 x1 same_flags_trans by (auto simp: algebra_simps)
qed

lemma Input_step_fwd:
  "m_Fwd bic \<Longrightarrow> HandleBlockElement_Input e v bic s = Inr (ok, v', bic', s')
   \<Longrightarrow> same_flags bic bic' \<and> (ok \<longrightarrow> m_Txos (m_Extra s') = m_Txos (m_Extra s) + 0)"
  using HandleBlockElement_Input_txos by fastforce

lemma Output_step_fwd:
  "m_Fwd bic \<Longrightarrow> HandleBlockElement_Output e v bic s = Inr (ok, v', bic', s')
   \<Longrightarrow> same_flags bic bic' \<and> (ok \<longrightarrow> m_Txos (m_Extra s') = m_Txos (m_Extra s) + 1)"
  using HandleBlockElement_Output_txos by fastforce

lemma Kernel_step_fwd:
  "m_Fwd bic \<Longrightarrow> HandleBlockElement_Kernel e v bic s = Inr (ok, v', bic', s')
   \<Longrightarrow> same_flags bic bic' \<and> (ok \<longrightarrow> m_Txos (m_Extra s') = m_Txos (m_Extra s) + 0)"
  using HandleBlockElement_Kernel_txos by fastforce

lemma Input_step_bwd:
  "\<not> m_Fwd bic \<Longrightarrow> HandleBlockElement_Input e v bic s = Inr (True, v', bic', s')
   \<Longrightarrow> same_flags bic bic' \<and> m_Txos (m_Extra s') = m_Txos (m_Extra s) - 0"
  using HandleBlockElement_Input_txos by fastforce

lemma Output_step_bwd:
  "\<not> m_Fwd bic \<Longrightarrow> HandleBlockElement_Output e v bic s = Inr (True, v', bic', s')
   \<Longrightarrow> same_flags bic bic' \<and> m_Txos (m_Extra s') = m_Txos (m_Extra s) - 1"
  using HandleBlockElement_Output_txos by fastforce

lemma Kernel_step_bwd:
  "\<not> m_Fwd bic \<Longrightarrow> HandleBlockElement_Kernel e v bic s = Inr (True, v', bic', s')
   \<Longrightarrow> same_flags bic bic' \<and> m_Txos (m_Extra s') = m_Txos (m_Extra s) - 0"
  using HandleBlockElement_Kernel_txos by fastforce

lemma HandleValidatedTx_fwd_D:
  assumes fwd: "m_Fwd bic" and run: "HandleValidatedTx e txv bic s = Inr (True, txv', bic', s')"
  shows "\<exists>ins n0 b0 s0 outs n1 b1 s1 krns n2.
     HandleElementVecFwd (HandleBlockElement_Input e) (m_vInputs txv) bic s
       = Inr (True, n0, ins, b0, s0)
   \<and> HandleElementVecFwd (HandleBlockElement_Output e) (m_vOutputs txv) b0 s0
       = Inr (True, n1, outs, b1, s1)
   \<and> HandleElementVecFwd (HandleBlockElement_Kernel e) (m_vKernels txv) b1 s1
       = Inr (True, n2, krns, bic', s')
   \<and> txv' = txv\<lparr>m_vInputs := ins\<rparr> \<and> m_Fwd b0 \<and> m_Fwd b1 \<and> m_Fwd bic'"
proof (cases "HandleElementVecFwd (HandleBlockElement_Input e) (m_vInputs txv) bic s")
  case (Inl x)
  then show ?thesis using run fwd by (simp add: HandleValidatedTx_def)
next
  case i: (Inr r)
  obtain ok0 n0 ins b0 s0 where r: "r = (ok0, n0, ins, b0, s0)" by (cases r) auto
  have ok0: ok0
    using run fwd i r by (cases ok0) (auto simp: HandleValidatedTx_def split: sum.splits)
  have f0: "m_Fwd b0"
    using VecFwd_txos [OF Input_step_fwd fwd i [unfolded r, simplified ok0 [THEN eqTrueI]]] fwd
    by (simp add: same_flags_def)
  show ?thesis
  proof (cases "HandleElementVecFwd (HandleBlockElement_Output e) (m_vOutputs txv) b0 s0")
    case (Inl x)
    then show ?thesis using run fwd i r ok0 by (simp add: HandleValidatedTx_def)
  next
    case o: (Inr r1)
    obtain ok1 n1 outs b1 s1 where r1: "r1 = (ok1, n1, outs, b1, s1)" by (cases r1) auto
    have ok1: ok1
      using run fwd i r ok0 o r1
      by (cases ok1) (auto simp: HandleValidatedTx_def split: sum.splits)
    have f1: "m_Fwd b1"
      using VecFwd_txos [OF Output_step_fwd f0 o [unfolded r1, simplified ok1 [THEN eqTrueI]]] f0
      by (simp add: same_flags_def)
    show ?thesis
    proof (cases "HandleElementVecFwd (HandleBlockElement_Kernel e) (m_vKernels txv) b1 s1")
      case (Inl x)
      then show ?thesis using run fwd i r ok0 o r1 ok1 by (simp add: HandleValidatedTx_def)
    next
      case k: (Inr r2)
      obtain ok2 n2 krns b2 s2 where r2: "r2 = (ok2, n2, krns, b2, s2)" by (cases r2) auto
      have ok2: ok2
        using run fwd i r ok0 o r1 ok1 k r2
        by (cases ok2) (auto simp: HandleValidatedTx_def split: sum.splits)
      have f2: "m_Fwd b2"
        using VecFwd_txos [OF Kernel_step_fwd f1 k [unfolded r2, simplified ok2 [THEN eqTrueI]]] f1
        by (simp add: same_flags_def)
      have "txv' = txv\<lparr>m_vInputs := ins\<rparr> \<and> bic' = b2 \<and> s' = s2"
        using run fwd i r ok0 o r1 ok1 k r2 ok2 f2 by (simp add: HandleValidatedTx_def)
      then show ?thesis using i r ok0 o r1 ok1 k r2 ok2 f0 f1 f2 by simp
    qed
  qed
qed

lemma HandleValidatedBlock_fwd_txos:
  assumes fwd: "m_Fwd bic" and run: "HandleValidatedBlock e blk bic s = Inr (True, blk', bic', s')"
  shows "m_Txos (m_Extra s') = m_Txos (m_Extra s) + of_nat (length (m_vOutputs blk)) + 1"
proof (cases "HandleValidatedTx e blk bic s")
  case (Inl x)
  then show ?thesis using run fwd by (simp add: HandleValidatedBlock_def)
next
  case (Inr r)
  obtain ok1 b1 c1 s1 where r: "r = (ok1, b1, c1, s1)" by (cases r) auto
  have ok1: ok1 using run fwd Inr r by (cases ok1) (auto simp: HandleValidatedBlock_def)
  from HandleValidatedTx_fwd_D [OF fwd Inr [unfolded r, simplified ok1 [THEN eqTrueI]]]
  obtain ins n0 b0 s0 outs n1 bb1 ss1 krns n2 where
    i: "HandleElementVecFwd (HandleBlockElement_Input e) (m_vInputs blk) bic s
          = Inr (True, n0, ins, b0, s0)"
    and o: "HandleElementVecFwd (HandleBlockElement_Output e) (m_vOutputs blk) b0 s0
          = Inr (True, n1, outs, bb1, ss1)"
    and k: "HandleElementVecFwd (HandleBlockElement_Kernel e) (m_vKernels blk) bb1 ss1
          = Inr (True, n2, krns, c1, s1)"
    and f: "m_Fwd b0" "m_Fwd bb1" "m_Fwd c1"
    by blast
  have x0: "m_Txos (m_Extra s0) = m_Txos (m_Extra s)"
    using VecFwd_txos [OF Input_step_fwd fwd i] by simp
  have x1: "m_Txos (m_Extra ss1) = m_Txos (m_Extra s0) + of_nat (length (m_vOutputs blk))"
    using VecFwd_txos [OF Output_step_fwd f(1) o] by simp
  have x2: "m_Txos (m_Extra s1) = m_Txos (m_Extra ss1)"
    using VecFwd_txos [OF Kernel_step_fwd f(2) k] by simp
  have "s' = s1\<lparr>m_Extra := (m_Extra s1)\<lparr>m_Txos := m_Txos (m_Extra s1) + 1\<rparr>\<rparr>"
    using run fwd Inr r ok1 f(3) by (simp add: HandleValidatedBlock_def)
  then show ?thesis using x0 x1 x2 by simp
qed

lemma HandleValidatedBlock_bwd_txos:
  assumes bwd: "\<not> m_Fwd bic" and run: "HandleValidatedBlock e blk bic s = Inr (ok, blk', bic', s')"
  shows "ok \<and> m_Txos (m_Extra s') = m_Txos (m_Extra s) - of_nat (length (m_vOutputs blk)) - 1"
proof -
  let ?s0 = "s\<lparr>m_Extra := (m_Extra s)\<lparr>m_Txos := m_Txos (m_Extra s) - 1\<rparr>\<rparr>"
  show ?thesis
  proof (cases "HandleValidatedTx e blk bic ?s0")
    case (Inl x)
    then show ?thesis using run bwd by (simp add: HandleValidatedBlock_def)
  next
    case (Inr r)
    obtain ok1 b1 c1 s1 where r: "r = (ok1, b1, c1, s1)" by (cases r) auto
    from HandleValidatedTx_bwd_D [OF bwd Inr [unfolded r]] obtain a b where ok1: ok1
      and ka0: "HandleElementVecBwd (HandleBlockElement_Kernel e) (m_vKernels blk)
                (length (m_vKernels blk)) bic ?s0 = Inr a"
      and ob0: "HandleElementVecBwd (HandleBlockElement_Output e) (m_vOutputs blk)
                (length (m_vOutputs blk)) (fst a) (snd a) = Inr b"
      and ic0: "HandleElementVecBwd (HandleBlockElement_Input e) (m_vInputs blk)
                (length (m_vInputs blk)) (fst b) (snd b) = Inr (c1, s1)"
      by blast
    obtain ba sa where a: "a = (ba, sa)" by (cases a) auto
    obtain bb sb where b: "b = (bb, sb)" by (cases b) auto
    have ka: "HandleElementVecBwd (HandleBlockElement_Kernel e) (m_vKernels blk)
                (length (m_vKernels blk)) bic ?s0 = Inr (ba, sa)"
      using ka0 a by simp
    have ob: "HandleElementVecBwd (HandleBlockElement_Output e) (m_vOutputs blk)
                (length (m_vOutputs blk)) ba sa = Inr (bb, sb)"
      using ob0 a b by simp
    have ic: "HandleElementVecBwd (HandleBlockElement_Input e) (m_vInputs blk)
                (length (m_vInputs blk)) bb sb = Inr (c1, s1)"
      using ic0 b by simp
    have k: "same_flags bic ba \<and> m_Txos (m_Extra sa) = m_Txos (m_Extra ?s0)"
      using steps_ok_txos [OF Kernel_step_bwd HandleElementVecBwd_steps [OF ka]] bwd by simp
    then have fa: "\<not> m_Fwd ba" using bwd by (simp add: same_flags_def)
    have o: "same_flags ba bb
         \<and> m_Txos (m_Extra sb) = m_Txos (m_Extra sa) - of_nat (length (m_vOutputs blk))"
      using steps_ok_txos [OF Output_step_bwd HandleElementVecBwd_steps [OF ob]] fa by simp
    then have fb: "\<not> m_Fwd bb" using fa by (simp add: same_flags_def)
    have i: "same_flags bb c1 \<and> m_Txos (m_Extra s1) = m_Txos (m_Extra sb)"
      using steps_ok_txos [OF Input_step_bwd HandleElementVecBwd_steps [OF ic]] fb by simp
    have fc: "\<not> m_Fwd c1" using i fb by (simp add: same_flags_def)
    have "ok \<and> s' = s1"
      using run bwd Inr r ok1 fc by (auto simp: HandleValidatedBlock_def split: if_splits)
    then show ?thesis using k o i by (simp add: algebra_simps)
  qed
qed

lemma VecFwd_prefix:
  assumes "HandleElementVecFwd h vs bic s = Inr (True, n, vs', bic', s')" and "i < length vs"
  shows "\<exists>vsi bi si v' b' s''. HandleElementVecFwd h (take i vs) bic s = Inr (True, i, vsi, bi, si)
          \<and> h (vs ! i) bi si = Inr (True, v', b', s'')"
  using assms
proof (induction vs arbitrary: i bic s n vs')
  case Nil
  then show ?case by simp
next
  case (Cons v vs)
  from VecFwd_Cons_D [OF Cons.prems(1)] obtain ok1 v1 bic1 s1 where
    h: "h v bic s = Inr (ok1, v1, bic1, s1)"
    and c: "if \<not> ok1 then \<not> True \<and> n = 0 \<and> vs' = v1 # vs \<and> bic' = bic1 \<and> s' = s1
            else \<exists>n2 vs2. HandleElementVecFwd h vs bic1 s1 = Inr (True, n2, vs2, bic', s')
                   \<and> n = Suc n2 \<and> vs' = v1 # vs2"
    by blast
  have ok1: ok1 using c by (cases ok1) auto
  then obtain n2 vs2 where t: "HandleElementVecFwd h vs bic1 s1 = Inr (True, n2, vs2, bic', s')"
    using c by auto
  show ?case
  proof (cases i)
    case 0
    then show ?thesis using h ok1 by simp
  next
    case (Suc j)
    then have "j < length vs" using Cons.prems(2) by simp
    from Cons.IH [OF t this] obtain vsj bj sj v' b' s'' where
      p: "HandleElementVecFwd h (take j vs) bic1 s1 = Inr (True, j, vsj, bj, sj)"
      and q: "h (vs ! j) bj sj = Inr (True, v', b', s'')" by blast
    have "HandleElementVecFwd h (take i (v # vs)) bic s = Inr (True, i, v1 # vsj, bj, sj)"
      using Suc h ok1 p by simp
    then show ?thesis using q Suc by simp
  qed
qed

lemma Output_fwd_id:
  assumes "m_Fwd bic" and "HandleBlockElement_Output e v bic s = Inr (True, v', bic', s')"
  shows "map_option fst (m_Utxos s' (outp_Commitment v, p_get_MinMaturity e v (m_Height bic)))
         = Some (m_Txos (m_Extra s))"
  using assms unfolding HandleBlockElement_Output_def Let_def
  by (auto simp: PushID_def split: if_splits prod.splits)

lemma assigned_TxoID_fwd:
  assumes fwd: "m_Fwd bic" and run: "HandleValidatedBlock e blk bic s = Inr (True, blk', bic', s')"
    and i: "i < length (m_vOutputs blk)"
  shows "assigned_TxoID e blk bic s i = Some (m_Txos (m_Extra s) + of_nat i)"
proof (cases "HandleValidatedTx e blk bic s")
  case (Inl x)
  then show ?thesis using run fwd by (simp add: HandleValidatedBlock_def)
next
  case (Inr r)
  obtain ok1 b1 c1 s1 where r: "r = (ok1, b1, c1, s1)" by (cases r) auto
  have ok1: ok1 using run fwd Inr r by (cases ok1) (auto simp: HandleValidatedBlock_def)
  from HandleValidatedTx_fwd_D [OF fwd Inr [unfolded r, simplified ok1 [THEN eqTrueI]]]
  obtain ins n0 b0 s0 outs n1 bb1 ss1 where
    ir: "HandleElementVecFwd (HandleBlockElement_Input e) (m_vInputs blk) bic s
          = Inr (True, n0, ins, b0, s0)"
    and o: "HandleElementVecFwd (HandleBlockElement_Output e) (m_vOutputs blk) b0 s0
          = Inr (True, n1, outs, bb1, ss1)"
    and f: "m_Fwd b0"
    by blast
  have x0: "m_Txos (m_Extra s0) = m_Txos (m_Extra s)"
    using VecFwd_txos [OF Input_step_fwd fwd ir] by simp
  from VecFwd_prefix [OF o i] obtain vsi bi si v' b' s'' where
    p: "HandleElementVecFwd (HandleBlockElement_Output e) (take i (m_vOutputs blk)) b0 s0
          = Inr (True, i, vsi, bi, si)"
    and q: "HandleBlockElement_Output e (m_vOutputs blk ! i) bi si = Inr (True, v', b', s'')"
    by blast
  have xi: "same_flags b0 bi \<and> m_Txos (m_Extra si) = m_Txos (m_Extra s0) + of_nat (length (take i (m_vOutputs blk)))"
    using VecFwd_txos [OF Output_step_fwd f p] by simp
  then have fi: "m_Fwd bi" using f by (simp add: same_flags_def)
  have li: "length (take i (m_vOutputs blk)) = i" using i by simp
  have "map_option fst
          (m_Utxos s'' (outp_Commitment (m_vOutputs blk ! i),
             p_get_MinMaturity e (m_vOutputs blk ! i) (m_Height bi)))
        = Some (m_Txos (m_Extra s) + of_nat i)"
    using Output_fwd_id [OF fi q] xi x0 li by simp
  then show ?thesis
    unfolding assigned_TxoID_def using ir p q by simp
qed

lemma chain_Txos_simps [simp]:
  "chain_Txos [] = 0"
  "chain_Txos (b # bs) = length (m_vOutputs (fst b)) + 1 + chain_Txos bs"
  "chain_Txos (xs @ ys) = chain_Txos xs + chain_Txos ys"
  by (simp_all add: chain_Txos_def)

lemma chain_Txos_take_mono: "m \<le> n \<Longrightarrow> chain_Txos (take m bs) \<le> chain_Txos (take n bs)"
proof -
  assume "m \<le> n"
  then have "take n bs = take m bs @ take (n - m) (drop m bs)"
    using take_add [of m "n - m" bs] by simp
  then show ?thesis by simp
qed

lemma chain_Txos_take_le: "chain_Txos (take n bs) \<le> chain_Txos bs"
proof -
  have "chain_Txos bs = chain_Txos (take n bs @ drop n bs)" by simp
  then show ?thesis by (simp only: chain_Txos_simps)
qed

lemma chain_Txos_take_Suc:
  "k < length bs \<Longrightarrow>
   chain_Txos (take (Suc k) bs) = chain_Txos (take k bs) + length (m_vOutputs (fst (bs ! k))) + 1"
  by (simp add: take_Suc_conv_app_nth)

lemma apply_blocks_append:
  "apply_blocks e (xs @ ys) s =
     (case apply_blocks e xs s of None \<Rightarrow> None | Some s1 \<Rightarrow> apply_blocks e ys s1)"
  by (induction xs arbitrary: s) (auto split: sum.splits prod.splits option.splits)

lemma apply_blocks_txos:
  assumes "\<forall>b \<in> set bs. m_Fwd (snd b)" and "apply_blocks e bs s = Some s'"
  shows "m_Txos (m_Extra s') = m_Txos (m_Extra s) + of_nat (chain_Txos bs)"
  using assms
proof (induction bs arbitrary: s)
  case Nil
  then show ?case by simp
next
  case (Cons b bs)
  from Cons.prems(2) obtain blk' bic' s1 where
    h: "HandleValidatedBlock e (fst b) (snd b) s = Inr (True, blk', bic', s1)"
    and t: "apply_blocks e bs s1 = Some s'"
    by (auto split: sum.splits prod.splits if_splits)
  have "m_Fwd (snd b)" using Cons.prems(1) by simp
  from HandleValidatedBlock_fwd_txos [OF this h]
  have x1: "m_Txos (m_Extra s1) = m_Txos (m_Extra s) + of_nat (length (m_vOutputs (fst b))) + 1" .
  have "m_Txos (m_Extra s') = m_Txos (m_Extra s1) + of_nat (chain_Txos bs)"
    using Cons.IH [OF _ t] Cons.prems(1) by simp
  then show ?case using x1 by simp
qed

lemma apply_blocks_nth:
  assumes "apply_blocks e bs s = Some s'" and "k < length bs"
  shows "\<exists>sk blk' bic' sk'. apply_blocks e (take k bs) s = Some sk
     \<and> HandleValidatedBlock e (fst (bs ! k)) (snd (bs ! k)) sk = Inr (True, blk', bic', sk')"
proof -
  have "bs = take k bs @ (bs ! k) # drop (Suc k) bs"
    using assms(2) by (simp add: id_take_nth_drop)
  then have "apply_blocks e (take k bs @ (bs ! k) # drop (Suc k) bs) s = Some s'"
    using assms(1) by simp
  then show ?thesis
    unfolding apply_blocks_append
    by (auto split: option.splits sum.splits prod.splits if_splits)
qed

lemma word64_of_nat_neq:
  fixes t :: "64 word"
  assumes "x < y" and "y < 2 ^ 64"
  shows "t + of_nat x \<noteq> t + of_nat y"
proof
  assume "t + of_nat x = t + of_nat y"
  then have "(of_nat x :: 64 word) = of_nat y" by simp
  then have "unat (of_nat x :: 64 word) = unat (of_nat y :: 64 word)" by simp
  then have "x mod 2 ^ 64 = y mod 2 ^ 64" by (simp add: unat_of_nat)
  then show False using assms by simp
qed

lemma chain_ids_distinct:
  assumes fwd: "\<forall>b \<in> set bs. m_Fwd (snd b)"
    and run: "apply_blocks e bs s = Some s'"
    and nowrap: "chain_Txos bs < 2 ^ 64"
    and ab: "a < b" "b < length bs"
    and i: "i < length (m_vOutputs (fst (bs ! a)))"
    and j: "j < length (m_vOutputs (fst (bs ! b)))"
  shows "\<exists>sa sb ida idb. apply_blocks e (take a bs) s = Some sa
     \<and> apply_blocks e (take b bs) s = Some sb
     \<and> assigned_TxoID e (fst (bs ! a)) (snd (bs ! a)) sa i = Some ida
     \<and> assigned_TxoID e (fst (bs ! b)) (snd (bs ! b)) sb j = Some idb
     \<and> ida \<noteq> idb"
proof -
  have a: "a < length bs" using ab by simp
  from apply_blocks_nth [OF run a] obtain sa blka bica sa' where
    pa: "apply_blocks e (take a bs) s = Some sa"
    and ha: "HandleValidatedBlock e (fst (bs ! a)) (snd (bs ! a)) sa = Inr (True, blka, bica, sa')"
    by blast
  from apply_blocks_nth [OF run ab(2)] obtain sb blkb bicb sb' where
    pb: "apply_blocks e (take b bs) s = Some sb"
    and hb: "HandleValidatedBlock e (fst (bs ! b)) (snd (bs ! b)) sb = Inr (True, blkb, bicb, sb')"
    by blast
  have fa: "m_Fwd (snd (bs ! a))" using fwd a by simp
  have fb: "m_Fwd (snd (bs ! b))" using fwd ab(2) by simp
  have fta: "\<forall>b \<in> set (take a bs). m_Fwd (snd b)" using fwd by (meson in_set_takeD)
  have ftb: "\<forall>x \<in> set (take b bs). m_Fwd (snd x)" using fwd by (meson in_set_takeD)
  have xa: "m_Txos (m_Extra sa) = m_Txos (m_Extra s) + of_nat (chain_Txos (take a bs))"
    using apply_blocks_txos [OF fta pa] .
  have xb: "m_Txos (m_Extra sb) = m_Txos (m_Extra s) + of_nat (chain_Txos (take b bs))"
    using apply_blocks_txos [OF ftb pb] .
  have ida: "assigned_TxoID e (fst (bs ! a)) (snd (bs ! a)) sa i
      = Some (m_Txos (m_Extra s) + of_nat (chain_Txos (take a bs) + i))"
    using assigned_TxoID_fwd [OF fa ha i] xa by simp
  have idb: "assigned_TxoID e (fst (bs ! b)) (snd (bs ! b)) sb j
      = Some (m_Txos (m_Extra s) + of_nat (chain_Txos (take b bs) + j))"
    using assigned_TxoID_fwd [OF fb hb j] xb by simp
  have "chain_Txos (take (Suc a) bs) \<le> chain_Txos (take b bs)"
    using ab(1) chain_Txos_take_mono [of "Suc a" b bs] by simp
  then have lt: "chain_Txos (take a bs) + i < chain_Txos (take b bs) + j"
    using chain_Txos_take_Suc [OF a] i by simp
  have "chain_Txos (take (Suc b) bs) \<le> chain_Txos bs" by (rule chain_Txos_take_le)
  then have "chain_Txos (take b bs) + j < 2 ^ 64"
    using chain_Txos_take_Suc [OF ab(2)] j nowrap by simp
  from word64_of_nat_neq [OF lt this]
  have "m_Txos (m_Extra s) + of_nat (chain_Txos (take a bs) + i)
      \<noteq> m_Txos (m_Extra s) + of_nat (chain_Txos (take b bs) + j)" .
  then show ?thesis using pa pb ida idb by simp
qed

lemma np_block1_simps:
  "m_Utxos np_block1 = [(\<lparr>m_X = 21, m_Y = 0\<rparr>, 1) \<mapsto> (0, [])]"
  "m_Txos (m_Extra np_block1) = 2"
  "db_Kernels (m_DB np_block1) = [(31, 1)]"
  by (simp_all add: np_block1_def)

lemma block_example_simps2:
  "m_vInputs block_example = []" "m_vOutputs block_example = [output_example]"
  "m_vKernels block_example = [kernel_example]"
  "block_example\<lparr>m_vInputs := []\<rparr> = block_example"
  by (simp_all add: block_example_def)

lemma ex_fwd_out:
  "m_Utxos s (\<lparr>m_X = 21, m_Y = 0\<rparr>, h) = None \<Longrightarrow>
   HandleBlockElement_Output env0 output_example (bic_block h) s
   = Inr (True, output_example, bic_block h,
          s\<lparr>m_Utxos := (m_Utxos s)((\<lparr>m_X = 21, m_Y = 0\<rparr>, h) \<mapsto> (m_Txos (m_Extra s), [])),
            m_Extra := (m_Extra s)\<lparr>m_Txos := m_Txos (m_Extra s) + 1\<rparr>\<rparr>)"
  unfolding HandleBlockElement_Output_def
  by (simp add: bic_block_simps Let_def Utxos_Find_def env0_simps get_MinMaturity0_def
      output_example_def ValidateAssetRange_def)

lemma ex_fwd_krn:
  "h < 5 \<Longrightarrow> 1 \<le> h \<Longrightarrow> HandleBlockElement_Kernel env0 kernel_example (bic_block h) s
   = Inr (True, kernel_example, bic_block h,
          s\<lparr>m_DB := (m_DB s)\<lparr>db_Kernels := (31, h) # db_Kernels (m_DB s)\<rparr>\<rparr>)"
  unfolding HandleBlockElement_Kernel_def
  by (simp add: bic_block_simps Let_def HeightGenesis_def kernel_example_def env0_simps
      HandleKernel_Subtype_def HandleKernel_Std_def InsertKernel_def not_le)

lemma ex_fwd_blk1:
  "HandleValidatedBlock env0 block_example (bic_block 1) np_empty
   = Inr (True, block_example, bic_block 1, np_block1)"
  unfolding HandleValidatedBlock_def HandleValidatedTx_def
  apply (simp add: bic_block_simps block_example_simps2 ex_fwd_out ex_fwd_krn np_empty_simps)
  apply (simp add: np_block1_def np_empty_simps)
  done

lemma ex_fwd_blk2:
  "HandleValidatedBlock env0 block_example (bic_block 2) np_block1
   = Inr (True, block_example, bic_block 2, np_block2)"
  unfolding HandleValidatedBlock_def HandleValidatedTx_def
  apply (simp add: bic_block_simps block_example_simps2 ex_fwd_out ex_fwd_krn np_block1_simps)
  apply (simp add: np_block1_def np_block2_def np_empty_simps)
  done

lemma ex_chain:
  "apply_blocks env0 [(block_example, bic_block 1), (block_example, bic_block 2)] np_empty
   = Some np_block2"
  by (simp add: ex_fwd_blk1 ex_fwd_blk2)

lemma np_block2_simps:
  "m_Txos (m_Extra np_block2) = 4"
  by (simp_all add: np_block2_def)

text \<open>
  Claim C9. A forward \<open>HandleValidatedBlock\<close> that succeeds adds the number of the
  block's outputs plus one to \<open>m_Extra.m_Txos\<close>, and the forward pass writes the
  TxoID \<open>m_Txos + i\<close> (the counter before the block) on the leaf of the block's
  \<open>i\<close>-th output. A backward \<open>HandleValidatedBlock\<close> returns only \<open>true\<close> and
  subtracts the same amount. So, for blocks applied one after the other, as long as
  the TxoIDs they consume are fewer than \<open>2^64\<close> (the counter does not wrap), an
  output of one block and an output of a later block are assigned different TxoIDs.
\<close>

theorem Txos_counter_and_TxoIDs:
  "(m_Fwd bic \<and> HandleValidatedBlock e blk bic s = Inr (True, blk', bic', s')
      \<longrightarrow> m_Txos (m_Extra s') = m_Txos (m_Extra s) + of_nat (length (m_vOutputs blk)) + 1
        \<and> (\<forall>i < length (m_vOutputs blk).
              assigned_TxoID e blk bic s i = Some (m_Txos (m_Extra s) + of_nat i)))
   \<and> (\<not> m_Fwd bic \<and> HandleValidatedBlock e blk bic s = Inr (ok, blk', bic', s')
      \<longrightarrow> ok \<and> m_Txos (m_Extra s') = m_Txos (m_Extra s) - of_nat (length (m_vOutputs blk)) - 1)
   \<and> ((\<forall>x \<in> set bs. m_Fwd (snd x)) \<and> apply_blocks e bs s = Some sz \<and> chain_Txos bs < 2 ^ 64
        \<and> a < b \<and> b < length bs
        \<and> i < length (m_vOutputs (fst (bs ! a))) \<and> j < length (m_vOutputs (fst (bs ! b)))
      \<longrightarrow> (\<exists>sa sb ida idb. apply_blocks e (take a bs) s = Some sa
             \<and> apply_blocks e (take b bs) s = Some sb
             \<and> assigned_TxoID e (fst (bs ! a)) (snd (bs ! a)) sa i = Some ida
             \<and> assigned_TxoID e (fst (bs ! b)) (snd (bs ! b)) sb j = Some idb
             \<and> ida \<noteq> idb))"
proof -
  have p1: "m_Txos (m_Extra s') = m_Txos (m_Extra s) + of_nat (length (m_vOutputs blk)) + 1
        \<and> (\<forall>i < length (m_vOutputs blk).
              assigned_TxoID e blk bic s i = Some (m_Txos (m_Extra s) + of_nat i))"
    if "m_Fwd bic \<and> HandleValidatedBlock e blk bic s = Inr (True, blk', bic', s')"
    using that HandleValidatedBlock_fwd_txos assigned_TxoID_fwd by blast
  have p2: "ok \<and> m_Txos (m_Extra s') = m_Txos (m_Extra s) - of_nat (length (m_vOutputs blk)) - 1"
    if "\<not> m_Fwd bic \<and> HandleValidatedBlock e blk bic s = Inr (ok, blk', bic', s')"
    using that HandleValidatedBlock_bwd_txos by blast
  have p3: "\<exists>sa sb ida idb. apply_blocks e (take a bs) s = Some sa
             \<and> apply_blocks e (take b bs) s = Some sb
             \<and> assigned_TxoID e (fst (bs ! a)) (snd (bs ! a)) sa i = Some ida
             \<and> assigned_TxoID e (fst (bs ! b)) (snd (bs ! b)) sb j = Some idb
             \<and> ida \<noteq> idb"
    if "(\<forall>x \<in> set bs. m_Fwd (snd x)) \<and> apply_blocks e bs s = Some sz \<and> chain_Txos bs < 2 ^ 64
        \<and> a < b \<and> b < length bs
        \<and> i < length (m_vOutputs (fst (bs ! a))) \<and> j < length (m_vOutputs (fst (bs ! b)))"
    using that chain_ids_distinct [of bs e s sz a b i j] by blast
  show ?thesis using p1 p2 p3 by blast
qed

theorem Txos_counter_and_TxoIDs_witness:
  "m_Fwd (bic_block 1)
   \<and> HandleValidatedBlock env0 block_example (bic_block 1) np_empty
       = Inr (True, block_example, bic_block 1, np_block1)
   \<and> m_Txos (m_Extra np_block1) = m_Txos (m_Extra np_empty) + of_nat (length (m_vOutputs block_example)) + 1
   \<and> assigned_TxoID env0 block_example (bic_block 1) np_empty 0 = Some 0
   \<and> \<not> m_Fwd (bic_bwd 1)
   \<and> HandleValidatedBlock env0 block_example (bic_bwd 1) np_block1
       = Inr (True, block_example, bic_bwd 1, np_empty)
   \<and> m_Txos (m_Extra np_empty) = m_Txos (m_Extra np_block1) - of_nat (length (m_vOutputs block_example)) - 1
   \<and> apply_blocks env0 [(block_example, bic_block 1), (block_example, bic_block 2)] np_empty
       = Some np_block2
   \<and> chain_Txos [(block_example, bic_block 1), (block_example, bic_block 2)] < 2 ^ 64
   \<and> assigned_TxoID env0 block_example (bic_block 2) np_block1 0 = Some 2"
proof -
  let ?bs = "[(block_example, bic_block 1), (block_example, bic_block 2)]"
  have f1: "m_Fwd (bic_block 1)" by (simp add: bic_block_simps)
  have b1: "\<not> m_Fwd (bic_bwd 1)" by (simp add: bic_bwd_simps)
  have c1: "m_Txos (m_Extra np_block1) = m_Txos (m_Extra np_empty) + of_nat (length (m_vOutputs block_example)) + 1
        \<and> (\<forall>i < length (m_vOutputs block_example).
              assigned_TxoID env0 block_example (bic_block 1) np_empty i = Some (m_Txos (m_Extra np_empty) + of_nat i))"
    using Txos_counter_and_TxoIDs [where bic = "bic_block 1" and e = env0 and blk = block_example
        and s = np_empty and blk' = block_example and bic' = "bic_block 1" and s' = np_block1]
      f1 ex_fwd_blk1 by blast
  then have id1: "assigned_TxoID env0 block_example (bic_block 1) np_empty 0 = Some 0"
    by (simp add: block_example_simps2 np_empty_simps)
  have c2: "m_Txos (m_Extra np_empty) = m_Txos (m_Extra np_block1) - of_nat (length (m_vOutputs block_example)) - 1"
    using Txos_counter_and_TxoIDs [where bic = "bic_bwd 1" and e = env0 and blk = block_example
        and s = np_block1 and blk' = block_example and bic' = "bic_bwd 1" and s' = np_empty
        and ok = True]
      b1 ex_blk by blast
  have all: "\<forall>x \<in> set ?bs. m_Fwd (snd x)" by (simp add: bic_block_simps)
  have nw: "chain_Txos ?bs < 2 ^ 64" by (simp add: block_example_simps2)
  have idx: "(0::nat) < 1 \<and> 1 < length ?bs
        \<and> 0 < length (m_vOutputs (fst (?bs ! 0))) \<and> 0 < length (m_vOutputs (fst (?bs ! 1)))"
    by (simp add: block_example_simps2)
  have "\<exists>sa sb ida idb. apply_blocks env0 (take 0 ?bs) np_empty = Some sa
             \<and> apply_blocks env0 (take 1 ?bs) np_empty = Some sb
             \<and> assigned_TxoID env0 (fst (?bs ! 0)) (snd (?bs ! 0)) sa 0 = Some ida
             \<and> assigned_TxoID env0 (fst (?bs ! 1)) (snd (?bs ! 1)) sb 0 = Some idb
             \<and> ida \<noteq> idb"
    using Txos_counter_and_TxoIDs [where e = env0 and bs = ?bs and s = np_empty and sz = np_block2
        and a = 0 and b = 1 and i = 0 and j = 0]
      all ex_chain nw idx by blast
  then obtain idb where "assigned_TxoID env0 block_example (bic_block 2) np_block1 0 = Some idb"
    by (auto simp: ex_fwd_blk1)
  moreover have "assigned_TxoID env0 block_example (bic_block 2) np_block1 0
      = Some (m_Txos (m_Extra np_block1) + of_nat 0)"
    using Txos_counter_and_TxoIDs [where bic = "bic_block 2" and e = env0 and blk = block_example
        and s = np_block1 and blk' = block_example and bic' = "bic_block 2" and s' = np_block2]
      ex_fwd_blk2 by (simp add: bic_block_simps block_example_simps2)
  ultimately have id2: "assigned_TxoID env0 block_example (bic_block 2) np_block1 0 = Some 2"
    by (simp add: np_block1_simps)
  show ?thesis using f1 ex_fwd_blk1 c1 id1 b1 ex_blk c2 ex_chain nw id2 by blast
qed

section \<open>Backward failure is corruption\<close>

lemma steps_ok_Nil_iff [simp]: "steps_ok h [] a c \<longleftrightarrow> a = c"
  by (auto elim: steps_ok.cases intro: steps_ok.intros)

lemma steps_ok_Cons_iff:
  "steps_ok h (v # vs) (bic, s) c
   \<longleftrightarrow> (\<exists>v' b1 s1. h v bic s = Inr (True, v', b1, s1) \<and> steps_ok h vs (b1, s1) c)"
  by (auto elim: steps_ok.cases intro: steps_ok.intros)

lemma steps_ok_append_iff:
  "steps_ok h (xs @ ys) a c \<longleftrightarrow> (\<exists>b. steps_ok h xs a b \<and> steps_ok h ys b c)"
proof (induction xs arbitrary: a)
  case Nil
  then show ?case by simp
next
  case (Cons x xs)
  obtain bic s where a: "a = (bic, s)" by (cases a) auto
  show ?case unfolding a by (simp add: steps_ok_Cons_iff Cons.IH) blast
qed

lemma NestedBwd_eq_VecBwd:
  "HandleKernel_NestedBwd e ks n bic s = HandleElementVecBwd (HandleKernel_elem e) ks n bic s"
proof (induction ks arbitrary: n)
  case Nil
  then show ?case by simp
next
  case (Cons k ks)
  show ?case
    by (simp add: Cons.IH HandleKernel_elem_def split: sum.splits prod.splits)
qed

lemma VecBwd_iff:
  "(HandleElementVecBwd h vs n bic s = Inr r) = steps_ok h (rev (take n vs)) (bic, s) r"
proof
  assume "HandleElementVecBwd h vs n bic s = Inr r"
  then show "steps_ok h (rev (take n vs)) (bic, s) r" by (rule HandleElementVecBwd_steps)
next
  assume "steps_ok h (rev (take n vs)) (bic, s) r"
  then show "HandleElementVecBwd h vs n bic s = Inr r"
  proof (induction vs arbitrary: n r)
    case Nil
    then show ?case by simp
  next
    case (Cons v vs)
    show ?case
    proof (cases "n = 0")
      case True
      then show ?thesis using Cons.prems by simp
    next
      case False
      have "rev (take n (v # vs)) = rev (take (n - 1) vs) @ [v]"
        using False by (cases n) auto
      then obtain b where b: "steps_ok h (rev (take (n - 1) vs)) (bic, s) b"
        and l: "steps_ok h [v] b r"
        using Cons.prems by (auto simp: steps_ok_append_iff)
      obtain b1 s1 where b1: "b = (b1, s1)" by (cases b) auto
      obtain v' b2 s2 where hv: "h v b1 s1 = Inr (True, v', b2, s2)" and r: "r = (b2, s2)"
        using l unfolding b1 by (auto simp: steps_ok_Cons_iff)
      have "HandleElementVecBwd h vs (n - 1) bic s = Inr (b1, s1)"
        using Cons.IH [OF b] b1 by simp
      then show ?thesis using False hv r by simp
    qed
  qed
qed

lemma VecBwd_fail:
  assumes "i < n" and "i < length vs"
    and "steps_ok h (rev (drop (Suc i) (take n vs))) (bic, s) (bi, si)"
    and "h (vs ! i) bi si = Inr (False, v', b', s'')"
  shows "HandleElementVecBwd h vs n bic s = Inl Corrupted"
  using assms
proof (induction vs arbitrary: n i)
  case Nil
  then show ?case by simp
next
  case (Cons v vs)
  have n: "n \<noteq> 0" using Cons.prems(1) by simp
  have tk: "take n (v # vs) = v # take (n - 1) vs" using n by (cases n) auto
  show ?case
  proof (cases i)
    case 0
    have "steps_ok h (rev (take (n - 1) vs)) (bic, s) (bi, si)"
      using Cons.prems(3) 0 tk by simp
    then have "HandleElementVecBwd h vs (n - 1) bic s = Inr (bi, si)"
      by (simp add: VecBwd_iff)
    then show ?thesis using n Cons.prems(4) 0 by simp
  next
    case (Suc j)
    have "HandleElementVecBwd h vs (n - 1) bic s = Inl Corrupted"
    proof (rule Cons.IH [of j "n - 1"])
      show "j < n - 1" using Cons.prems(1) Suc by simp
      show "j < length vs" using Cons.prems(2) Suc by simp
      show "steps_ok h (rev (drop (Suc j) (take (n - 1) vs))) (bic, s) (bi, si)"
        using Cons.prems(3) Suc tk by simp
      show "h (vs ! j) bi si = Inr (False, v', b', s'')"
        using Cons.prems(4) Suc by simp
    qed
    then show ?thesis using n by simp
  qed
qed

lemma HandleKernel_bwd_subtype_fails:
  assumes "\<not> m_Fwd bic" and "HandleKernel_Subtype e d bic s = Inr (False, b2, s2)"
  shows "HandleKernel e (TxKernel kid nested d) bic s = Inl Corrupted"
proof -
  have "\<not> m_Fwd b2" using Subtype_flags [OF assms(2)] assms(1) by (simp add: same_flags_def)
  then show ?thesis using assms by simp
qed

lemma HandleKernel_bwd_D:
  assumes bwd: "\<not> m_Fwd bic"
    and run: "HandleKernel e (TxKernel kid nested d) bic s = Inr (ok, bic', s')"
  shows "ok \<and> (\<exists>b2 s2. HandleKernel_Subtype e d bic s = Inr (True, b2, s2)
            \<and> (if m_ValidateOnly b2 then bic' = b2 \<and> s' = s2
               else HandleKernel_NestedBwd e nested (length nested) b2 s2 = Inr (bic', s')))"
proof (cases "HandleKernel_Subtype e d bic s")
  case (Inl x)
  then show ?thesis using run bwd by simp
next
  case (Inr r)
  obtain ok2 b2 s2 where r: "r = (ok2, b2, s2)" by (cases r) auto
  have f: "\<not> m_Fwd b2" using Subtype_flags [OF Inr [unfolded r]] bwd by (simp add: same_flags_def)
  have ok2: ok2 using run bwd Inr r f by (cases ok2) auto
  show ?thesis
    using run bwd Inr r f ok2 by (auto split: sum.splits if_splits)
qed

lemma HandleBlockElement_Kernel_bwd_D:
  assumes bwd: "\<not> m_Fwd bic"
    and run: "HandleBlockElement_Kernel e k bic s = Inr (ok, k', bic', s')"
  shows "ok \<and> k' = k \<and> (\<exists>db1.
      (if HeightGenesis \<le> m_Height bic \<and> m_SaveKid bic
       then DeleteKernel (krn_ID k) (m_Height bic) (m_DB s) else Inr (m_DB s)) = Inr db1
    \<and> HandleKernel e k bic (s\<lparr>m_DB := db1\<rparr>) = Inr (True, bic', s'))"
proof -
  let ?del = "(if HeightGenesis \<le> m_Height bic \<and> m_SaveKid bic
       then DeleteKernel (krn_ID k) (m_Height bic) (m_DB s) else Inr (m_DB s))"
  show ?thesis
  proof (cases ?del)
    case (Inl x)
    then show ?thesis using run bwd unfolding HandleBlockElement_Kernel_def
      by (simp add: Let_def)
  next
    case (Inr db1)
    show ?thesis
    proof (cases "HandleKernel e k bic (s\<lparr>m_DB := db1\<rparr>)")
      case (Inl x)
      then show ?thesis using run bwd Inr unfolding HandleBlockElement_Kernel_def
        by (simp add: Let_def)
    next
      case r: (Inr r)
      obtain ok1 b1 s1 where r1: "r = (ok1, b1, s1)" by (cases r) auto
      have ok1: ok1 using HandleKernel_bwd_True [OF bwd r [unfolded r1]] .
      have f: "\<not> m_Fwd b1" using HandleKernel_flags [OF r [unfolded r1]] bwd
        by (simp add: same_flags_def)
      have "ok \<and> k' = k \<and> bic' = b1 \<and> s' = s1"
        using run bwd Inr r r1 ok1 f unfolding HandleBlockElement_Kernel_def
        by (auto simp: Let_def)
      then show ?thesis using Inr r r1 ok1 by simp
    qed
  qed
qed

lemma HandleValidatedTx_bwd_flags:
  assumes bwd: "\<not> m_Fwd bic" and run: "HandleValidatedTx e txv bic s = Inr (ok, txv', bic', s')"
  shows "\<not> m_Fwd bic'"
proof -
  from HandleValidatedTx_bwd_D [OF bwd run] obtain a b where
    ka0: "HandleElementVecBwd (HandleBlockElement_Kernel e) (m_vKernels txv)
              (length (m_vKernels txv)) bic s = Inr a"
    and ob0: "HandleElementVecBwd (HandleBlockElement_Output e) (m_vOutputs txv)
              (length (m_vOutputs txv)) (fst a) (snd a) = Inr b"
    and ic0: "HandleElementVecBwd (HandleBlockElement_Input e) (m_vInputs txv)
              (length (m_vInputs txv)) (fst b) (snd b) = Inr (bic', s')"
    by blast
  obtain ba sa where a: "a = (ba, sa)" by (cases a) auto
  obtain bb sb where b: "b = (bb, sb)" by (cases b) auto
  have k: "same_flags bic ba"
    using steps_ok_txos [OF Kernel_step_bwd HandleElementVecBwd_steps [OF ka0 [unfolded a]]] bwd
    by simp
  then have fa: "\<not> m_Fwd ba" using bwd by (simp add: same_flags_def)
  have "HandleElementVecBwd (HandleBlockElement_Output e) (m_vOutputs txv)
              (length (m_vOutputs txv)) ba sa = Inr (bb, sb)"
    using ob0 a b by simp
  then have "same_flags ba bb"
    using steps_ok_txos [OF Output_step_bwd HandleElementVecBwd_steps] fa by fastforce
  then have fb: "\<not> m_Fwd bb" using fa by (simp add: same_flags_def)
  have "HandleElementVecBwd (HandleBlockElement_Input e) (m_vInputs txv)
              (length (m_vInputs txv)) bb sb = Inr (bic', s')"
    using ic0 b by simp
  then have "same_flags bb bic'"
    using steps_ok_txos [OF Input_step_bwd HandleElementVecBwd_steps] fb by fastforce
  then show ?thesis using fb by (simp add: same_flags_def)
qed

lemma HandleValidatedBlock_bwd_full:
  assumes bwd: "\<not> m_Fwd bic" and run: "HandleValidatedBlock e blk bic s = Inr (ok, blk', bic', s')"
  shows "ok \<and> HandleValidatedTx e blk bic
            (s\<lparr>m_Extra := (m_Extra s)\<lparr>m_Txos := m_Txos (m_Extra s) - 1\<rparr>\<rparr>)
          = Inr (True, blk', bic', s')
      \<and> m_Txos (m_Extra s') = m_Txos (m_Extra s) - of_nat (length (m_vOutputs blk)) - 1"
proof -
  let ?s0 = "s\<lparr>m_Extra := (m_Extra s)\<lparr>m_Txos := m_Txos (m_Extra s) - 1\<rparr>\<rparr>"
  show ?thesis
  proof (cases "HandleValidatedTx e blk bic ?s0")
    case (Inl x)
    then show ?thesis using run bwd by (simp add: HandleValidatedBlock_def)
  next
    case (Inr r)
    obtain ok1 b1 c1 s1 where r: "r = (ok1, b1, c1, s1)" by (cases r) auto
    have ok1: ok1 using HandleValidatedTx_bwd_D [OF bwd Inr [unfolded r]] by simp
    have fc: "\<not> m_Fwd c1" using HandleValidatedTx_bwd_flags [OF bwd Inr [unfolded r]] .
    have "ok \<and> s' = s1 \<and> blk' = b1 \<and> bic' = c1"
      using run bwd Inr r ok1 fc by (auto simp: HandleValidatedBlock_def split: if_splits)
    then show ?thesis
      using HandleValidatedBlock_bwd_txos [OF bwd run] Inr r ok1 by simp
  qed
qed

lemma RollbackTo_Inputs_iff:
  "(RollbackTo_Inputs e id0 inps bic s = Inr r)
   = steps_ok (HandleBlockElement_Input e) (filter (\<lambda>v. inp_ID v < id0) inps) (bic, s) r"
proof (induction inps arbitrary: bic s)
  case Nil
  then show ?case by auto
next
  case (Cons inp v)
  show ?case
  proof (cases "id0 \<le> inp_ID inp")
    case True
    then show ?thesis using Cons.IH by (simp add: not_less [symmetric])
  next
    case False
    then have lt: "inp_ID inp < id0" by simp
    show ?thesis
    proof (cases "HandleBlockElement_Input e inp bic s")
      case (Inl x)
      then show ?thesis using False lt by (simp add: steps_ok_Cons_iff)
    next
      case (Inr q)
      obtain ok1 v1 b1 s1 where q: "q = (ok1, v1, b1, s1)" by (cases q) auto
      show ?thesis using False lt Inr q Cons.IH by (cases ok1) (simp_all add: steps_ok_Cons_iff)
    qed
  qed
qed

lemma RollbackTo_UndoInputs_D:
  assumes "h < su_Height st" and "RollbackTo_UndoInputs e h id0 (st # path) s = Inr s'"
  shows "\<exists>b1 s1. steps_ok (HandleBlockElement_Input e)
            (filter (\<lambda>v. inp_ID v < id0) (su_Inputs st))
            (BlockInterpretCtx_new e (su_Height st) False, s) (b1, s1)
         \<and> RollbackTo_UndoInputs e h id0 path s1 = Inr s'"
  using assms
  by (auto simp: RollbackTo_Inputs_iff [symmetric] split: sum.splits)

lemma RollbackTo_UndoOutputs_D:
  assumes "RollbackTo_UndoOutputs e (x # txos) s = Inr s'"
  shows "\<exists>v' b' s1. HandleBlockElement_Output e (snd x) (BlockInterpretCtx_new e (fst x) False) s
            = Inr (True, v', b', s1)
         \<and> RollbackTo_UndoOutputs e txos s1 = Inr s'"
  using assms by (auto split: sum.splits if_splits)

lemma RollbackTo_UndoKernels_D:
  assumes "h < su_Height st" and "RollbackTo_UndoKernels e h (st # path) s = Inr s'"
  shows "\<exists>b1 s1. steps_ok (HandleBlockElement_Kernel e) (rev (su_Kernels st))
            (RollbackTo_bic e st, s) (b1, s1)
         \<and> RollbackTo_UndoKernels e h path s1 = Inr s'"
proof -
  from assms obtain b1 s1 where
    v: "HandleElementVecBwd (HandleBlockElement_Kernel e) (su_Kernels st)
               (length (su_Kernels st)) (RollbackTo_bic e st) s = Inr (b1, s1)"
    and r: "RollbackTo_UndoKernels e h path s1 = Inr s'"
    by (auto split: sum.splits)
  have "steps_ok (HandleBlockElement_Kernel e) (rev (su_Kernels st)) (RollbackTo_bic e st, s) (b1, s1)"
    using HandleElementVecBwd_steps [OF v] by simp
  then show ?thesis using r by blast
qed

lemma RollbackTo_D:
  assumes "RollbackTo e h rb s = Inr s'" and "h \<noteq> sid_Height (cur_Sid (m_Cursor s))"
  shows "\<exists>s1 s2 s3. RollbackTo_UndoInputs e h (rb_id0 rb) (rb_Path rb) s = Inr s1
       \<and> RollbackTo_UndoOutputs e (rb_Txos rb) s1 = Inr s2
       \<and> RollbackTo_UndoKernels e h (rb_Path rb) s2 = Inr s3
       \<and> m_Utxos s' = m_Utxos s3 \<and> m_DB s' = m_DB s3
       \<and> m_Txos (m_Extra s') = rb_id0 rb \<and> m_Cursor s' = rb_Cursor rb
       \<and> TestDefinition (rb_Definition rb) s'"
  using assms unfolding RollbackTo_def Let_def
  by (auto split: sum.splits if_splits)

lemma HandleKernel_bwd_nested_raises:
  assumes "\<not> m_Fwd bic" and "HandleKernel_Subtype e d bic s = Inr (True, bS, sS)"
    and "\<not> m_ValidateOnly bS"
    and "HandleKernel_NestedBwd e nested (length nested) bS sS = Inl x"
  shows "HandleKernel e (TxKernel kid nested d) bic s = Inl x"
proof -
  have "\<not> m_Fwd bS" using Subtype_flags [OF assms(2)] assms(1) by (simp add: same_flags_def)
  then show ?thesis using assms by simp
qed

lemma NestedBwd_raises:
  assumes "n \<noteq> 0" and "HandleKernel_NestedBwd e ks (n - 1) bic s = Inr (bN, sN)"
    and "HandleKernel e k bN sN = Inl x"
  shows "HandleKernel_NestedBwd e (k # ks) n bic s = Inl x"
  using assms by simp

text \<open>
  Claim C10. Backward (\<open>m_Fwd\<close> clear) a failure never comes back as a result.
  \<^item> \<open>HandleKernel\<close>: when the handler of the subtype returns \<open>false\<close> the dispatcher
    raises the corruption exception; an exception of the loop over the nested
    kernels is passed on; when the dispatcher returns, it returns \<open>true\<close>, the handler
    of the subtype returned \<open>true\<close> and all nested kernels were handled after it.
  \<^item> The loop over the nested kernels is \<open>HandleElementVecBwd\<close> on \<open>HandleKernel\<close>, and
    an exception of a nested kernel is passed on.
  \<^item> \<open>HandleElementVecBwd\<close> returns exactly when the handler returned \<open>true\<close> on each
    of the \<open>n\<close> elements, the last one first; when the handler returns \<open>false\<close> on an
    element after it returned \<open>true\<close> on those behind it, the loop raises the
    corruption exception.
  \<^item> \<open>HandleBlockElement\<close> of a kernel returns only \<open>true\<close>, after the kernel ID was
    deleted and \<open>HandleKernel\<close> returned \<open>true\<close>.
  \<^item> \<open>HandleValidatedTx\<close> and \<open>HandleValidatedBlock\<close> return only \<open>true\<close>, after the
    handlers returned \<open>true\<close> on all kernels, then all outputs, then all inputs, each
    vector from its end; the block then took the number of its outputs plus one from
    the counter of TxoIDs.
  \<^item> \<open>RollbackTo\<close> returns only after the three undo loops returned and the
    definition test passed; each undo loop goes on only after the handler returned
    \<open>true\<close>.
  Every other outcome is an exception.
\<close>

theorem backward_failure_is_corruption:
  "(\<not> m_Fwd bic \<and> HandleKernel_Subtype e d bic s = Inr (False, bS, sS)
      \<longrightarrow> HandleKernel e (TxKernel kid nested d) bic s = Inl Corrupted)
   \<and> (\<not> m_Fwd bic \<and> HandleKernel_Subtype e d bic s = Inr (True, bS, sS)
        \<and> \<not> m_ValidateOnly bS
        \<and> HandleKernel_NestedBwd e nested (length nested) bS sS = Inl x
      \<longrightarrow> HandleKernel e (TxKernel kid nested d) bic s = Inl x)
   \<and> (\<not> m_Fwd bic \<and> HandleKernel e (TxKernel kid nested d) bic s = Inr (ok, bic', s')
      \<longrightarrow> ok \<and> (\<exists>bT sT. HandleKernel_Subtype e d bic s = Inr (True, bT, sT)
            \<and> (if m_ValidateOnly bT then bic' = bT \<and> s' = sT
               else HandleKernel_NestedBwd e nested (length nested) bT sT = Inr (bic', s'))))
   \<and> HandleKernel_NestedBwd e ks n bic s = HandleElementVecBwd (HandleKernel_elem e) ks n bic s
   \<and> (n \<noteq> 0 \<and> HandleKernel_NestedBwd e ks (n - 1) bic s = Inr (bN, sN)
        \<and> HandleKernel e k bN sN = Inl x
      \<longrightarrow> HandleKernel_NestedBwd e (k # ks) n bic s = Inl x)
   \<and> (HandleElementVecBwd h vs n bic s = Inr r) = steps_ok h (rev (take n vs)) (bic, s) r
   \<and> (i < n \<and> i < length vs
        \<and> steps_ok h (rev (drop (Suc i) (take n vs))) (bic, s) (bi, si)
        \<and> h (vs ! i) bi si = Inr (False, v', b', s'')
      \<longrightarrow> HandleElementVecBwd h vs n bic s = Inl Corrupted)
   \<and> (\<not> m_Fwd bic \<and> HandleBlockElement_Kernel e k bic s = Inr (ok, k', bic', s')
      \<longrightarrow> ok \<and> k' = k \<and> (\<exists>db.
            (if HeightGenesis \<le> m_Height bic \<and> m_SaveKid bic
             then DeleteKernel (krn_ID k) (m_Height bic) (m_DB s) else Inr (m_DB s)) = Inr db
          \<and> HandleKernel e k bic (s\<lparr>m_DB := db\<rparr>) = Inr (True, bic', s')))
   \<and> (\<not> m_Fwd bic \<and> HandleValidatedTx e txv bic s = Inr (ok, txv', bic', s')
      \<longrightarrow> ok \<and> (\<exists>a b.
            steps_ok (HandleBlockElement_Kernel e) (rev (m_vKernels txv)) (bic, s) a
          \<and> steps_ok (HandleBlockElement_Output e) (rev (m_vOutputs txv)) a b
          \<and> steps_ok (HandleBlockElement_Input e) (rev (m_vInputs txv)) b (bic', s')))
   \<and> (\<not> m_Fwd bic \<and> HandleValidatedBlock e txv bic s = Inr (ok, txv', bic', s')
      \<longrightarrow> ok
        \<and> HandleValidatedTx e txv bic
              (s\<lparr>m_Extra := (m_Extra s)\<lparr>m_Txos := m_Txos (m_Extra s) - 1\<rparr>\<rparr>)
            = Inr (True, txv', bic', s')
        \<and> m_Txos (m_Extra s') = m_Txos (m_Extra s) - of_nat (length (m_vOutputs txv)) - 1)
   \<and> (RollbackTo e hTo rb s = Inr sr \<and> hTo \<noteq> sid_Height (cur_Sid (m_Cursor s))
      \<longrightarrow> (\<exists>sa sb sc. RollbackTo_UndoInputs e hTo (rb_id0 rb) (rb_Path rb) s = Inr sa
            \<and> RollbackTo_UndoOutputs e (rb_Txos rb) sa = Inr sb
            \<and> RollbackTo_UndoKernels e hTo (rb_Path rb) sb = Inr sc
            \<and> m_Utxos sr = m_Utxos sc \<and> m_DB sr = m_DB sc
            \<and> m_Txos (m_Extra sr) = rb_id0 rb \<and> m_Cursor sr = rb_Cursor rb
            \<and> TestDefinition (rb_Definition rb) sr))
   \<and> (RollbackTo_Inputs e idz inps bic s = Inr r)
       = steps_ok (HandleBlockElement_Input e) (filter (\<lambda>v. inp_ID v < idz) inps) (bic, s) r
   \<and> (hTo < su_Height st \<and> RollbackTo_UndoInputs e hTo idz (st # path) s = Inr sr
      \<longrightarrow> (\<exists>bA sA. steps_ok (HandleBlockElement_Input e)
                (filter (\<lambda>v. inp_ID v < idz) (su_Inputs st))
                (BlockInterpretCtx_new e (su_Height st) False, s) (bA, sA)
             \<and> RollbackTo_UndoInputs e hTo idz path sA = Inr sr))
   \<and> (RollbackTo_UndoOutputs e (tx # txos) s = Inr sr
      \<longrightarrow> (\<exists>vO bO sO. HandleBlockElement_Output e (snd tx) (BlockInterpretCtx_new e (fst tx) False) s
                = Inr (True, vO, bO, sO)
             \<and> RollbackTo_UndoOutputs e txos sO = Inr sr))
   \<and> (hTo < su_Height st \<and> RollbackTo_UndoKernels e hTo (st # path) s = Inr sr
      \<longrightarrow> (\<exists>bK sK. steps_ok (HandleBlockElement_Kernel e) (rev (su_Kernels st))
                (RollbackTo_bic e st, s) (bK, sK)
             \<and> RollbackTo_UndoKernels e hTo path sK = Inr sr))"
proof -
  have p1: "HandleKernel e (TxKernel kid nested d) bic s = Inl Corrupted"
    if "\<not> m_Fwd bic \<and> HandleKernel_Subtype e d bic s = Inr (False, bS, sS)"
    using that HandleKernel_bwd_subtype_fails by blast
  have p2: "HandleKernel e (TxKernel kid nested d) bic s = Inl x"
    if "\<not> m_Fwd bic \<and> HandleKernel_Subtype e d bic s = Inr (True, bS, sS)
        \<and> \<not> m_ValidateOnly bS
        \<and> HandleKernel_NestedBwd e nested (length nested) bS sS = Inl x"
    using that HandleKernel_bwd_nested_raises by blast
  have p3: "ok \<and> (\<exists>bT sT. HandleKernel_Subtype e d bic s = Inr (True, bT, sT)
            \<and> (if m_ValidateOnly bT then bic' = bT \<and> s' = sT
               else HandleKernel_NestedBwd e nested (length nested) bT sT = Inr (bic', s')))"
    if "\<not> m_Fwd bic \<and> HandleKernel e (TxKernel kid nested d) bic s = Inr (ok, bic', s')"
    using that HandleKernel_bwd_D by blast
  have p4: "HandleKernel_NestedBwd e ks n bic s = HandleElementVecBwd (HandleKernel_elem e) ks n bic s"
    by (rule NestedBwd_eq_VecBwd)
  have p5: "HandleKernel_NestedBwd e (k # ks) n bic s = Inl x"
    if "n \<noteq> 0 \<and> HandleKernel_NestedBwd e ks (n - 1) bic s = Inr (bN, sN)
        \<and> HandleKernel e k bN sN = Inl x"
    using that NestedBwd_raises by blast
  have p6: "(HandleElementVecBwd h vs n bic s = Inr r) = steps_ok h (rev (take n vs)) (bic, s) r"
    by (rule VecBwd_iff)
  have p7: "HandleElementVecBwd h vs n bic s = Inl Corrupted"
    if "i < n \<and> i < length vs
        \<and> steps_ok h (rev (drop (Suc i) (take n vs))) (bic, s) (bi, si)
        \<and> h (vs ! i) bi si = Inr (False, v', b', s'')"
  proof -
    from that have a: "i < n" and b: "i < length vs"
      and c: "steps_ok h (rev (drop (Suc i) (take n vs))) (bic, s) (bi, si)"
      and d: "h (vs ! i) bi si = Inr (False, v', b', s'')" by auto
    show ?thesis by (rule VecBwd_fail [OF a b c d])
  qed
  have p8: "ok \<and> k' = k \<and> (\<exists>db.
            (if HeightGenesis \<le> m_Height bic \<and> m_SaveKid bic
             then DeleteKernel (krn_ID k) (m_Height bic) (m_DB s) else Inr (m_DB s)) = Inr db
          \<and> HandleKernel e k bic (s\<lparr>m_DB := db\<rparr>) = Inr (True, bic', s'))"
    if "\<not> m_Fwd bic \<and> HandleBlockElement_Kernel e k bic s = Inr (ok, k', bic', s')"
    using that HandleBlockElement_Kernel_bwd_D by blast
  have p9: "ok \<and> (\<exists>a b.
            steps_ok (HandleBlockElement_Kernel e) (rev (m_vKernels txv)) (bic, s) a
          \<and> steps_ok (HandleBlockElement_Output e) (rev (m_vOutputs txv)) a b
          \<and> steps_ok (HandleBlockElement_Input e) (rev (m_vInputs txv)) b (bic', s'))"
    if t: "\<not> m_Fwd bic \<and> HandleValidatedTx e txv bic s = Inr (ok, txv', bic', s')"
  proof -
    from t have bwd: "\<not> m_Fwd bic" and run: "HandleValidatedTx e txv bic s = Inr (ok, txv', bic', s')"
      by auto
    from HandleValidatedTx_bwd_D [OF bwd run] obtain a b where ok: ok
      and a: "HandleElementVecBwd (HandleBlockElement_Kernel e) (m_vKernels txv)
                (length (m_vKernels txv)) bic s = Inr a"
      and b: "HandleElementVecBwd (HandleBlockElement_Output e) (m_vOutputs txv)
                (length (m_vOutputs txv)) (fst a) (snd a) = Inr b"
      and c: "HandleElementVecBwd (HandleBlockElement_Input e) (m_vInputs txv)
                (length (m_vInputs txv)) (fst b) (snd b) = Inr (bic', s')"
      by blast
    have "steps_ok (HandleBlockElement_Kernel e) (rev (m_vKernels txv)) (bic, s) a"
      using HandleElementVecBwd_steps [OF a] by simp
    moreover have "steps_ok (HandleBlockElement_Output e) (rev (m_vOutputs txv)) a b"
      using HandleElementVecBwd_steps [OF b] by simp
    moreover have "steps_ok (HandleBlockElement_Input e) (rev (m_vInputs txv)) b (bic', s')"
      using HandleElementVecBwd_steps [OF c] by simp
    ultimately show ?thesis using ok by blast
  qed
  have p10: "ok
        \<and> HandleValidatedTx e txv bic
              (s\<lparr>m_Extra := (m_Extra s)\<lparr>m_Txos := m_Txos (m_Extra s) - 1\<rparr>\<rparr>)
            = Inr (True, txv', bic', s')
        \<and> m_Txos (m_Extra s') = m_Txos (m_Extra s) - of_nat (length (m_vOutputs txv)) - 1"
    if "\<not> m_Fwd bic \<and> HandleValidatedBlock e txv bic s = Inr (ok, txv', bic', s')"
    using that HandleValidatedBlock_bwd_full by blast
  have p11: "\<exists>sa sb sc. RollbackTo_UndoInputs e hTo (rb_id0 rb) (rb_Path rb) s = Inr sa
            \<and> RollbackTo_UndoOutputs e (rb_Txos rb) sa = Inr sb
            \<and> RollbackTo_UndoKernels e hTo (rb_Path rb) sb = Inr sc
            \<and> m_Utxos sr = m_Utxos sc \<and> m_DB sr = m_DB sc
            \<and> m_Txos (m_Extra sr) = rb_id0 rb \<and> m_Cursor sr = rb_Cursor rb
            \<and> TestDefinition (rb_Definition rb) sr"
    if "RollbackTo e hTo rb s = Inr sr \<and> hTo \<noteq> sid_Height (cur_Sid (m_Cursor s))"
    using that RollbackTo_D by blast
  have p12: "(RollbackTo_Inputs e idz inps bic s = Inr r)
       = steps_ok (HandleBlockElement_Input e) (filter (\<lambda>v. inp_ID v < idz) inps) (bic, s) r"
    by (rule RollbackTo_Inputs_iff)
  have p13: "\<exists>bA sA. steps_ok (HandleBlockElement_Input e)
                (filter (\<lambda>v. inp_ID v < idz) (su_Inputs st))
                (BlockInterpretCtx_new e (su_Height st) False, s) (bA, sA)
             \<and> RollbackTo_UndoInputs e hTo idz path sA = Inr sr"
    if "hTo < su_Height st \<and> RollbackTo_UndoInputs e hTo idz (st # path) s = Inr sr"
    using that RollbackTo_UndoInputs_D by blast
  have p14: "\<exists>vO bO sO. HandleBlockElement_Output e (snd tx) (BlockInterpretCtx_new e (fst tx) False) s
                = Inr (True, vO, bO, sO)
             \<and> RollbackTo_UndoOutputs e txos sO = Inr sr"
    if "RollbackTo_UndoOutputs e (tx # txos) s = Inr sr"
    using that RollbackTo_UndoOutputs_D by blast
  have p15: "\<exists>bK sK. steps_ok (HandleBlockElement_Kernel e) (rev (su_Kernels st))
                (RollbackTo_bic e st, s) (bK, sK)
             \<and> RollbackTo_UndoKernels e hTo path sK = Inr sr"
    if "hTo < su_Height st \<and> RollbackTo_UndoKernels e hTo (st # path) s = Inr sr"
    using that RollbackTo_UndoKernels_D by blast
  show ?thesis
    apply (intro conjI impI)
    using p1 apply blast
    using p2 apply blast
    using p3 apply blast
    using p3 apply blast
    using p4 apply blast
    using p5 apply blast
    using p6 apply blast
    using p7 apply blast
    using p8 apply blast
    using p8 apply blast
    using p8 apply blast
    using p9 apply blast
    using p9 apply blast
    using p10 apply blast
    using p10 apply blast
    using p10 apply blast
    using p11 apply blast
    using p12 apply blast
    using p13 apply blast
    using p14 apply blast
    using p15 apply blast
    done
qed

lemma bic_bwd_simps2:
  "m_UpdateMmrs (bic_bwd h)" "\<not> m_AlreadyValidated (bic_bwd h)"
  by (simp_all add: bic_bwd_def bic_block_simps)

lemma ex_emit_missing:
  "HandleKernel_Subtype env0 (AssetEmit 9 7 5) (bic_bwd 1) np_empty
   = Inr (False, bic_bwd 1, np_empty)"
  by (simp add: HandleKernel_Subtype_def HandleKernel_AssetEmit_def bic_bwd_simps bic_bwd_simps2
      AssetGetSafe_def np_empty_def)

lemma ex_std:
  "HandleKernel_Subtype env0 (Std None) (bic_bwd 1) np_empty = Inr (True, bic_bwd 1, np_empty)"
  by (simp add: HandleKernel_Subtype_def HandleKernel_Std_def)

lemma ex_input_fwd:
  "HandleBlockElement_Input env0 input_example (bic_block 1) np_empty
   = Inr (False, input_example, bic_block 1, np_empty)"
  by (simp add: HandleBlockElement_Input_def bic_block_simps Traverse_def HeightGenesis_def
      np_empty_simps)

lemma rb_example_simps:
  "rb_id0 rb_example = 0" "rb_Path rb_example = [su_example]"
  "rb_Txos rb_example = [(1, output_example)]" "rb_Cursor rb_example = m_Cursor np_empty"
  "rb_Definition rb_example = (\<lambda>s. 0)"
  "su_Height su_example = 1" "su_Inputs su_example = []"
  "su_Kernels su_example = [kernel_example]" "su_Rollback su_example = []"
  by (simp_all add: rb_example_def su_example_def)

lemma np_block1_cur_simps:
  "m_Utxos np_block1_cur = [(\<lparr>m_X = 21, m_Y = 0\<rparr>, 1) \<mapsto> (0, [])]"
  "m_Txos (m_Extra np_block1_cur) = 2"
  "db_Kernels (m_DB np_block1_cur) = [(31, 1)]"
  "sid_Height (cur_Sid (m_Cursor np_block1_cur)) = 1"
  by (simp_all add: np_block1_cur_def)

lemma ex_rb_inputs:
  "RollbackTo_UndoInputs env0 0 0 [su_example] np_block1_cur = Inr np_block1_cur"
  by (simp add: rb_example_simps)

lemma ex_rb_outputs:
  "RollbackTo_UndoOutputs env0 [(1, output_example)] np_block1_cur
   = Inr (np_block1_cur\<lparr>m_Utxos := Map.empty,
            m_Extra := (m_Extra np_block1_cur)\<lparr>m_Txos := 1\<rparr>\<rparr>)"
  by (simp add: HandleBlockElement_Output_def BlockInterpretCtx_new_def Let_def Utxos_Find_def
      env0_simps get_MinMaturity0_def output_example_def np_block1_cur_simps IsExt_def)

lemma RollbackTo_bic_simps:
  "\<not> m_Fwd (RollbackTo_bic e st)" "m_Height (RollbackTo_bic e st) = su_Height st"
  "m_SaveKid (RollbackTo_bic e st)" "\<not> m_ValidateOnly (RollbackTo_bic e st)"
  by (simp_all add: RollbackTo_bic_def BlockInterpretCtx_new_def)

lemma ex_krn_bwd:
  assumes "\<not> m_Fwd bic" "m_Height bic = 1" "m_SaveKid bic" "\<not> m_ValidateOnly bic"
    and "db_Kernels (m_DB s) = [(31, 1)]"
  shows "HandleBlockElement_Kernel env0 kernel_example bic s
   = Inr (True, kernel_example, bic, s\<lparr>m_DB := (m_DB s)\<lparr>db_Kernels := []\<rparr>\<rparr>)"
  unfolding HandleBlockElement_Kernel_def
  using assms
  by (simp add: Let_def HeightGenesis_def DeleteKernel_def kernel_example_def
      HandleKernel_Subtype_def HandleKernel_Std_def)

lemma ex_rb_kernels:
  "RollbackTo_UndoKernels env0 0 [su_example]
     (np_block1_cur\<lparr>m_Utxos := Map.empty,
            m_Extra := (m_Extra np_block1_cur)\<lparr>m_Txos := 1\<rparr>\<rparr>)
   = Inr (np_block1_cur\<lparr>m_Utxos := Map.empty,
            m_Extra := (m_Extra np_block1_cur)\<lparr>m_Txos := 1\<rparr>,
            m_DB := (m_DB np_block1_cur)\<lparr>db_Kernels := []\<rparr>\<rparr>)"
  by (simp add: rb_example_simps ex_krn_bwd RollbackTo_bic_simps np_block1_cur_simps)

lemma ex_rollback:
  "RollbackTo env0 0 rb_example np_block1_cur = Inr np_empty"
  unfolding RollbackTo_def
  apply (simp add: np_block1_cur_simps rb_example_simps ex_rb_inputs ex_rb_outputs ex_rb_kernels
      Let_def HeightGenesis_def TestDefinition_def RecentStates_RollbackTo_def
      del: RollbackTo_UndoInputs.simps RollbackTo_UndoOutputs.simps RollbackTo_UndoKernels.simps)
  apply (simp add: np_block1_cur_def np_empty_folds)
  apply (simp add: np_empty_def)
  done

theorem backward_failure_is_corruption_witness:
  "\<not> m_Fwd (bic_bwd 1)
   \<and> HandleKernel_Subtype env0 (AssetEmit 9 7 5) (bic_bwd 1) np_empty
       = Inr (False, bic_bwd 1, np_empty)
   \<and> HandleKernel env0 kernel_emit_missing (bic_bwd 1) np_empty = Inl Corrupted
   \<and> HandleKernel_NestedBwd env0 [kernel_emit_missing] 1 (bic_bwd 1) np_empty = Inl Corrupted
   \<and> HandleKernel env0 kernel_nesting (bic_bwd 1) np_empty = Inl Corrupted
   \<and> HandleBlockElement_Input env0 input_example (bic_block 1) np_empty
       = Inr (False, input_example, bic_block 1, np_empty)
   \<and> HandleElementVecBwd (HandleBlockElement_Input env0) [input_example] 1 (bic_block 1) np_empty
       = Inl Corrupted
   \<and> HandleValidatedBlock env0 block_example (bic_bwd 1) np_block1
       = Inr (True, block_example, bic_bwd 1, np_empty)
   \<and> HandleValidatedTx env0 block_example (bic_bwd 1)
         (np_block1\<lparr>m_Extra := (m_Extra np_block1)\<lparr>m_Txos := m_Txos (m_Extra np_block1) - 1\<rparr>\<rparr>)
       = Inr (True, block_example, bic_bwd 1, np_empty)
   \<and> HandleBlockElement_Kernel env0 kernel_example (bic_bwd 1)
         (np_block1\<lparr>m_Extra := (m_Extra np_block1)\<lparr>m_Txos := m_Txos (m_Extra np_block1) - 1\<rparr>\<rparr>)
       = Inr (True, kernel_example, bic_bwd 1, np_block1_mid)
   \<and> steps_ok (HandleBlockElement_Kernel env0) [kernel_example]
         (bic_bwd 1, np_block1\<lparr>m_Extra := (m_Extra np_block1)\<lparr>m_Txos := m_Txos (m_Extra np_block1) - 1\<rparr>\<rparr>)
         (bic_bwd 1, np_block1_mid)
   \<and> 0 \<noteq> sid_Height (cur_Sid (m_Cursor np_block1_cur))
   \<and> RollbackTo env0 0 rb_example np_block1_cur = Inr np_empty
   \<and> RollbackTo_UndoOutputs env0 [(1, output_example)] np_block1_cur
       = Inr (np_block1_cur\<lparr>m_Utxos := Map.empty,
                m_Extra := (m_Extra np_block1_cur)\<lparr>m_Txos := 1\<rparr>\<rparr>)
   \<and> TestDefinition (rb_Definition rb_example) np_empty"
proof -
  let ?s0 = "np_block1\<lparr>m_Extra := (m_Extra np_block1)\<lparr>m_Txos := m_Txos (m_Extra np_block1) - 1\<rparr>\<rparr>"
  have f: "\<not> m_Fwd (bic_bwd 1)" by (simp add: bic_bwd_simps)
  have v: "\<not> m_ValidateOnly (bic_bwd 1)" by (simp add: bic_bwd_simps)
  have a1: "HandleKernel env0 kernel_emit_missing (bic_bwd 1) np_empty = Inl Corrupted"
    unfolding kernel_emit_missing_def
    using backward_failure_is_corruption [where bic = "bic_bwd 1" and e = env0
        and d = "AssetEmit 9 7 5" and s = np_empty and bS = "bic_bwd 1" and sS = np_empty
        and kid = 32 and nested = "[]", THEN conjunct1]
      f ex_emit_missing by blast
  have n0: "HandleKernel_NestedBwd env0 [] (1 - 1) (bic_bwd 1) np_empty = Inr (bic_bwd 1, np_empty)"
    by simp
  have a2: "HandleKernel_NestedBwd env0 [kernel_emit_missing] 1 (bic_bwd 1) np_empty = Inl Corrupted"
    using backward_failure_is_corruption [where e = env0 and n = 1 and ks = "[]"
        and bic = "bic_bwd 1" and s = np_empty and bN = "bic_bwd 1" and sN = np_empty
        and k = kernel_emit_missing and x = Corrupted, THEN conjunct2, THEN conjunct2, THEN conjunct2, THEN conjunct2, THEN conjunct1]
      n0 a1 by blast
  have a3: "HandleKernel env0 kernel_nesting (bic_bwd 1) np_empty = Inl Corrupted"
    unfolding kernel_nesting_def
    using backward_failure_is_corruption [where bic = "bic_bwd 1" and e = env0
        and d = "Std None" and s = np_empty and bS = "bic_bwd 1" and sS = np_empty
        and kid = 33 and nested = "[kernel_emit_missing]" and x = Corrupted, THEN conjunct2, THEN conjunct1]
      f v ex_std a2 by simp
  have st0: "steps_ok (HandleBlockElement_Input env0) (rev (drop (Suc 0) (take 1 [input_example])))
      (bic_block 1, np_empty) (bic_block 1, np_empty)"
    by simp
  have a4: "HandleElementVecBwd (HandleBlockElement_Input env0) [input_example] 1 (bic_block 1) np_empty
       = Inl Corrupted"
    using backward_failure_is_corruption [where h = "HandleBlockElement_Input env0"
        and vs = "[input_example]" and n = 1 and i = 0 and bic = "bic_block 1" and s = np_empty
        and bi = "bic_block 1" and si = np_empty and v' = input_example and b' = "bic_block 1"
        and s'' = np_empty, THEN conjunct2, THEN conjunct2, THEN conjunct2, THEN conjunct2, THEN conjunct2, THEN conjunct2, THEN conjunct1]
      st0 ex_input_fwd by simp
  have a5: "HandleValidatedTx env0 block_example (bic_bwd 1) ?s0
       = Inr (True, block_example, bic_bwd 1, np_empty)"
    using backward_failure_is_corruption [where bic = "bic_bwd 1" and e = env0
        and txv = block_example and s = np_block1 and ok = True and txv' = block_example
        and bic' = "bic_bwd 1" and s' = np_empty, THEN conjunct2, THEN conjunct2, THEN conjunct2, THEN conjunct2, THEN conjunct2, THEN conjunct2, THEN conjunct2, THEN conjunct2, THEN conjunct2, THEN conjunct1]
      f ex_blk by blast
  have a6: "steps_ok (HandleBlockElement_Kernel env0) [kernel_example] (bic_bwd 1, ?s0)
         (bic_bwd 1, np_block1_mid)"
    using ex_krn by (simp add: steps_ok_Cons_iff)
  have c: "0 \<noteq> sid_Height (cur_Sid (m_Cursor np_block1_cur))"
    by (simp add: np_block1_cur_simps)
  have a7: "TestDefinition (rb_Definition rb_example) np_empty"
    using backward_failure_is_corruption [where e = env0 and hTo = 0 and rb = rb_example
        and s = np_block1_cur and sr = np_empty, THEN conjunct2, THEN conjunct2, THEN conjunct2, THEN conjunct2, THEN conjunct2, THEN conjunct2, THEN conjunct2, THEN conjunct2, THEN conjunct2, THEN conjunct2, THEN conjunct1]
      ex_rollback c by blast
  show ?thesis
    using f ex_emit_missing a1 a2 a3 ex_input_fwd a4 ex_blk a5 ex_krn a6 c ex_rollback
      ex_rb_outputs a7
    by blast
qed

end
